(* ===== verification/Prelude.thy ===== *)
theory Prelude
  imports Complex_Main "HOL-Library.Sublist" "HOL-Library.Multiset"
begin

text \<open>
  Shared vocabulary of the development: the named collections the component theories
  fill, the type synonyms that name the model's JavaScript types, and generic lemmas on
  lists and options that several components use (filtering a list by id, updating the
  elements that match an id, removing one element of a list of pending callbacks).
\<close>

named_theorems js_simps "evaluation rules of the JavaScript runtime model"
named_theorems handler_defs "definitions of the React event handlers of a screen"

text \<open>
  A JavaScript string is modelled as the list of bytes of its UTF-8 encoding (Isabelle's
  \<open>string\<close>). The app only searches for ASCII keywords and compares with ASCII
  literals, and a UTF-8 byte sequence contains an ASCII byte exactly where the UTF-16
  string contains that ASCII code unit, so searching and comparing agree with the
  source. Identifiers produced by \<open>Date.now()\<close> are milliseconds, a \<open>nat\<close>.
\<close>

type_synonym js_string = string
type_synonym millis = nat

subsection \<open>Generic list lemmas\<close>

lemma length_filter_neq_id:
  assumes "distinct (map f xs)" and "f a \<in> set (map f xs)"
  shows "length (filter (\<lambda>x. f x \<noteq> f a) xs) = length xs - 1"
  using assms
proof (induction xs)
  case Nil
  then show ?case by simp
next
  case (Cons y ys)
  show ?case
  proof (cases "f y = f a")
    case True
    from True Cons.prems have "\<forall>x \<in> set ys. f x \<noteq> f a" by (auto simp: image_iff)
    then have "filter (\<lambda>x. f x \<noteq> f a) ys = ys" by (simp add: filter_id_conv)
    with True show ?thesis by simp
  next
    case False
    with Cons.prems have "f a \<in> set (map f ys)" and "distinct (map f ys)" by auto
    with Cons.IH have "length (filter (\<lambda>x. f x \<noteq> f a) ys) = length ys - 1" by simp
    moreover from \<open>f a \<in> set (map f ys)\<close> have "ys \<noteq> []" by auto
    ultimately show ?thesis using False by simp
  qed
qed

lemma distinct_map_filter_keep:
  "distinct (map f xs) \<Longrightarrow> distinct (map f (filter P xs))"
  by (induction xs) auto

lemma map_update_where_length [simp]:
  "length (map (\<lambda>x. if P x then g x else x) xs) = length xs"
  by simp

lemma map_update_where_keys:
  "(\<And>x. f (g x) = f x) \<Longrightarrow> map f (map (\<lambda>x. if P x then g x else x) xs) = map f xs"
  by (induction xs) auto

lemma foldl_max_Max: "foldl max (a::'a::linorder) xs = Max (insert a (set xs))"
proof (induction xs arbitrary: a)
  case (Cons x xs)
  have "Max (insert (max a x) (set xs)) = Max (insert a (insert x (set xs)))"
    by (cases "set xs = {}") (simp_all add: max.assoc)
  with Cons show ?case by simp
qed simp

subsection \<open>Removing one element by position\<close>

text \<open>
  A list of pending callbacks from which the one that runs is taken out: the elements
  before position \<open>i\<close>, then those after it.
\<close>

definition remove_nth :: "nat \<Rightarrow> 'a list \<Rightarrow> 'a list" where
  "remove_nth i xs = take i xs @ drop (Suc i) xs"

lemma length_remove_nth [simp]:
  "i < length xs \<Longrightarrow> length (remove_nth i xs) = length xs - 1"
  by (simp add: remove_nth_def)

lemma mset_remove_nth:
  "i < length xs \<Longrightarrow> mset (remove_nth i xs) = mset xs - {# xs ! i #}"
proof -
  assume i: "i < length xs"
  have "xs = take i xs @ xs ! i # drop (Suc i) xs"
    using i by (simp add: Cons_nth_drop_Suc)
  then have "mset xs = mset (take i xs @ drop (Suc i) xs) + {# xs ! i #}"
    by (metis add.commute add_mset_add_single mset.simps(2) mset_append union_mset_add_mset_right)
  then show ?thesis by (simp add: remove_nth_def)
qed

lemma set_remove_nth_subset: "set (remove_nth i xs) \<subseteq> set xs"
  by (auto simp: remove_nth_def dest: in_set_takeD in_set_dropD)

subsection \<open>Scaled sums\<close>

text \<open>A sum of shares \<open>f x / c * k\<close>, as percentages of a common total are summed.\<close>

lemma sum_list_scaled:
  "sum_list (map (\<lambda>x. of_int (f x) / c * k) xs) = of_int (sum_list (map f xs)) / c * (k :: rat)"
  by (induction xs) (simp_all add: add_divide_distrib distrib_right)

end
