(* ===== verification/JsRuntime.thy ===== *)
theory JsRuntime
  imports Prelude
begin

text \<open>
  The JavaScript built-ins the app calls, as HOL functions: \<open>String.prototype.toLowerCase\<close>,
  \<open>includes\<close>, \<open>trim\<close>, \<open>Array.prototype.join\<close>, the decimal printing of numbers
  (template literals \<open>${x}\<close> and \<open>Date.now().toString()\<close>), and the division and
  \<open>Math.min\<close> of IEEE numbers where a zero divisor matters. They are not code of the
  repository: each is written from the ECMAScript behaviour on the inputs the app gives it,
  with what is left out said at the definition.
\<close>

subsection \<open>Lower case\<close>

text \<open>
  \<open>toLowerCase\<close> on the ASCII range: \<open>A\<close>--\<open>Z\<close> become \<open>a\<close>--\<open>z\<close>, every other
  byte is kept. Unicode case mapping beyond ASCII is not modelled.
\<close>

definition js_lower_char :: "char \<Rightarrow> char" where
  "js_lower_char c = (let n = (of_char c :: nat) in if 65 \<le> n \<and> n \<le> 90 then char_of (n + 32) else c)"

definition js_toLowerCase :: "js_string \<Rightarrow> js_string" where
  "js_toLowerCase s = map js_lower_char s"

lemma js_lower_char_idem [simp]: "js_lower_char (js_lower_char c) = js_lower_char c"
  by (simp add: js_lower_char_def Let_def of_char_of)

lemma js_toLowerCase_idem [simp]: "js_toLowerCase (js_toLowerCase s) = js_toLowerCase s"
  by (simp add: js_toLowerCase_def)

subsection \<open>Substring search\<close>

text \<open>\<open>s.startsWith(p)\<close> and \<open>s.includes(p)\<close>, searching from every position in turn.\<close>

fun js_startsWith :: "js_string \<Rightarrow> js_string \<Rightarrow> bool" where
  "js_startsWith s [] = True"
| "js_startsWith [] (c # cs) = False"
| "js_startsWith (x # xs) (c # cs) = (x = c \<and> js_startsWith xs cs)"

fun js_includes :: "js_string \<Rightarrow> js_string \<Rightarrow> bool" where
  "js_includes [] p = (p = [])"
| "js_includes (x # xs) p = (js_startsWith (x # xs) p \<or> js_includes xs p)"

lemma js_startsWith_prefix: "js_startsWith s p \<longleftrightarrow> prefix p s"
  by (induction s p rule: js_startsWith.induct) auto

text \<open>The search loop decides the library's contiguous-sublist relation.\<close>

lemma js_includes_sublist: "js_includes s p \<longleftrightarrow> sublist p s"
  by (induction s) (auto simp: js_startsWith_prefix sublist_Cons_right)

lemma js_includes_append_left: "js_includes s p \<Longrightarrow> js_includes (t @ s) p"
  by (simp add: js_includes_sublist) (meson sublist_append_leftI sublist_order.order_trans)

lemma js_includes_append_right: "js_includes s p \<Longrightarrow> js_includes (s @ t) p"
  by (simp add: js_includes_sublist) (meson sublist_append_rightI sublist_order.order_trans)

lemma js_includes_self [simp]: "js_includes s s"
  by (simp add: js_includes_sublist)

lemma js_includes_trans: "js_includes a b \<Longrightarrow> js_includes b c \<Longrightarrow> js_includes a c"
  unfolding js_includes_sublist by (meson sublist_order.order_trans)

lemma js_includes_infix: "js_includes (x @ p @ y) p"
  by (simp add: js_includes_sublist)

subsection \<open>Trim\<close>

text \<open>
  \<open>trim\<close> removes leading and trailing white space. The ASCII white space and line
  terminators (tab, line feed, vertical tab, form feed, carriage return, space) are
  modelled; the non-ASCII ones (no-break space, byte order mark, the \<open>Zs\<close> category,
  line and paragraph separators) are not.
\<close>

definition js_space :: "char \<Rightarrow> bool" where
  "js_space c = ((of_char c :: nat) \<in> {9, 10, 11, 12, 13, 32})"

definition js_trim :: "js_string \<Rightarrow> js_string" where
  "js_trim s = rev (dropWhile js_space (rev (dropWhile js_space s)))"

lemma js_trim_empty_iff: "js_trim s = [] \<longleftrightarrow> (\<forall>c \<in> set s. js_space c)"
proof -
  have "js_trim s = [] \<longleftrightarrow> dropWhile js_space (rev (dropWhile js_space s)) = []"
    by (simp add: js_trim_def)
  also have "\<dots> \<longleftrightarrow> (\<forall>c \<in> set (dropWhile js_space s). js_space c)"
    by (simp add: dropWhile_eq_Nil_conv)
  also have "\<dots> \<longleftrightarrow> (\<forall>c \<in> set s. js_space c)"
    by (induction s) auto
  finally show ?thesis .
qed

lemma js_trim_Nil [simp, js_simps]: "js_trim [] = []"
  by (simp add: js_trim_def)

subsection \<open>Array join\<close>

text \<open>\<open>xs.join(sep)\<close> on an array of strings.\<close>

fun js_join :: "js_string \<Rightarrow> js_string list \<Rightarrow> js_string" where
  "js_join sep [] = []"
| "js_join sep [x] = x"
| "js_join sep (x # y # ys) = x @ sep @ js_join sep (y # ys)"

lemma js_join_includes: "x \<in> set xs \<Longrightarrow> js_includes (js_join sep xs) x"
proof (induction sep xs rule: js_join.induct)
  case (3 sep x y ys)
  then show ?case
    by (auto intro: js_includes_append_left js_includes_append_right)
qed simp_all

subsection \<open>String split\<close>

text \<open>
  \<open>s.split(d)\<close> for a one-character separator: the pieces between the separators,
  an empty piece where two separators meet or at either end; never the empty array.
  Splitting and joining with the same separator are inverse.
\<close>

fun js_split :: "char \<Rightarrow> js_string \<Rightarrow> js_string list" where
  "js_split d [] = [[]]"
| "js_split d (c # cs) =
     (if c = d then [] # js_split d cs
      else (case js_split d cs of w # ws \<Rightarrow> (c # w) # ws | [] \<Rightarrow> [[c]]))"

lemma js_split_not_Nil [simp]: "js_split d s \<noteq> []"
  by (induction d s rule: js_split.induct) (auto split: list.split)

lemma js_join_Cons: "ws \<noteq> [] \<Longrightarrow> js_join sep (w # ws) = w @ sep @ js_join sep ws"
  by (cases ws) simp_all

lemma js_join_cons_char [simp]: "js_join sep ((c # w) # ws) = c # js_join sep (w # ws)"
  by (cases ws) simp_all

lemma js_join_split: "js_join [d] (js_split d s) = s"
proof (induction d s rule: js_split.induct)
  case (2 d c cs)
  then show ?case
    by (auto simp: js_join_Cons split: list.split)
qed simp

lemma js_split_join:
  "gs \<noteq> [] \<Longrightarrow> (\<forall>g \<in> set gs. d \<notin> set g) \<Longrightarrow> js_split d (js_join [d] gs) = gs"
proof (induction gs)
  case Nil
  then show ?case by simp
next
  case (Cons g gs)
  have nod: "d \<notin> set g" using Cons.prems(2) by simp
  have split_app: "js_split d (g @ d # rest) = g # js_split d rest" for rest
    using nod by (induction g) auto
  have split_only: "js_split d g = [g]"
    using nod by (induction g) auto
  show ?case
  proof (cases gs)
    case Nil
    then show ?thesis using split_only by simp
  next
    case (Cons g' gs')
    with Cons.IH Cons.prems(2) have "js_split d (js_join [d] gs) = gs" by auto
    with Cons show ?thesis using split_app by (simp add: js_join_Cons)
  qed
qed

subsection \<open>Decimal printing of naturals\<close>

text \<open>\<open>n.toString()\<close> for a non-negative integer below \<open>10\<^sup>21\<close>: its decimal digits.\<close>

definition digit_char :: "nat \<Rightarrow> char" where
  "digit_char d = char_of (48 + d)"

fun nat_str :: "nat \<Rightarrow> js_string" where
  "nat_str n = (if n < 10 then [digit_char n] else nat_str (n div 10) @ [digit_char (n mod 10)])"

declare nat_str.simps [simp del]

text \<open>Reading the digits back: the inverse used to show that printing loses nothing.\<close>

definition char_digit :: "char \<Rightarrow> nat" where
  "char_digit c = of_char c - 48"

definition digits_val :: "js_string \<Rightarrow> nat" where
  "digits_val s = foldl (\<lambda>acc c. 10 * acc + char_digit c) 0 s"

lemma char_digit_digit_char [simp]: "d < 10 \<Longrightarrow> char_digit (digit_char d) = d"
  by (simp add: char_digit_def digit_char_def of_char_of)

lemma digits_val_snoc [simp]: "digits_val (s @ [c]) = 10 * digits_val s + char_digit c"
  by (simp add: digits_val_def)

lemma digits_val_nat_str [simp]: "digits_val (nat_str n) = n"
proof (induction n rule: nat_str.induct)
  case (1 n)
  show ?case
  proof (cases "n < 10")
    case True
    then show ?thesis by (simp add: nat_str.simps [of n] digits_val_def)
  next
    case False
    with "1.IH" show ?thesis by (simp add: nat_str.simps [of n])
  qed
qed

lemma nat_str_inj: "nat_str m = nat_str n \<longleftrightarrow> m = n"
  by (metis digits_val_nat_str)

lemma nat_str_not_Nil [simp]: "nat_str n \<noteq> []"
  by (subst nat_str.simps) simp

lemma nat_str_chars: "c \<in> set (nat_str n) \<Longrightarrow> \<exists>k < 10. c = digit_char k"
proof (induction n rule: nat_str.induct)
  case (1 n)
  show ?case
  proof (cases "n < 10")
    case True
    with "1.prems" show ?thesis by (auto simp: nat_str.simps [of n])
  next
    case False
    with "1.prems" consider "c \<in> set (nat_str (n div 10))" | "c = digit_char (n mod 10)"
      by (auto simp: nat_str.simps [of n])
    then show ?thesis
    proof cases
      case 1
      with False "1.IH" show ?thesis by blast
    next
      case 2
      then show ?thesis by (intro exI [of _ "n mod 10"]) simp
    qed
  qed
qed

text \<open>\<open>String(i)\<close> of an integer, as a template literal prints it.\<close>

definition int_str :: "int \<Rightarrow> js_string" where
  "int_str i = (if i < 0 then ''-'' @ nat_str (nat (- i)) else nat_str (nat i))"

subsection \<open>Numbers: decimal values and their printing\<close>

text \<open>
  The app's numbers are decimal literals (\<open>25.1\<close>, \<open>1250\<close>) and differences of
  them. A number is modelled exactly as \<open>JsNum m e\<close>, the value \<open>m / 10\<^sup>e\<close>; the
  binary rounding of IEEE doubles is not modelled (no operation of the app leaves the
  decimals of its literals). Comparison cross-multiplies, subtraction aligns the exponents.
\<close>

datatype js_number = JsNum int nat

fun num_val :: "js_number \<Rightarrow> rat" where
  "num_val (JsNum m e) = of_int m / 10 ^ e"

fun num_less :: "js_number \<Rightarrow> js_number \<Rightarrow> bool" where
  "num_less (JsNum m1 e1) (JsNum m2 e2) = (m1 * 10 ^ e2 < m2 * 10 ^ e1)"

fun num_sub :: "js_number \<Rightarrow> js_number \<Rightarrow> js_number" where
  "num_sub (JsNum m1 e1) (JsNum m2 e2) = JsNum (m1 * 10 ^ e2 - m2 * 10 ^ e1) (e1 + e2)"

lemma num_less_val: "num_less a b \<longleftrightarrow> num_val a < num_val b"
proof (cases a; cases b)
  fix m1 e1 m2 e2
  assume ab: "a = JsNum m1 e1" "b = JsNum m2 e2"
  have pos: "(0::rat) < 10 ^ e1" "(0::rat) < 10 ^ e2" by simp_all
  have "(of_int m1 / 10 ^ e1 < (of_int m2 / 10 ^ e2 :: rat)) \<longleftrightarrow>
        of_int m1 * 10 ^ e2 < (of_int m2 * 10 ^ e1 :: rat)"
    using pos by (simp add: divide_less_eq less_divide_eq field_simps)
  also have "\<dots> \<longleftrightarrow> m1 * 10 ^ e2 < m2 * 10 ^ e1"
    by (metis (mono_tags) of_int_less_iff of_int_mult of_int_numeral of_int_power)
  finally show ?thesis using ab by simp
qed

lemma num_sub_val: "num_val (num_sub a b) = num_val a - num_val b"
  by (cases a; cases b) (simp add: field_simps power_add)

text \<open>
  \<open>x.toString()\<close> (and \<open>${x}\<close>): trailing zeros of the fraction are dropped, a
  negative value gets a minus sign, the fraction is padded to its exponent with leading
  zeros. The exponent notation JavaScript uses from \<open>10\<^sup>21\<close> up and below
  \<open>10\<^sup>-6\<close> is not modelled.
\<close>

fun num_norm :: "int \<Rightarrow> nat \<Rightarrow> int \<times> nat" where
  "num_norm m 0 = (m, 0)"
| "num_norm m (Suc e) = (if m mod 10 = 0 then num_norm (m div 10) e else (m, Suc e))"

definition pad_left :: "nat \<Rightarrow> js_string \<Rightarrow> js_string" where
  "pad_left n s = replicate (n - length s) (CHR ''0'') @ s"

fun num_str :: "js_number \<Rightarrow> js_string" where
  "num_str (JsNum m e) =
     (let (m', e') = num_norm m e; a = nat \<bar>m'\<bar>; sign = (if m' < 0 then ''-'' else [])
      in if e' = 0 then sign @ nat_str a
         else sign @ nat_str (a div 10 ^ e') @ ''.'' @ pad_left e' (nat_str (a mod 10 ^ e')))"

subsection \<open>IEEE division and Math.min\<close>

text \<open>
  Where a divisor may be zero the result is an IEEE value: a finite rational, an
  infinity, or \<open>NaN\<close>. \<open>a / 0\<close> is \<open>+Infinity\<close>, \<open>-Infinity\<close> or \<open>NaN\<close> by
  the sign of \<open>a\<close>; \<open>Math.min\<close> returns \<open>NaN\<close> when an argument is \<open>NaN\<close>.
\<close>

datatype js_real = JFin rat | JPosInf | JNegInf | JNaN

definition js_div_int :: "int \<Rightarrow> int \<Rightarrow> js_real" where
  "js_div_int a b =
     (if b = 0 then (if 0 < a then JPosInf else if a < 0 then JNegInf else JNaN)
      else JFin (of_int a / of_int b))"

fun js_times :: "js_real \<Rightarrow> rat \<Rightarrow> js_real" where
  "js_times (JFin x) c = JFin (x * c)"
| "js_times JPosInf c = (if 0 < c then JPosInf else if c < 0 then JNegInf else JNaN)"
| "js_times JNegInf c = (if 0 < c then JNegInf else if c < 0 then JPosInf else JNaN)"
| "js_times JNaN c = JNaN"

fun js_min :: "rat \<Rightarrow> js_real \<Rightarrow> js_real" where
  "js_min c (JFin x) = JFin (min c x)"
| "js_min c JPosInf = JFin c"
| "js_min c JNegInf = JNegInf"
| "js_min c JNaN = JNaN"

end
