(* ===== verification/Types.thy ===== *)
theory Types
  imports JsRuntime
begin

text \<open>
  The shared data types of \<open>src/types.ts\<close>: the three enums as datatypes with the
  source's constructors, the interfaces as records. Field names carry a prefix where two
  interfaces share a name (\<open>id\<close>, \<open>status\<close>, \<open>timestamp\<close>), since a record field is a
  constant of the theory. Optional fields (\<open>isFan?\<close>, \<open>assignedTo?\<close>) are options. A
  \<open>Date\<close> is its millisecond time value.

  \<open>Severity\<close> gets the order of the dashboard's reduction: \<open>OFFLINE < NORMAL <
  WARNING < CRITICAL\<close>. The spec orders only the last three; \<open>OFFLINE\<close> is put below
  \<open>NORMAL\<close> because the reduction of \<open>Dashboard.tsx\<close> never lets it win, as
  \<open>Dashboard_Status\<close> proves.
\<close>

datatype severity = CRITICAL | WARNING | NORMAL | OFFLINE

datatype tab = HOME | STATS | TRENDS | TASKS | PROGRESS | CAMERA | SETTINGS

datatype task_status = PENDING | IN_PROGRESS | COMPLETED | OVERDUE

record metric =
  metric_id :: js_string
  label :: js_string
  metric_value :: js_number
  metric_unit :: js_string
  metric_status :: severity
  history :: "js_number list"
  isFan :: "bool option"
  isActive :: "bool option"

record alert =
  alert_id :: js_string
  chamber :: js_string
  alert_timestamp :: js_string
  message :: js_string
  action :: js_string
  alert_severity :: severity

record task =
  task_id :: js_string
  title :: js_string
  location :: js_string
  assignedTo :: "js_string option"
  task_status :: task_status
  task_timestamp :: js_string
  description :: js_string

datatype worker_status = AVAILABLE | BUSY | WORKER_OFFLINE

record worker_profile =
  worker_id :: js_string
  worker_name :: js_string
  worker_status :: worker_status
  avatar :: js_string

datatype sender = User | Bot

record chat_message =
  msg_id :: js_string
  msg_text :: js_string
  sender :: sender
  msg_timestamp :: millis

subsection \<open>The order of severities\<close>

fun sev_rank :: "severity \<Rightarrow> nat" where
  "sev_rank OFFLINE = 0"
| "sev_rank NORMAL = 1"
| "sev_rank WARNING = 2"
| "sev_rank CRITICAL = 3"

lemma sev_rank_inj: "sev_rank a = sev_rank b \<longleftrightarrow> a = b"
  by (cases a; cases b) simp_all

instantiation severity :: linorder
begin

definition less_eq_severity :: "severity \<Rightarrow> severity \<Rightarrow> bool" where
  "less_eq_severity a b = (sev_rank a \<le> sev_rank b)"

definition less_severity :: "severity \<Rightarrow> severity \<Rightarrow> bool" where
  "less_severity a b = (sev_rank a < sev_rank b)"

instance
proof
  fix a b c :: severity
  show "(a < b) = (a \<le> b \<and> \<not> b \<le> a)"
    by (auto simp: less_eq_severity_def less_severity_def)
  show "a \<le> a" by (simp add: less_eq_severity_def)
  show "a \<le> b \<Longrightarrow> b \<le> c \<Longrightarrow> a \<le> c" by (simp add: less_eq_severity_def)
  show "a \<le> b \<Longrightarrow> b \<le> a \<Longrightarrow> a = b"
    by (simp add: less_eq_severity_def flip: sev_rank_inj)
  show "a \<le> b \<or> b \<le> a" by (auto simp: less_eq_severity_def)
qed

end

lemma severity_le_simps [simp]:
  "OFFLINE \<le> s" "s \<le> CRITICAL" "NORMAL \<le> WARNING" "NORMAL \<le> CRITICAL" "WARNING \<le> CRITICAL"
  "\<not> CRITICAL \<le> WARNING" "\<not> WARNING \<le> NORMAL" "\<not> NORMAL \<le> OFFLINE" "\<not> CRITICAL \<le> NORMAL"
  by (cases s; simp add: less_eq_severity_def)+

lemma max_severity_simps [simp]:
  "max CRITICAL s = CRITICAL" "max s CRITICAL = CRITICAL"
  "max OFFLINE s = s" "max s OFFLINE = s"
  by (simp_all add: max_def less_eq_severity_def) (cases s; simp)+

end
