(* ===== verification/Constants.thy ===== *)
theory Constants
  imports Types
begin

text \<open>
  The static data of \<open>src/constants.ts\<close> that the modelled logic reads: the dashboard
  metrics, the alerts and tasks the Tasks screen starts from, the workers, the chamber
  list, the optimal bands of the trend charts, the FAQ of the assistant, and the sensor
  context the assistant reasons about. Non-ASCII characters are written as their UTF-8
  bytes (\<open>deg_sign\<close>, \<open>en_dash\<close>, \<open>em_dash\<close>). The random trend series
  (\<open>generateTrend\<close>, \<open>Math.random\<close>) and the statistics tables of the Stats screen are
  display data and are not modelled.
\<close>

definition deg_sign :: js_string where "deg_sign = [CHR 0xC2, CHR 0xB0]"
definition en_dash :: js_string where "en_dash = [CHR 0xE2, CHR 0x80, CHR 0x93]"
definition em_dash :: js_string where "em_dash = [CHR 0xE2, CHR 0x80, CHR 0x94]"

subsection \<open>Assistant FAQ\<close>

record faq_item =
  faq_q :: js_string
  faq_a :: js_string

definition SPORCBOT_FAQ :: "faq_item list" where
  "SPORCBOT_FAQ = [
    \<lparr>faq_q = ''Optimal CO2 during pinning?'', faq_a = ''Maintain 800'' @ en_dash @ ''1200 ppm. Use frequent fresh air exchanges to avoid spikes.''\<rparr>,
    \<lparr>faq_q = ''Ideal humidity for fruiting?'', faq_a = ''Keep 85'' @ en_dash @ ''95% RH. Prefer short mist pulses to avoid pooling.''\<rparr>,
    \<lparr>faq_q = ''Best temperature for oyster?'', faq_a = ''Target 20'' @ en_dash @ ''22'' @ deg_sign @ ''C (range 18'' @ en_dash @ ''24'' @ deg_sign @ ''C) for consistent cap formation.''\<rparr>,
    \<lparr>faq_q = ''CO2 rising at night '' @ em_dash @ '' fix?'', faq_a = ''Add low-speed ventilation cycles (10'' @ en_dash @ ''15 min/hr) overnight; verify intake filters.''\<rparr>,
    \<lparr>faq_q = ''Caps yellowing '' @ em_dash @ '' cause?'', faq_a = ''Likely low humidity or heat. Increase RH and diffuse lighting; check hotspots.''\<rparr>,
    \<lparr>faq_q = ''Post-harvest misting?'', faq_a = ''Mist 8'' @ en_dash @ ''12 minutes immediately, then hold ~90% RH for 2'' @ en_dash @ ''3 hours to rehydrate.''\<rparr>,
    \<lparr>faq_q = ''Assign corrective action fast?'', faq_a = ''Open Alerts, tap Assign Task, select worker, add duration and notes, confirm.''\<rparr>,
    \<lparr>faq_q = ''Flat RH but rising CO2?'', faq_a = ''Ventilation inadequate. Increase air exchanges; inspect dampers and obstructions.''\<rparr>,
    \<lparr>faq_q = ''Stems elongating?'', faq_a = ''High CO2 or poor light diffusion. Improve airflow and adjust light angle/intensity.''\<rparr>,
    \<lparr>faq_q = ''Misting: long vs pulses?'', faq_a = ''Prefer 1'' @ en_dash @ ''2 min pulses spaced 10'' @ en_dash @ ''15 min; reduces pooling and bacterial risk.''\<rparr>,
    \<lparr>faq_q = ''Shiitake vs oyster conditions?'', faq_a = ''Shiitake browning at lower RH and cooler temps (16'' @ en_dash @ ''20'' @ deg_sign @ ''C); longer rest between flushes.''\<rparr>,
    \<lparr>faq_q = ''Basic PPE for maintenance?'', faq_a = ''N95/KN95, nitrile gloves, eye protection; sanitize hands/tools between chambers.''\<rparr>]"

subsection \<open>Dashboard metrics, alerts, tasks, workers\<close>

definition MOCK_METRICS :: "metric list" where
  "MOCK_METRICS = [
    \<lparr>metric_id = ''temp'', label = ''Temperature'', metric_value = JsNum 225 1, metric_unit = deg_sign @ ''C'',
     metric_status = NORMAL, history = [JsNum 21 0, JsNum 215 1, JsNum 22 0, JsNum 222 1, JsNum 225 1, JsNum 225 1, JsNum 224 1, JsNum 225 1],
     isFan = None, isActive = None\<rparr>,
    \<lparr>metric_id = ''humidity'', label = ''Humidity %RH'', metric_value = JsNum 78 0, metric_unit = ''%'',
     metric_status = WARNING, history = [JsNum 85 0, JsNum 84 0, JsNum 82 0, JsNum 80 0, JsNum 79 0, JsNum 78 0, JsNum 78 0, JsNum 78 0],
     isFan = None, isActive = None\<rparr>,
    \<lparr>metric_id = ''co2'', label = ''CO2'', metric_value = JsNum 850 0, metric_unit = ''ppm'',
     metric_status = NORMAL, history = [JsNum 800 0, JsNum 810 0, JsNum 820 0, JsNum 830 0, JsNum 840 0, JsNum 850 0, JsNum 850 0, JsNum 850 0],
     isFan = None, isActive = None\<rparr>,
    \<lparr>metric_id = ''aer'', label = ''Air Flow (ACH)'', metric_value = JsNum 124 1, metric_unit = ''ACH'',
     metric_status = NORMAL, history = [JsNum 12 0, JsNum 12 0, JsNum 12 0, JsNum 122 1, JsNum 124 1, JsNum 124 1, JsNum 124 1, JsNum 124 1],
     isFan = Some True, isActive = Some True\<rparr>]"

definition MOCK_ALERTS :: "alert list" where
  "MOCK_ALERTS = [
    \<lparr>alert_id = ''a1'', chamber = ''Chamber 1 - Shiitake'', alert_timestamp = ''10:42 AM'',
     message = ''Humidity dropped below 80%'', action = ''Run misting system for 12 mins'', alert_severity = WARNING\<rparr>,
    \<lparr>alert_id = ''a2'', chamber = ''Chamber 3 - Button'', alert_timestamp = ''09:15 AM'',
     message = ''CO2 Levels Critical (>1200ppm)'', action = ''Check ventilation intake fans'', alert_severity = CRITICAL\<rparr>]"

definition MOCK_TASKS :: "task list" where
  "MOCK_TASKS = [
    \<lparr>task_id = ''t1'', title = ''Fix Fan'', location = ''Chamber 2'', assignedTo = None, task_status = PENDING,
     task_timestamp = ''2h ago'', description = ''Main intake fan making noise. Check bearings.''\<rparr>,
    \<lparr>task_id = ''t2'', title = ''Misting Cycle'', location = ''Chamber 3'', assignedTo = None, task_status = IN_PROGRESS,
     task_timestamp = ''15m ago'', description = ''Manual misting required due to sensor calibration.''\<rparr>]"

definition WORKERS :: "worker_profile list" where
  "WORKERS = [
    \<lparr>worker_id = ''w1'', worker_name = ''John Doe'', worker_status = AVAILABLE, avatar = ''https://api.dicebear.com/7.x/avataaars/svg?seed=John''\<rparr>,
    \<lparr>worker_id = ''w2'', worker_name = ''Maria S.'', worker_status = BUSY, avatar = ''https://api.dicebear.com/7.x/avataaars/svg?seed=Maria''\<rparr>,
    \<lparr>worker_id = ''w3'', worker_name = ''Alex T.'', worker_status = AVAILABLE, avatar = ''https://api.dicebear.com/7.x/avataaars/svg?seed=Alex''\<rparr>]"

subsection \<open>Company and employee profile of the Settings screen\<close>

record company_info =
  ci_address :: js_string
  ci_gst :: js_string
  ci_size :: js_string
  ci_employees :: nat

definition COMPANY_INFO :: company_info where
  "COMPANY_INFO = \<lparr>ci_address = ''123 Mycelium Drive, Fungi Valley, CA 94043'', ci_gst = ''22AAAAA0000A1Z5'',
     ci_size = ''Large'', ci_employees = 42\<rparr>"

record timeline_event =
  ev_date :: js_string
  ev_title :: js_string
  ev_description :: js_string

record employee_profile =
  ep_name :: js_string
  ep_id :: js_string
  ep_gender :: js_string
  ep_role :: js_string
  ep_avatar :: js_string
  ep_joinDate :: js_string
  ep_timeline :: "timeline_event list"

definition EMPLOYEE_PROFILE :: employee_profile where
  "EMPLOYEE_PROFILE = \<lparr>ep_name = ''Sarah Chen'', ep_id = ''EMP-2024-089'', ep_gender = ''Female'',
     ep_role = ''Senior Mycologist'', ep_avatar = ''https://api.dicebear.com/7.x/avataaars/svg?seed=Sarah'',
     ep_joinDate = ''March 12, 2021'',
     ep_timeline = [
       \<lparr>ev_date = ''Mar 2021'', ev_title = ''Joined Sporacle'', ev_description = ''Started as Junior Mycologist in Chamber 1.''\<rparr>,
       \<lparr>ev_date = ''Nov 2021'', ev_title = ''Certification'', ev_description = ''Completed Advanced Spore Analysis certification.''\<rparr>,
       \<lparr>ev_date = ''Aug 2022'', ev_title = ''Promoted'', ev_description = ''Promoted to Team Lead for Oyster cultivation.''\<rparr>,
       \<lparr>ev_date = ''Jan 2024'', ev_title = ''Senior Role'', ev_description = ''Promoted to Senior Mycologist overseeing all chambers.''\<rparr>,
       \<lparr>ev_date = ''Present'', ev_title = ''Current'', ev_description = ''Leading research on yield optimization.''\<rparr>]\<rparr>"

subsection \<open>Chambers\<close>

definition CHAMBER_LIST :: "js_string list" where
  "CHAMBER_LIST = [''Chamber 1 - Shiitake'', ''Chamber 2 - Oyster'', ''Chamber 3 - Button'', ''Chamber 4 - Milky'',
    ''Chamber 5 - Lion's Mane'', ''Chamber 6 - Enoki'', ''Chamber 7 - Portobello'']"

subsection \<open>Optimal bands of the trend charts\<close>

record trend_band =
  trend_id :: js_string
  trend_title :: js_string
  trend_unit :: js_string
  trend_color :: js_string
  optimalMin :: js_number
  optimalMax :: js_number

definition TRENDS_BANDS :: "trend_band list" where
  "TRENDS_BANDS = [
    \<lparr>trend_id = ''temp'', trend_title = ''Temperature'', trend_unit = deg_sign @ ''C'', trend_color = ''#10B981'', optimalMin = JsNum 21 0, optimalMax = JsNum 24 0\<rparr>,
    \<lparr>trend_id = ''humidity'', trend_title = ''Humidity'', trend_unit = ''%'', trend_color = ''#1E88E5'', optimalMin = JsNum 80 0, optimalMax = JsNum 90 0\<rparr>,
    \<lparr>trend_id = ''co2'', trend_title = ''CO2 Levels'', trend_unit = ''ppm'', trend_color = ''#F59E0B'', optimalMin = JsNum 600 0, optimalMax = JsNum 1000 0\<rparr>,
    \<lparr>trend_id = ''airflow'', trend_title = ''Air Flow'', trend_unit = ''ACH'', trend_color = ''#8B5CF6'', optimalMin = JsNum 10 0, optimalMax = JsNum 15 0\<rparr>]"

subsection \<open>The assistant's sensor context\<close>

record sensors =
  temp :: js_number
  humidity :: js_number
  co2 :: js_number
  airflow :: js_number

record threshold =
  th_min :: js_number
  th_max :: js_number
  th_ideal :: js_number

record thresholds =
  thr_temp :: threshold
  thr_humidity :: threshold
  thr_co2 :: threshold

record sporcbot_context =
  ctx_date :: js_string
  ctx_chamberId :: js_string
  ctx_variety :: js_string
  ctx_phase :: js_string
  ctx_sensors :: sensors
  ctx_thresholds :: thresholds

definition SPORCBOT_CONTEXT :: sporcbot_context where
  "SPORCBOT_CONTEXT = \<lparr>ctx_date = ''Saturday, November 29, 2025'', ctx_chamberId = ''FZ-402'',
     ctx_variety = ''Oyster (Pleurotus)'', ctx_phase = ''Pinning'',
     ctx_sensors = \<lparr>temp = JsNum 251 1, humidity = JsNum 75 0, co2 = JsNum 1250 0, airflow = JsNum 250 0\<rparr>,
     ctx_thresholds = \<lparr>thr_temp = \<lparr>th_min = JsNum 10 0, th_max = JsNum 24 0, th_ideal = JsNum 18 0\<rparr>,
                       thr_humidity = \<lparr>th_min = JsNum 85 0, th_max = JsNum 95 0, th_ideal = JsNum 90 0\<rparr>,
                       thr_co2 = \<lparr>th_min = JsNum 400 0, th_max = JsNum 1000 0, th_ideal = JsNum 700 0\<rparr>\<rparr>\<rparr>"

text \<open>
  The spec asks that every threshold triple satisfy \<open>min \<le> ideal \<le> max\<close>; the
  repository never checks it. The predicate is the check a configuration loader would make.
\<close>

definition threshold_ok :: "threshold \<Rightarrow> bool" where
  "threshold_ok t \<longleftrightarrow> \<not> num_less (th_ideal t) (th_min t) \<and> \<not> num_less (th_max t) (th_ideal t)"

definition context_ok :: "sporcbot_context \<Rightarrow> bool" where
  "context_ok c \<longleftrightarrow> threshold_ok (thr_temp (ctx_thresholds c)) \<and>
     threshold_ok (thr_humidity (ctx_thresholds c)) \<and> threshold_ok (thr_co2 (ctx_thresholds c))"

end
