(* ===== verification/Dashboard_Status.thy ===== *)
theory Dashboard_Status
  imports Constants
begin

text \<open>
  The home screen, \<open>src/screens/Dashboard.tsx\<close>, and the tile of one metric,
  \<open>src/components/MetricTile.tsx\<close>. The overall status card shows the worst status
  of the metrics (the \<open>reduce\<close> of lines 17--21) with a colour and a headline
  (\<open>getStatusColor\<close>, \<open>getStatusText\<close>); a tile colours its border, its value and
  its sparkline by the metric's status. The screen's own state is the selected chamber
  and whether the chamber menu is open; a handler returns the new state and the tab it
  asks the app to show (the \<open>onNavigate\<close> callback), if any.

  Proved below: the reduction computes the maximum of the statuses and \<open>NORMAL\<close> in
  the order of \<open>Types\<close> (the spec's \<open>worstOf\<close>), so it is independent of the order
  of the metrics and never yields \<open>OFFLINE\<close>; offline metrics never raise the
  headline; the selected chamber is always one of \<open>CHAMBER_LIST\<close>; as the dashboard
  never passes \<open>isOffline\<close>, an offline metric's tile is drawn as a live reading.
\<close>

subsection \<open>Overall status\<close>

definition worst_step :: "severity \<Rightarrow> severity \<Rightarrow> severity" where
  "worst_step acc cur =
     (if cur = CRITICAL then CRITICAL
      else if cur = WARNING \<and> acc \<noteq> CRITICAL then WARNING
      else acc)"

definition worstStatus :: "metric list \<Rightarrow> severity" where
  "worstStatus metrics = foldl worst_step NORMAL (map metric_status metrics)"

definition getStatusColor :: "severity \<Rightarrow> js_string" where
  "getStatusColor s =
     (if s = CRITICAL then ''bg-alert-red text-white''
      else if s = WARNING then ''bg-alert-yellow text-white''
      else ''bg-alert-green text-white'')"

definition getStatusText :: "severity \<Rightarrow> js_string" where
  "getStatusText s =
     (if s = CRITICAL then ''CRITICAL CONDITIONS''
      else if s = WARNING then ''WARNING DETECTED''
      else ''SYSTEM OPTIMAL'')"

subsection \<open>Metric tile\<close>

fun getBorderColor :: "bool \<Rightarrow> severity \<Rightarrow> js_string" where
  "getBorderColor isOffline status =
     (if isOffline then ''border-gray-200 dark:border-gray-700''
      else (case status of
        CRITICAL \<Rightarrow> ''border-alert-red shadow-red-100 dark:shadow-none''
      | WARNING \<Rightarrow> ''border-alert-yellow shadow-yellow-100 dark:shadow-none''
      | NORMAL \<Rightarrow> ''border-alert-green shadow-green-100 dark:shadow-none''
      | _ \<Rightarrow> ''border-gray-200 dark:border-gray-700''))"

fun getTextColor :: "bool \<Rightarrow> severity \<Rightarrow> js_string" where
  "getTextColor isOffline status =
     (if isOffline then ''text-offline''
      else (case status of
        CRITICAL \<Rightarrow> ''text-alert-red''
      | WARNING \<Rightarrow> ''text-alert-yellow''
      | NORMAL \<Rightarrow> ''text-gray-900 dark:text-white''
      | _ \<Rightarrow> ''text-gray-900 dark:text-white''))"

definition sparkline_stroke :: "severity \<Rightarrow> js_string" where
  "sparkline_stroke status =
     (if status = NORMAL then ''#10B981'' else if status = WARNING then ''#F59E0B'' else ''#EF4444'')"

definition tile_value_text :: "bool \<Rightarrow> metric \<Rightarrow> js_string" where
  "tile_value_text isOffline m = (if isOffline then ''OFFLINE'' else num_str (metric_value m))"

text \<open>
  What a tile shows (lines 36--97): the label; the fan icon for a fan metric that is not
  offline, spinning while active; the cloud icon when offline; the value and unit in the
  status colour, or \<open>OFFLINE\<close>; the border; whether it takes the pointer cursor and the hover
  lift (lines 50, 55: a click still calls \<open>onClick\<close> when offline); and, unless
  offline, the sparkline of the history (index and value) in the status colour.
\<close>

record tile_view =
  tv_label :: js_string
  tv_showFan :: bool
  tv_fanSpinning :: bool
  tv_offlineIcon :: bool
  tv_value :: js_string
  tv_unit :: "js_string option"
  tv_valueColor :: "js_string option"
  tv_border :: js_string
  tv_pointer :: bool
  tv_sparkline :: "((nat \<times> js_number) list \<times> js_string) option"

definition metric_tile :: "bool \<Rightarrow> metric \<Rightarrow> tile_view" where
  "metric_tile isOffline m =
     \<lparr>tv_label = label m,
      tv_showFan = (isFan m = Some True \<and> \<not> isOffline),
      tv_fanSpinning = (isActive m = Some True),
      tv_offlineIcon = isOffline,
      tv_value = tile_value_text isOffline m,
      tv_unit = (if isOffline then None else Some (metric_unit m)),
      tv_valueColor = (if isOffline then None else Some (getTextColor isOffline (metric_status m))),
      tv_border = getBorderColor isOffline (metric_status m),
      tv_pointer = (\<not> isOffline),
      tv_sparkline = (if isOffline then None else Some (enumerate 0 (history m), sparkline_stroke (metric_status m)))\<rparr>"

text \<open>The dashboard's grid: one tile per metric, and \<open>isOffline\<close> is never passed.\<close>

definition dashboard_tiles :: "metric list \<Rightarrow> tile_view list" where
  "dashboard_tiles ms = map (metric_tile False) ms"

subsection \<open>Screen state and handlers\<close>

record dashboard_state =
  selectedChamber :: js_string
  isChamberOpen :: bool

definition dashboard_init :: dashboard_state where
  "dashboard_init = \<lparr>selectedChamber = hd CHAMBER_LIST, isChamberOpen = False\<rparr>"

datatype dashboard_event =
    TileClick | TaskClick | HeaderClick | ToggleChamberMenu | SelectChamber js_string | OverlayClick

text \<open>
  Which events the rendered screen offers: the menu items and the overlay exist only while
  the menu is open, and the items are the entries of \<open>CHAMBER_LIST\<close>. The overlay
  (\<open>fixed inset-0 z-10\<close>) covers the body of the screen, so the metric tiles and the task
  cards cannot be clicked while the menu is open; the sticky header (\<open>z-20\<close>), with the
  menu toggle and the bell, stays above it.
\<close>

fun dashboard_enabled :: "dashboard_state \<Rightarrow> dashboard_event \<Rightarrow> bool" where
  "dashboard_enabled s (SelectChamber c) = (isChamberOpen s \<and> c \<in> set CHAMBER_LIST)"
| "dashboard_enabled s OverlayClick = isChamberOpen s"
| "dashboard_enabled s TileClick = (\<not> isChamberOpen s)"
| "dashboard_enabled s TaskClick = (\<not> isChamberOpen s)"
| "dashboard_enabled s HeaderClick = True"
| "dashboard_enabled s ToggleChamberMenu = True"

fun dashboard_step :: "dashboard_state \<Rightarrow> dashboard_event \<Rightarrow> dashboard_state \<times> tab option" where
  "dashboard_step s TileClick = (s, Some TRENDS)"
| "dashboard_step s TaskClick = (s, Some TASKS)"
| "dashboard_step s HeaderClick = (s, Some TASKS)"
| "dashboard_step s ToggleChamberMenu = (s\<lparr>isChamberOpen := \<not> isChamberOpen s\<rparr>, None)"
| "dashboard_step s (SelectChamber c) = (s\<lparr>selectedChamber := c, isChamberOpen := False\<rparr>, None)"
| "dashboard_step s OverlayClick = (s\<lparr>isChamberOpen := False\<rparr>, None)"

inductive dashboard_reachable :: "dashboard_state \<Rightarrow> bool" where
  init: "dashboard_reachable dashboard_init"
| step: "dashboard_reachable s \<Longrightarrow> dashboard_enabled s e \<Longrightarrow> dashboard_reachable (fst (dashboard_step s e))"

subsection \<open>The reduction is the maximum\<close>

lemma worst_step_max: "NORMAL \<le> acc \<Longrightarrow> worst_step acc c = max acc c"
  by (cases acc; cases c) (simp_all add: worst_step_def max_def less_eq_severity_def)

lemma foldl_worst_step_max:
  "NORMAL \<le> acc \<Longrightarrow> foldl worst_step acc xs = foldl max acc xs"
proof (induction xs arbitrary: acc)
  case Nil
  then show ?case by simp
next
  case (Cons x xs)
  have "NORMAL \<le> max acc x" using Cons.prems by (simp add: le_max_iff_disj)
  with Cons show ?case by (simp add: worst_step_max)
qed

lemmas worstStatus_Max = worstStatus_def foldl_worst_step_max foldl_max_Max

text \<open>
  C7. The dashboard's reduction is the spec's \<open>worstOf\<close>: the greatest of the metrics'
  statuses and \<open>NORMAL\<close>, in the order \<open>OFFLINE < NORMAL < WARNING < CRITICAL\<close>. In
  particular no metrics give \<open>NORMAL\<close>, one \<open>CRITICAL\<close> metric gives \<open>CRITICAL\<close>,
  and the result is never \<open>OFFLINE\<close>.
\<close>

theorem worstStatus_is_max:
  "worstStatus ms = Max (insert NORMAL (metric_status ` set ms))"
  by (simp add: worstStatus_Max)

text \<open>
  C8. The overall status does not depend on the order of the metrics: two metric lists
  with the same statuses, counted with multiplicity, give the same headline status.
\<close>

theorem worstStatus_order_independent:
  assumes "mset (map metric_status ms) = mset (map metric_status ms')"
  shows "worstStatus ms = worstStatus ms'"
proof -
  from assms have "set (map metric_status ms) = set (map metric_status ms')"
    by (metis set_mset_mset)
  then show ?thesis by (simp add: worstStatus_Max)
qed

theorem worstStatus_order_independent_witness:
  "mset (map metric_status MOCK_METRICS) = mset (map metric_status (rev MOCK_METRICS)) \<and>
   worstStatus MOCK_METRICS = worstStatus (rev MOCK_METRICS) \<and> worstStatus MOCK_METRICS = WARNING"
proof -
  have h: "mset (map metric_status MOCK_METRICS) = mset (map metric_status (rev MOCK_METRICS))"
    by (simp add: rev_map [symmetric])
  have w: "worstStatus MOCK_METRICS = WARNING"
    by (simp add: worstStatus_def MOCK_METRICS_def worst_step_def)
  show ?thesis using h w worstStatus_order_independent [OF h] by simp
qed

text \<open>
  C9. Offline metrics never raise the headline: when every metric is \<open>NORMAL\<close> or
  \<open>OFFLINE\<close>, the dashboard says \<open>SYSTEM OPTIMAL\<close>, also when every sensor is offline.
\<close>

theorem offline_reported_optimal:
  assumes "\<forall>m \<in> set ms. metric_status m \<in> {NORMAL, OFFLINE}"
  shows "getStatusText (worstStatus ms) = ''SYSTEM OPTIMAL''"
proof -
  have "\<forall>s \<in> insert NORMAL (metric_status ` set ms). s \<le> NORMAL"
    using assms by auto
  then have "Max (insert NORMAL (metric_status ` set ms)) = NORMAL"
    by (intro Max_eqI) auto
  then show ?thesis by (simp add: worstStatus_Max getStatusText_def)
qed

theorem offline_reported_optimal_witness:
  "map metric_status (map (\<lambda>m. m\<lparr>metric_status := OFFLINE\<rparr>) MOCK_METRICS) = [OFFLINE, OFFLINE, OFFLINE, OFFLINE] \<and>
   getStatusText (worstStatus (map (\<lambda>m. m\<lparr>metric_status := OFFLINE\<rparr>) MOCK_METRICS)) = ''SYSTEM OPTIMAL''"
proof -
  have h: "\<forall>m \<in> set (map (\<lambda>m. m\<lparr>metric_status := OFFLINE\<rparr>) MOCK_METRICS). metric_status m \<in> {NORMAL, OFFLINE}"
    by simp
  have "map metric_status (map (\<lambda>m. m\<lparr>metric_status := OFFLINE\<rparr>) MOCK_METRICS) = [OFFLINE, OFFLINE, OFFLINE, OFFLINE]"
    by (simp add: MOCK_METRICS_def)
  then show ?thesis using offline_reported_optimal [OF h] by simp
qed

subsection \<open>The offline tile\<close>

text \<open>
  The dashboard never passes \<open>isOffline\<close>, so a metric whose status is \<open>OFFLINE\<close> is
  drawn as a live reading: its value is printed, it keeps the pointer cursor, and its sparkline
  takes the critical colour \<open>#EF4444\<close> (the stroke's last case), while the headline
  counts it as optimal (C9).
\<close>

lemma offline_metric_tile_live:
  assumes "metric_status m = OFFLINE" and "m \<in> set ms"
  shows "\<exists>tv \<in> set (dashboard_tiles ms). tv_value tv = num_str (metric_value m) \<and> tv_pointer tv \<and>
           \<not> tv_offlineIcon tv \<and> map_option snd (tv_sparkline tv) = Some ''#EF4444''"
  using assms by (force simp: dashboard_tiles_def metric_tile_def tile_value_text_def sparkline_stroke_def)

subsection \<open>The chamber selection\<close>

text \<open>
  C10. Whatever the user clicks, the dashboard's selected chamber is an entry of
  \<open>CHAMBER_LIST\<close>: it starts at the first and the menu offers only the others.
\<close>

theorem dashboard_chamber_valid:
  "dashboard_reachable s \<Longrightarrow> selectedChamber s \<in> set CHAMBER_LIST"
proof (induction rule: dashboard_reachable.induct)
  case init
  have "CHAMBER_LIST \<noteq> []" by (simp add: CHAMBER_LIST_def)
  then show ?case by (simp add: dashboard_init_def hd_in_set)
next
  case (step s e)
  then show ?case by (cases e) auto
qed

theorem dashboard_chamber_valid_witness:
  "dashboard_reachable \<lparr>selectedChamber = ''Chamber 3 - Button'', isChamberOpen = False\<rparr> \<and>
   ''Chamber 3 - Button'' \<in> set CHAMBER_LIST"
proof -
  have r1: "dashboard_reachable (fst (dashboard_step dashboard_init ToggleChamberMenu))"
    by (rule dashboard_reachable.step [OF dashboard_reachable.init]) simp
  have r2: "dashboard_reachable (fst (dashboard_step (fst (dashboard_step dashboard_init ToggleChamberMenu))
              (SelectChamber ''Chamber 3 - Button'')))"
    by (rule dashboard_reachable.step [OF r1]) (simp add: dashboard_init_def CHAMBER_LIST_def)
  have eq: "fst (dashboard_step (fst (dashboard_step dashboard_init ToggleChamberMenu))
              (SelectChamber ''Chamber 3 - Button'')) =
            \<lparr>selectedChamber = ''Chamber 3 - Button'', isChamberOpen = False\<rparr>"
    by (simp add: dashboard_init_def)
  show ?thesis using r2 dashboard_chamber_valid [OF r2] unfolding eq by simp
qed

end
