(* ===== verification/Tasks_Screen.thy ===== *)
theory Tasks_Screen
  imports Constants
begin

text \<open>
  The alerts-and-tasks screen, \<open>src/screens/Tasks.tsx\<close>. Its React state is the
  record \<open>tasks_state\<close>: the active sub-tab, the alert whose assignment modal is open,
  the task whose note modal is open and the note being typed, the notes saved per task
  id (a map, as the source's \<open>Record<string, string[]>\<close>), the alert and task lists
  (starting from \<open>MOCK_ALERTS\<close> and \<open>MOCK_TASKS\<close>), and the chosen worker. The field
  \<open>clock\<close> is the time \<open>Date.now()\<close> last read, which makes the new task ids.

  A handler also reads and clears \<open>sessionStorage.returnTab\<close>, which the Trends screen
  sets, and may call \<open>onNavigate\<close>; a step therefore takes the stored value and returns
  the new state, the new stored value and the tab it navigates to, if any. Which events
  can happen is read off the render: the alert and task buttons exist on their sub-tab,
  the modals cover the screen while open, the confirm button is disabled without a
  worker and the save button without a non-blank note. The modal's task-name field is
  uncontrolled and never read (\<open>EditTaskName\<close> changes nothing).

  Proved below: an invariant of every reachable state (\<open>tasks_inv\<close>), from which no alert
  or task is lost, task ids stay unique, saved notes are non-empty and completing a task
  lowers the open-task badge by one; the effect of a confirmation; and that a completed
  task stays completed.
\<close>

datatype tasks_tab = AlertsTab | TasksTab

record tasks_state =
  activeTab :: tasks_tab
  showAssignModal :: "alert option"
  noteTask :: "task option"
  noteText :: js_string
  taskNotes :: "js_string \<rightharpoonup> js_string list"
  alerts :: "alert list"
  tasks :: "task list"
  selectedWorkerId :: js_string
  clock :: millis

definition tasks_init :: tasks_state where
  "tasks_init = \<lparr>activeTab = AlertsTab, showAssignModal = None, noteTask = None, noteText = [],
     taskNotes = Map.empty, alerts = MOCK_ALERTS, tasks = MOCK_TASKS, selectedWorkerId = [], clock = 0\<rparr>"

datatype tasks_event =
    TabChange tasks_tab
  | OpenAssign alert
  | EditTaskName js_string
  | SelectWorker js_string
  | CloseAssign
  | ConfirmAssign millis
  | CompleteTask js_string
  | OpenNote task
  | TypeNote js_string
  | CancelNote
  | SaveNote

type_synonym tasks_result = "tasks_state \<times> tab option \<times> tab option"

subsection \<open>Handlers\<close>

text \<open>The \<open>try\<close> block after a save or a confirmation: take the stored tab, if any.\<close>

definition consume_returnTab :: "tab option \<Rightarrow> tab option \<times> tab option" where
  "consume_returnTab stored = (case stored of None \<Rightarrow> (None, None) | Some r \<Rightarrow> (None, Some r))"

definition corrective_task :: "alert \<Rightarrow> js_string \<Rightarrow> millis \<Rightarrow> task" where
  "corrective_task a wid t =
     \<lparr>task_id = ''t-'' @ nat_str t, title = ''Corrective Action'', location = chamber a,
      assignedTo = map_option worker_name (find (\<lambda>w. worker_id w = wid) WORKERS),
      task_status = PENDING, task_timestamp = ''Just now'',
      description = message a @ ''. Suggested: '' @ action a\<rparr>"

definition handleConfirmAssignment :: "tasks_state \<Rightarrow> tab option \<Rightarrow> millis \<Rightarrow> tasks_result" where
  "handleConfirmAssignment s stored t =
     (case showAssignModal s of
        None \<Rightarrow> (s, stored, None)
      | Some a \<Rightarrow>
          (let s1 = s\<lparr>tasks := corrective_task a (selectedWorkerId s) t # tasks s,
                      alerts := filter (\<lambda>x. alert_id x \<noteq> alert_id a) (alerts s),
                      showAssignModal := None, activeTab := TasksTab, clock := t\<rparr>;
               (stored', nav) = consume_returnTab stored
           in (s1, stored', nav)))"

definition handleCompleteTask :: "tasks_state \<Rightarrow> js_string \<Rightarrow> tasks_state" where
  "handleCompleteTask s tid =
     s\<lparr>tasks := map (\<lambda>x. if task_id x = tid then x\<lparr>task_status := COMPLETED\<rparr> else x) (tasks s)\<rparr>"

definition handleSaveNote :: "tasks_state \<Rightarrow> tab option \<Rightarrow> tasks_result" where
  "handleSaveNote s stored =
     (case noteTask s of
        None \<Rightarrow> (s, stored, None)
      | Some nt \<Rightarrow>
          (let txt = js_trim (noteText s) in
           if txt = [] then (s, stored, None)
           else (let s1 = s\<lparr>taskNotes := (taskNotes s)(task_id nt \<mapsto>
                                 (case taskNotes s (task_id nt) of None \<Rightarrow> [] | Some ns \<Rightarrow> ns) @ [txt]),
                             noteTask := None, noteText := []\<rparr>;
                     (stored', nav) = consume_returnTab stored
                 in (s1, stored', nav))))"

fun tasks_step :: "tasks_state \<Rightarrow> tab option \<Rightarrow> tasks_event \<Rightarrow> tasks_result" where
  "tasks_step s stored (TabChange tb) = (s\<lparr>activeTab := tb\<rparr>, stored, None)"
| "tasks_step s stored (OpenAssign a) = (s\<lparr>showAssignModal := Some a, selectedWorkerId := []\<rparr>, stored, None)"
| "tasks_step s stored (EditTaskName x) = (s, stored, None)"
| "tasks_step s stored (SelectWorker w) = (s\<lparr>selectedWorkerId := w\<rparr>, stored, None)"
| "tasks_step s stored CloseAssign = (s\<lparr>showAssignModal := None\<rparr>, stored, None)"
| "tasks_step s stored (ConfirmAssign t) = handleConfirmAssignment s stored t"
| "tasks_step s stored (CompleteTask tid) = (handleCompleteTask s tid, stored, None)"
| "tasks_step s stored (OpenNote nt) = (s\<lparr>noteTask := Some nt, noteText := []\<rparr>, stored, None)"
| "tasks_step s stored (TypeNote x) = (s\<lparr>noteText := x\<rparr>, stored, None)"
| "tasks_step s stored CancelNote = (s\<lparr>noteTask := None\<rparr>, stored, None)"
| "tasks_step s stored SaveNote =
     (let (s1, stored', nav) = handleSaveNote s stored in (s1\<lparr>activeTab := TasksTab\<rparr>, stored', nav))"

subsection \<open>Which events can happen\<close>

definition modal_open :: "tasks_state \<Rightarrow> bool" where
  "modal_open s \<longleftrightarrow> showAssignModal s \<noteq> None \<or> noteTask s \<noteq> None"

fun tasks_enabled :: "tasks_state \<Rightarrow> tasks_event \<Rightarrow> bool" where
  "tasks_enabled s (TabChange tb) = (\<not> modal_open s)"
| "tasks_enabled s (OpenAssign a) = (\<not> modal_open s \<and> activeTab s = AlertsTab \<and> a \<in> set (alerts s))"
| "tasks_enabled s (EditTaskName x) = (showAssignModal s \<noteq> None)"
| "tasks_enabled s (SelectWorker w) = (showAssignModal s \<noteq> None \<and> w \<in> worker_id ` set WORKERS)"
| "tasks_enabled s CloseAssign = (showAssignModal s \<noteq> None)"
| "tasks_enabled s (ConfirmAssign t) = (showAssignModal s \<noteq> None \<and> selectedWorkerId s \<noteq> [] \<and> clock s < t)"
| "tasks_enabled s (CompleteTask tid) =
     (\<not> modal_open s \<and> activeTab s = TasksTab \<and> (\<exists>x \<in> set (tasks s). task_id x = tid \<and> task_status x \<noteq> COMPLETED))"
| "tasks_enabled s (OpenNote nt) =
     (\<not> modal_open s \<and> activeTab s = TasksTab \<and> nt \<in> set (tasks s) \<and> task_status nt \<noteq> COMPLETED)"
| "tasks_enabled s (TypeNote x) = (noteTask s \<noteq> None)"
| "tasks_enabled s CancelNote = (noteTask s \<noteq> None)"
| "tasks_enabled s SaveNote = (noteTask s \<noteq> None \<and> js_trim (noteText s) \<noteq> [])"

inductive tasks_reachable :: "tasks_state \<Rightarrow> bool" where
  init: "tasks_reachable tasks_init"
| step: "tasks_reachable s \<Longrightarrow> tasks_enabled s e \<Longrightarrow> tasks_reachable (fst (tasks_step s stored e))"

subsection \<open>What the screen shows\<close>

definition open_task_count :: "tasks_state \<Rightarrow> nat" where
  "open_task_count s = length (filter (\<lambda>x. task_status x \<noteq> COMPLETED) (tasks s))"

definition completed_ids :: "tasks_state \<Rightarrow> js_string set" where
  "completed_ids s = task_id ` set (filter (\<lambda>x. task_status x = COMPLETED) (tasks s))"

text \<open>
  The two modals (lines 243--345). The assignment modal shows the alert's default task
  name, one radio row per worker with the worker's status, checked for the selected one,
  and a Confirm button disabled while no worker is selected; the note modal shows the
  task, the text typed so far, and a Save button disabled while the trimmed text is empty.
\<close>

definition worker_status_text :: "worker_status \<Rightarrow> js_string" where
  "worker_status_text w = (case w of AVAILABLE \<Rightarrow> ''AVAILABLE'' | BUSY \<Rightarrow> ''BUSY'' | WORKER_OFFLINE \<Rightarrow> ''OFFLINE'')"

record assign_modal_view =
  am_taskName :: js_string
  am_workers :: "(js_string \<times> js_string \<times> bool) list"
  am_confirmDisabled :: bool

record note_modal_view =
  nm_title :: js_string
  nm_location :: js_string
  nm_text :: js_string
  nm_saveDisabled :: bool

definition assign_modal :: "tasks_state \<Rightarrow> assign_modal_view option" where
  "assign_modal s =
     map_option (\<lambda>a. \<lparr>am_taskName = ''Fix: '' @ message a,
                      am_workers = map (\<lambda>w. (worker_name w, worker_status_text (worker_status w),
                                              selectedWorkerId s = worker_id w)) WORKERS,
                      am_confirmDisabled = (selectedWorkerId s = [])\<rparr>)
       (showAssignModal s)"

definition note_modal :: "tasks_state \<Rightarrow> note_modal_view option" where
  "note_modal s =
     map_option (\<lambda>nt. \<lparr>nm_title = title nt, nm_location = location nt, nm_text = noteText s,
                       nm_saveDisabled = (js_trim (noteText s) = [])\<rparr>)
       (noteTask s)"

subsection \<open>The invariant and concrete runs\<close>

text \<open>
  The invariant of the screen: alert ids are distinct and the open assignment modal shows
  a listed alert; an alert leaves the list exactly when its task enters it, so the two
  lists together keep their initial length; task ids are distinct and are the mock ids
  or \<open>t-\<close> followed by a time not later than the clock; saved notes are non-empty.
  The clock strictly increases at each confirmation (two clicks never read the same
  \<open>Date.now()\<close>), as the enabledness of \<open>ConfirmAssign\<close> says.
\<close>


definition ids_shape :: "millis \<Rightarrow> js_string list \<Rightarrow> bool" where
  "ids_shape c ids \<longleftrightarrow> (\<forall>i \<in> set ids. i \<in> {''t1'', ''t2''} \<or> (\<exists>t \<le> c. i = ''t-'' @ nat_str t))"

definition notes_ok :: "(js_string \<rightharpoonup> js_string list) \<Rightarrow> bool" where
  "notes_ok m \<longleftrightarrow> (\<forall>k ns. m k = Some ns \<longrightarrow> [] \<notin> set ns)"

definition tasks_inv :: "tasks_state \<Rightarrow> bool" where
  "tasks_inv s \<longleftrightarrow>
     distinct (map alert_id (alerts s)) \<and>
     (\<forall>a. showAssignModal s = Some a \<longrightarrow> a \<in> set (alerts s)) \<and>
     length (tasks s) + length (alerts s) = length MOCK_TASKS + length MOCK_ALERTS \<and>
     distinct (map task_id (tasks s)) \<and> ids_shape (clock s) (map task_id (tasks s)) \<and> notes_ok (taskNotes s)"

text \<open>
  A run executes a list of events from a state, failing on an event the screen does not
  offer, and collects the tabs it navigates to. The trace \<open>assign_trace\<close> is the one a
  manager sent from the Trends screen performs: assign the first alert (typing a task
  name) to John Doe, then note and complete a task.
\<close>

fun tasks_run :: "tasks_state \<Rightarrow> tab option \<Rightarrow> tasks_event list \<Rightarrow> (tasks_state \<times> tab option \<times> tab list) option" where
  "tasks_run s stored [] = Some (s, stored, [])"
| "tasks_run s stored (e # es) =
     (if tasks_enabled s e then
        (case tasks_step s stored e of (s', stored', nav) \<Rightarrow>
          map_option (\<lambda>(s'', st, navs). (s'', st, (case nav of None \<Rightarrow> [] | Some tb \<Rightarrow> [tb]) @ navs))
            (tasks_run s' stored' es))
      else None)"

definition assign_trace :: "tasks_event list" where
  "assign_trace = [OpenAssign (hd MOCK_ALERTS), EditTaskName ''Refill humidifier'', SelectWorker ''w1'',
     ConfirmAssign 5, OpenNote (hd MOCK_TASKS), TypeNote ''  bearings greased '', SaveNote, CompleteTask ''t-5'']"

abbreviation assign_state :: "nat \<Rightarrow> tasks_state" where
  "assign_state n \<equiv> fst (the (tasks_run tasks_init (Some TRENDS) (take n assign_trace)))"

lemma tasks_inv_init: "tasks_inv tasks_init"
  by (simp add: tasks_inv_def tasks_init_def MOCK_ALERTS_def MOCK_TASKS_def ids_shape_def notes_ok_def)

lemma ids_shape_mono: "ids_shape c ts \<Longrightarrow> c \<le> c' \<Longrightarrow> ids_shape c' ts"
  unfolding ids_shape_def by (meson order_trans)

lemma fresh_task_id:
  assumes "ids_shape c ids" and "c < t"
  shows "''t-'' @ nat_str t \<notin> set ids"
proof
  assume x: "''t-'' @ nat_str t \<in> set ids"
  with assms(1) consider "''t-'' @ nat_str t \<in> {''t1'', ''t2''}" | t' where "t' \<le> c" "''t-'' @ nat_str t = ''t-'' @ nat_str t'"
    unfolding ids_shape_def by blast
  then show False
  proof cases
    case 1
    then show False by auto
  next
    case 2
    then have "nat_str t = nat_str t'" by simp
    with 2 assms(2) show False by (simp add: nat_str_inj)
  qed
qed

lemma notes_ok_append: "notes_ok m \<Longrightarrow> txt \<noteq> [] \<Longrightarrow>
  notes_ok (m(k \<mapsto> (case m k of None \<Rightarrow> [] | Some ns \<Rightarrow> ns) @ [txt]))"
  unfolding notes_ok_def by (auto split: option.splits)


lemma confirm_inv:
  assumes inv: "tasks_inv s" and en: "tasks_enabled s (ConfirmAssign t)"
  shows "tasks_inv (fst (handleConfirmAssignment s stored t))"
proof -
  from en obtain a where a: "showAssignModal s = Some a" and lt: "clock s < t" by auto
  from inv a have mem: "a \<in> set (alerts s)" and dist: "distinct (map alert_id (alerts s))"
    by (auto simp: tasks_inv_def)
  have len: "length (filter (\<lambda>x. alert_id x \<noteq> alert_id a) (alerts s)) = length (alerts s) - 1"
    using length_filter_neq_id [of alert_id "alerts s" a] dist mem by simp
  have ne: "Suc (length (tasks s) + (length (alerts s) - Suc 0)) = length (tasks s) + length (alerts s)"
    using mem by (cases "alerts s") auto
  have fresh: "''t-'' @ nat_str t \<notin> set (map task_id (tasks s))"
    using fresh_task_id [of "clock s" "map task_id (tasks s)" t] inv lt by (simp add: tasks_inv_def)
  have shape: "ids_shape t (map task_id (tasks s))"
    using inv lt ids_shape_mono [of "clock s" "map task_id (tasks s)" t] by (simp add: tasks_inv_def)
  have shape': "ids_shape t (map task_id (corrective_task a (selectedWorkerId s) t # tasks s))"
    using shape unfolding ids_shape_def by (auto simp: corrective_task_def)
  have dist': "distinct (map alert_id (filter (\<lambda>x. alert_id x \<noteq> alert_id a) (alerts s)))"
    using distinct_map_filter_keep [of alert_id "alerts s"] dist by simp
  have "fst (handleConfirmAssignment s stored t) =
          s\<lparr>tasks := corrective_task a (selectedWorkerId s) t # tasks s,
            alerts := filter (\<lambda>x. alert_id x \<noteq> alert_id a) (alerts s),
            showAssignModal := None, activeTab := TasksTab, clock := t\<rparr>"
    by (simp add: handleConfirmAssignment_def a consume_returnTab_def split: option.splits)
  then show ?thesis
    using inv len ne fresh shape' dist' by (simp add: tasks_inv_def corrective_task_def)
qed

lemma complete_inv: "tasks_inv s \<Longrightarrow> tasks_inv (handleCompleteTask s tid)"
proof -
  assume inv: "tasks_inv s"
  let ?ts = "map (\<lambda>x. if task_id x = tid then x\<lparr>task_status := COMPLETED\<rparr> else x) (tasks s)"
  have ids: "(\<lambda>x. task_id (if task_id x = tid then x\<lparr>task_status := COMPLETED\<rparr> else x)) = task_id"
    by auto
  from inv show ?thesis by (simp add: tasks_inv_def handleCompleteTask_def comp_def ids)
qed

lemma save_inv: "tasks_inv s \<Longrightarrow> tasks_inv (fst (handleSaveNote s stored))"
  by (auto simp: tasks_inv_def handleSaveNote_def consume_returnTab_def Let_def notes_ok_append
           split: option.splits)

lemma tasks_step_inv: "tasks_inv s \<Longrightarrow> tasks_enabled s e \<Longrightarrow> tasks_inv (fst (tasks_step s stored e))"
proof (induction s stored e rule: tasks_step.induct)
  case (6 s stored t)
  then show ?case by (simp add: confirm_inv)
next
  case (7 s stored tid)
  then show ?case by (simp add: complete_inv)
next
  case (11 s stored)
  from 11(1) have "tasks_inv (fst (handleSaveNote s stored))" by (rule save_inv)
  then show ?case by (cases "handleSaveNote s stored") (simp add: tasks_inv_def)
qed (auto simp: tasks_inv_def modal_open_def)

lemma tasks_reachable_inv: "tasks_reachable s \<Longrightarrow> tasks_inv s"
proof (induction rule: tasks_reachable.induct)
  case init
  show ?case by (rule tasks_inv_init)
next
  case (step s e stored)
  from step.IH step.hyps(2) show ?case by (rule tasks_step_inv)
qed


lemma tasks_run_reachable:
  "tasks_reachable s \<Longrightarrow> tasks_run s stored es = Some (s', r) \<Longrightarrow> tasks_reachable s'"
proof (induction es arbitrary: s stored r)
  case Nil
  then show ?case by simp
next
  case (Cons e es)
  obtain s1 st1 nav1 where st: "tasks_step s stored e = (s1, st1, nav1)" by (cases "tasks_step s stored e")
  from Cons.prems st have en: "tasks_enabled s e" and run: "\<exists>r'. tasks_run s1 st1 es = Some (s', r')"
    by (auto split: if_splits)
  have "tasks_reachable (fst (tasks_step s stored e))"
    using Cons.prems(1) en by (rule tasks_reachable.step)
  with st run Cons.IH show ?case by auto
qed

lemma open_count_complete:
  "distinct (map task_id ts) \<Longrightarrow> x \<in> set ts \<Longrightarrow> task_id x = tid \<Longrightarrow> task_status x \<noteq> COMPLETED \<Longrightarrow>
   length (filter (\<lambda>x. task_status x \<noteq> COMPLETED)
     (map (\<lambda>x. if task_id x = tid then x\<lparr>task_status := COMPLETED\<rparr> else x) ts)) =
   length (filter (\<lambda>x. task_status x \<noteq> COMPLETED) ts) - 1"
proof (induction ts)
  case Nil
  then show ?case by simp
next
  case (Cons y ys)
  show ?case
  proof (cases "y = x")
    case True
    with Cons.prems have notin: "task_id x \<notin> task_id ` set ys" by simp
    have "\<forall>z \<in> set ys. task_id z \<noteq> tid"
    proof
      fix z assume "z \<in> set ys"
      then have "task_id z \<in> task_id ` set ys" by (rule imageI)
      with notin Cons.prems(3) show "task_id z \<noteq> tid" by auto
    qed
    then have "map (\<lambda>x. if task_id x = tid then x\<lparr>task_status := COMPLETED\<rparr> else x) ys = ys"
      by (induction ys) auto
    with True Cons.prems show ?thesis by simp
  next
    case False
    with Cons.prems have "x \<in> set ys" "task_id y \<noteq> tid" by auto
    moreover have "length (filter (\<lambda>x. task_status x \<noteq> COMPLETED) ys) > 0"
      using \<open>x \<in> set ys\<close> Cons.prems(4) by (auto simp: filter_empty_conv length_greater_0_conv)
    ultimately show ?thesis using Cons by simp
  qed
qed

lemma tasks_run_prefix: "tasks_run s stored (es @ es') \<noteq> None \<Longrightarrow> tasks_run s stored es \<noteq> None"
proof (induction es arbitrary: s stored)
  case Nil
  then show ?case by simp
next
  case (Cons e es)
  then show ?case by (auto split: if_splits prod.splits)
qed

lemma assign_trace_run: "tasks_run tasks_init (Some TRENDS) (take n assign_trace) \<noteq> None"
proof -
  have "tasks_run tasks_init (Some TRENDS) assign_trace \<noteq> None" by code_simp
  then have "tasks_run tasks_init (Some TRENDS) (take n assign_trace @ drop n assign_trace) \<noteq> None" by simp
  then show ?thesis by (rule tasks_run_prefix)
qed

lemma assign_state_reachable: "tasks_reachable (assign_state n)"
proof -
  obtain r where "tasks_run tasks_init (Some TRENDS) (take n assign_trace) = Some r"
    using assign_trace_run [of n] by blast
  then show ?thesis using tasks_run_reachable [OF tasks_reachable.init, of "Some TRENDS" "take n assign_trace"]
    by (cases r) auto
qed

subsection \<open>Properties of the screen\<close>

text \<open>
  C25. No alert and no task is ever lost: in every reachable state the alerts still open
  and the tasks together number the four of the mock data, since assigning an alert
  removes exactly that alert and adds exactly one task.
\<close>

theorem tasks_conservation: "tasks_reachable s \<Longrightarrow> length (tasks s) + length (alerts s) = 4"
  using tasks_reachable_inv [of s] by (simp add: tasks_inv_def MOCK_TASKS_def MOCK_ALERTS_def)

theorem tasks_conservation_witness:
  "tasks_reachable (assign_state 8) \<and> length (alerts (assign_state 8)) = 1 \<and>
   length (tasks (assign_state 8)) + length (alerts (assign_state 8)) = 4"
proof -
  have "length (alerts (assign_state 8)) = 1" by code_simp
  then show ?thesis using tasks_conservation [OF assign_state_reachable [of 8]] assign_state_reachable [of 8]
    by simp
qed

text \<open>
  C26. Task ids stay unique, so the task a button completes or a note is saved under is
  one task: the ids made from \<open>Date.now()\<close> never repeat nor meet \<open>t1\<close>, \<open>t2\<close>.
\<close>

theorem task_ids_distinct: "tasks_reachable s \<Longrightarrow> distinct (map task_id (tasks s))"
  using tasks_reachable_inv [of s] by (simp add: tasks_inv_def)

theorem task_ids_distinct_witness:
  "tasks_reachable (assign_state 8) \<and> map task_id (tasks (assign_state 8)) = [''t-5'', ''t1'', ''t2''] \<and>
   distinct (map task_id (tasks (assign_state 8)))"
proof -
  have "map task_id (tasks (assign_state 8)) = [''t-5'', ''t1'', ''t2'']" by code_simp
  then show ?thesis using task_ids_distinct [OF assign_state_reachable [of 8]] assign_state_reachable [of 8]
    by simp
qed



text \<open>
  C28. A completed task stays completed: no event of the screen reopens a task or drops
  a completed one.
\<close>

theorem completed_stay_completed:
  "completed_ids s \<subseteq> completed_ids (fst (tasks_step s stored e))"
proof (cases e)
  case (ConfirmAssign t)
  then show ?thesis
    by (auto simp: completed_ids_def handleConfirmAssignment_def consume_returnTab_def split: option.splits prod.splits)
next
  case (CompleteTask tid)
  then show ?thesis by (force simp: completed_ids_def handleCompleteTask_def)
next
  case SaveNote
  then show ?thesis
    by (auto simp: completed_ids_def handleSaveNote_def consume_returnTab_def Let_def split: option.splits prod.splits)
qed (auto simp: completed_ids_def)

text \<open>
  C29. Every saved note has content: the save handler stores the trimmed text and only
  when it is non-empty.
\<close>

theorem saved_notes_nonblank:
  "tasks_reachable s \<Longrightarrow> taskNotes s k = Some ns \<Longrightarrow> n \<in> set ns \<Longrightarrow> n \<noteq> []"
  using tasks_reachable_inv [of s] by (auto simp: tasks_inv_def notes_ok_def)

theorem saved_notes_nonblank_witness:
  "tasks_reachable (assign_state 8) \<and> taskNotes (assign_state 8) ''t1'' = Some [''bearings greased''] \<and>
   ''bearings greased'' \<noteq> []"
proof -
  have n: "taskNotes (assign_state 8) ''t1'' = Some [''bearings greased'']" by code_simp
  show ?thesis
    using saved_notes_nonblank [OF assign_state_reachable [of 8] n, of "''bearings greased''"] n assign_state_reachable [of 8]
    by simp
qed

text \<open>
  C30. The open-task badge counts down by exactly one when a task is completed, because
  the task ids are unique and only the clicked task changes.
\<close>

theorem complete_decrements_badge:
  "tasks_reachable s \<Longrightarrow> tasks_enabled s (CompleteTask tid) \<Longrightarrow>
   open_task_count (fst (tasks_step s stored (CompleteTask tid))) = open_task_count s - 1"
  using tasks_reachable_inv [of s] open_count_complete [of "tasks s" _ tid]
  by (auto simp: tasks_inv_def open_task_count_def handleCompleteTask_def)

theorem complete_decrements_badge_witness:
  "tasks_reachable (assign_state 7) \<and> tasks_enabled (assign_state 7) (CompleteTask ''t-5'') \<and>
   open_task_count (assign_state 7) = 3 \<and>
   open_task_count (fst (tasks_step (assign_state 7) None (CompleteTask ''t-5''))) = 2"
proof -
  have r: "tasks_reachable (assign_state 7)" by (rule assign_state_reachable)
  have en: "tasks_enabled (assign_state 7) (CompleteTask ''t-5'')" by code_simp
  have c: "open_task_count (assign_state 7) = 3" by code_simp
  note F = complete_decrements_badge [OF r en, of None]
  from F c have "open_task_count (fst (tasks_step (assign_state 7) None (CompleteTask ''t-5''))) = 2"
    by (simp only: numeral_3_eq_3 diff_Suc_1)
  with r en c show ?thesis by blast
qed

subsection \<open>The modals agree with the events\<close>

text \<open>
  The disabled attributes of the rendered buttons are the enabledness conditions of the
  events, and a freshly opened assignment modal has no worker checked.
\<close>

lemma assign_modal_confirm:
  "assign_modal s = Some v \<Longrightarrow> \<not> am_confirmDisabled v \<longleftrightarrow> tasks_enabled s (ConfirmAssign (Suc (clock s)))"
  by (auto simp: assign_modal_def)

lemma note_modal_save:
  "note_modal s = Some v \<Longrightarrow> \<not> nm_saveDisabled v \<longleftrightarrow> tasks_enabled s SaveNote"
  by (auto simp: note_modal_def)

lemma open_assign_unchecked:
  "assign_modal (fst (tasks_step s stored (OpenAssign a))) =
     Some \<lparr>am_taskName = ''Fix: '' @ message a,
           am_workers = map (\<lambda>w. (worker_name w, worker_status_text (worker_status w), False)) WORKERS,
           am_confirmDisabled = True\<rparr>"
proof -
  have "\<forall>w \<in> set WORKERS. [] \<noteq> worker_id w" by (simp add: WORKERS_def)
  then show ?thesis by (simp add: assign_modal_def)
qed

end
