(* ===== verification/Sporcbot_Engine.thy ===== *)
theory Sporcbot_Engine
  imports Constants
begin

text \<open>
  The assistant's reply function, \<open>generateSporcbotResponse\<close> of
  \<open>src/constants.ts\<close> (lines 323--371). The source reads the module constant
  \<open>SPORCBOT_CONTEXT\<close>; the model takes the context as a parameter
  (\<open>sporcbot_response ctx\<close>), as the spec's \<open>respond(userText, ctx)\<close> does, and the
  source's function is its instance at \<open>SPORCBOT_CONTEXT\<close>. The if-chain is kept in
  the source's order: status, CO2, humidity, temperature, prediction, contamination,
  greeting, fallback. Every keyword test is \<open>msg.includes(k)\<close> on the lower-cased message.

  Below the definitions: the abstract dispatcher the spec describes (an ordered table of
  keyword lists, first match wins) and the refinement lemma that the if-chain implements
  it; total coverage, priority of the status query, case-insensitivity, and the content
  of the status report.
\<close>

definition nl :: js_string where "nl = [CHR 0x0A]"

subsection \<open>Keyword tests\<close>

definition status_query :: "js_string \<Rightarrow> bool" where
  "status_query msg \<longleftrightarrow> js_includes msg ''status'' \<or> js_includes msg ''health'' \<or>
     js_includes msg ''how is'' \<or> js_includes msg ''check''"

definition co2_query :: "js_string \<Rightarrow> bool" where
  "co2_query msg \<longleftrightarrow> js_includes msg ''co2''"

definition humidity_query :: "js_string \<Rightarrow> bool" where
  "humidity_query msg \<longleftrightarrow> js_includes msg ''humidity'' \<or> js_includes msg ''rh''"

definition temp_query :: "js_string \<Rightarrow> bool" where
  "temp_query msg \<longleftrightarrow> js_includes msg ''temp''"

definition predict_query :: "js_string \<Rightarrow> bool" where
  "predict_query msg \<longleftrightarrow> js_includes msg ''predict'' \<or> js_includes msg ''future'' \<or> js_includes msg ''trend''"

definition contam_query :: "js_string \<Rightarrow> bool" where
  "contam_query msg \<longleftrightarrow> js_includes msg ''contam'' \<or> js_includes msg ''mold'' \<or> js_includes msg ''clean''"

definition greeting_query :: "js_string \<Rightarrow> bool" where
  "greeting_query msg \<longleftrightarrow> js_includes msg ''hello'' \<or> js_includes msg ''hi'' \<or> js_includes msg ''hey''"

lemmas query_defs = status_query_def co2_query_def humidity_query_def temp_query_def
  predict_query_def contam_query_def greeting_query_def

subsection \<open>Replies\<close>

text \<open>The three threshold checks of the status branch, pushed in the source's order.\<close>

definition status_issues :: "sporcbot_context \<Rightarrow> js_string list" where
  "status_issues ctx =
     (let s = ctx_sensors ctx; t = ctx_thresholds ctx in
      (if num_less (th_max (thr_co2 t)) (co2 s)
       then [''CO2 is critically high ('' @ num_str (co2 s) @ '' PPM) for the Pinning phase (Target: <1000).'']
       else []) @
      (if num_less (humidity s) (th_min (thr_humidity t))
       then [''Humidity is too low ('' @ num_str (humidity s) @ ''%) for pinning (Target: >85%).'']
       else []) @
      (if num_less (th_max (thr_temp t)) (temp s)
       then [''Temperature is slightly elevated ('' @ num_str (temp s) @ deg_sign @ ''C).'']
       else []))"

definition status_reply :: "sporcbot_context \<Rightarrow> js_string" where
  "status_reply ctx =
     (let issues = status_issues ctx in
      if issues \<noteq> [] then
        ''Analysis for Chamber '' @ ctx_chamberId ctx @ '' ('' @ ctx_variety ctx @ ''):'' @ nl @ nl @
        js_join nl issues @ nl @ nl @
        ''Recommended Action: Increase fresh air exchange (FAE) immediately to lower CO2, and increase misting duration to correct humidity.''
      else
        ''Chamber '' @ ctx_chamberId ctx @ '' is currently within optimal parameters for '' @
        ctx_variety ctx @ '' in the '' @ ctx_phase ctx @ '' phase.'')"

definition co2_reply :: "sporcbot_context \<Rightarrow> js_string" where
  "co2_reply ctx =
     (let c = co2 (ctx_sensors ctx); diff = num_sub c (th_max (thr_co2 (ctx_thresholds ctx))) in
      ''Current CO2: '' @ num_str c @ '' PPM. This is '' @
      (if num_less (JsNum 0 0) diff then ''above target by '' @ num_str diff @ '' PPM'' else ''optimal'') @
      ''. High CO2 during pinning causes long, spindly stems. Increase airflow immediately.'')"

definition humidity_reply :: "sporcbot_context \<Rightarrow> js_string" where
  "humidity_reply ctx =
     ''Current Humidity: '' @ num_str (humidity (ctx_sensors ctx)) @ ''%. This is suboptimal for '' @
     ctx_phase ctx @ '' (Target: 90-95%). Risk of pin aborts is high. Please verify the misting nozzles in sector 2.''"

definition temp_reply :: "sporcbot_context \<Rightarrow> js_string" where
  "temp_reply ctx =
     ''Current Temp: '' @ num_str (temp (ctx_sensors ctx)) @ deg_sign @ ''C. It is slightly above the ideal range (10-24'' @
     deg_sign @ ''C) for Oysters. Consider lowering ambient temperature to encourage robust fruiting body formation.''"

definition predict_reply :: js_string where
  "predict_reply = ''Linear Regression models indicate a trend of rising CO2 (+50 PPM/10min). Without intervention, CO2 will breach 1500 PPM within 45 minutes, risking suffocation of pins.''"

definition contam_reply :: js_string where
  "contam_reply = ''Isolation Forest model check: Normal. No multivariate anomalies detected that suggest contamination ('' @
     [CHR 0x22] @ ''Silent Killer'' @ [CHR 0x22] @ ''). Regular visual inspection is still recommended.''"

definition greeting_reply :: "sporcbot_context \<Rightarrow> js_string" where
  "greeting_reply ctx =
     ''Hello. I am Sporcbot. I am currently monitoring Chamber '' @ ctx_chamberId ctx @ ''. Current phase: '' @
     ctx_phase ctx @ ''. How can I assist with the environmental regulation?''"

definition fallback_reply :: js_string where
  "fallback_reply = ''I understand. Based on current sensor data, please monitor the CO2 and Humidity levels closely. Would you like me to generate a maintenance task for the airflow system?''"

subsection \<open>The dispatcher\<close>

definition sporcbot_response :: "sporcbot_context \<Rightarrow> js_string \<Rightarrow> js_string" where
  "sporcbot_response ctx userMessage =
     (let msg = js_toLowerCase userMessage in
      if status_query msg then status_reply ctx
      else if co2_query msg then co2_reply ctx
      else if humidity_query msg then humidity_reply ctx
      else if temp_query msg then temp_reply ctx
      else if predict_query msg then predict_reply
      else if contam_query msg then contam_reply
      else if greeting_query msg then greeting_reply ctx
      else fallback_reply)"

definition generateSporcbotResponse :: "js_string \<Rightarrow> js_string" where
  "generateSporcbotResponse userMessage = sporcbot_response SPORCBOT_CONTEXT userMessage"

subsection \<open>The abstract dispatcher: an ordered keyword table\<close>

datatype category = StatusQ | Co2Q | HumidityQ | TempQ | PredictQ | ContamQ | GreetingQ | FallbackQ

definition keyword_table :: "(category \<times> js_string list) list" where
  "keyword_table = [
     (StatusQ, [''status'', ''health'', ''how is'', ''check'']),
     (Co2Q, [''co2'']),
     (HumidityQ, [''humidity'', ''rh'']),
     (TempQ, [''temp'']),
     (PredictQ, [''predict'', ''future'', ''trend'']),
     (ContamQ, [''contam'', ''mold'', ''clean'']),
     (GreetingQ, [''hello'', ''hi'', ''hey''])]"

fun first_match :: "(category \<times> js_string list) list \<Rightarrow> js_string \<Rightarrow> category" where
  "first_match [] msg = FallbackQ"
| "first_match ((c, ks) # rest) msg = (if list_ex (js_includes msg) ks then c else first_match rest msg)"

definition classify :: "js_string \<Rightarrow> category" where
  "classify userText = first_match keyword_table (js_toLowerCase userText)"

fun render :: "sporcbot_context \<Rightarrow> category \<Rightarrow> js_string" where
  "render ctx StatusQ = status_reply ctx"
| "render ctx Co2Q = co2_reply ctx"
| "render ctx HumidityQ = humidity_reply ctx"
| "render ctx TempQ = temp_reply ctx"
| "render ctx PredictQ = predict_reply"
| "render ctx ContamQ = contam_reply"
| "render ctx GreetingQ = greeting_reply ctx"
| "render ctx FallbackQ = fallback_reply"


subsection \<open>Properties of the dispatcher\<close>

text \<open>
  C1. The if-chain of \<open>generateSporcbotResponse\<close> implements the spec's dispatcher: the
  reply is the rendering of the first category of the ordered keyword table whose keywords
  the lower-cased message contains, and the fallback when none does.
\<close>

theorem sporcbot_response_refines:
  "sporcbot_response ctx userText = render ctx (classify userText)"
  by (simp add: sporcbot_response_def classify_def keyword_table_def query_defs Let_def)



text \<open>
  C3. The status query comes first: a message with a status keyword gets the status
  report, whatever other keywords it also contains (\<open>check co2 status\<close> is answered by
  the report, not by the CO2 reply).
\<close>

theorem status_query_priority:
  "status_query (js_toLowerCase userText) \<Longrightarrow> sporcbot_response ctx userText = status_reply ctx"
  by (simp add: sporcbot_response_def Let_def)

theorem status_query_priority_witness:
  "status_query (js_toLowerCase ''check co2 status'') \<and> co2_query (js_toLowerCase ''check co2 status'') \<and>
   generateSporcbotResponse ''check co2 status'' = status_reply SPORCBOT_CONTEXT"
proof -
  have h: "status_query (js_toLowerCase ''check co2 status'')" by code_simp
  have c: "co2_query (js_toLowerCase ''check co2 status'')" by code_simp
  show ?thesis
    using h c status_query_priority [OF h, of SPORCBOT_CONTEXT]
    by (simp add: generateSporcbotResponse_def)
qed

text \<open>
  Matching ignores letter case: lower-casing the message first never changes the reply.
\<close>

lemma response_case_insensitive:
  "sporcbot_response ctx (js_toLowerCase userText) = sporcbot_response ctx userText"
  by (simp add: sporcbot_response_def)

text \<open>
  C5. When the CO2 reading is above its threshold, the status report quotes the reading as
  printed by JavaScript, and it quotes the fixed target \<open><1000\<close> whatever the
  threshold is.
\<close>

theorem status_report_quotes_co2:
  assumes "num_less (th_max (thr_co2 (ctx_thresholds ctx))) (co2 (ctx_sensors ctx))"
  shows "js_includes (status_reply ctx) (num_str (co2 (ctx_sensors ctx))) \<and>
         js_includes (status_reply ctx) ''(Target: <1000)''"
proof -
  let ?i = "''CO2 is critically high ('' @ num_str (co2 (ctx_sensors ctx)) @ '' PPM) for the Pinning phase (Target: <1000).''"
  have mem: "?i \<in> set (status_issues ctx)"
    using assms by (simp add: status_issues_def Let_def)
  then have ne: "status_issues ctx \<noteq> []" by auto
  have join: "js_includes (js_join nl (status_issues ctx)) ?i"
    using mem by (rule js_join_includes)
  have "js_includes ?i (num_str (co2 (ctx_sensors ctx)))"
    by (rule js_includes_infix)
  with join have val: "js_includes (js_join nl (status_issues ctx)) (num_str (co2 (ctx_sensors ctx)))"
    by (rule js_includes_trans)
  have t: "js_includes '' PPM) for the Pinning phase (Target: <1000).'' ''(Target: <1000)''"
    by code_simp
  have "js_includes ?i ''(Target: <1000)''"
    by (rule js_includes_append_left [OF js_includes_append_left [OF t]])
  with join have tgt: "js_includes (js_join nl (status_issues ctx)) ''(Target: <1000)''"
    by (rule js_includes_trans)
  have "js_includes (status_reply ctx) (js_join nl (status_issues ctx))"
    using ne by (simp add: status_reply_def Let_def js_includes_append_left js_includes_append_right)
  with val tgt show ?thesis by (blast intro: js_includes_trans)
qed

theorem status_report_quotes_co2_witness:
  "num_less (JsNum 1000 0) (JsNum 1250 0) \<and>
   js_includes (status_reply SPORCBOT_CONTEXT) ''1250'' \<and>
   js_includes (status_reply SPORCBOT_CONTEXT) ''(Target: <1000)''"
proof -
  have h: "num_less (th_max (thr_co2 (ctx_thresholds SPORCBOT_CONTEXT))) (co2 (ctx_sensors SPORCBOT_CONTEXT))"
    by (simp add: SPORCBOT_CONTEXT_def)
  have s: "num_str (co2 (ctx_sensors SPORCBOT_CONTEXT)) = ''1250''"
    by (simp add: SPORCBOT_CONTEXT_def) code_simp
  show ?thesis using status_report_quotes_co2 [OF h] s by simp
qed

text \<open>
  C6. The status report lists no issue exactly when the CO2 reading is at most its maximum,
  the humidity at least its minimum and the temperature at most its maximum. The other
  three bounds (CO2 and humidity below range, temperature below its minimum) are not checked.
\<close>

theorem status_issues_empty_iff:
  "status_issues ctx = [] \<longleftrightarrow>
     \<not> num_less (th_max (thr_co2 (ctx_thresholds ctx))) (co2 (ctx_sensors ctx)) \<and>
     \<not> num_less (humidity (ctx_sensors ctx)) (th_min (thr_humidity (ctx_thresholds ctx))) \<and>
     \<not> num_less (th_max (thr_temp (ctx_thresholds ctx))) (temp (ctx_sensors ctx))"
  by (simp add: status_issues_def Let_def)

end
