(* ===== verification/Chat_Session.thy ===== *)
theory Chat_Session
  imports Sporcbot_Engine "HOL-Library.While_Combinator"
begin

text \<open>
  The chat widget, \<open>src/components/Sporcbot.tsx\<close>, over the JavaScript event loop. Its
  React state (\<open>isOpen\<close>, \<open>input\<close>, \<open>messages\<close>, \<open>isTyping\<close>) is a record, and
  so are the two things the browser keeps for it: the pending \<open>setTimeout\<close> callbacks
  of \<open>handleSend\<close>, each a deadline and the user text it will answer, and the clock
  that \<open>Date.now()\<close> reads. An event is a click or a keystroke at a time, or the
  firing of the earliest pending timer.

  The step follows the handlers line by line. \<open>toggleOpen\<close> clears the transcript and
  the typing flag when it closes, and the effect on \<open>isOpen\<close> (lines 24--35) posts the
  greeting when it opens onto an empty transcript. \<open>handleSend\<close> returns early on blank
  input, else appends the user message (id \<open>Date.now()\<close>), clears the input, sets the
  typing flag and schedules the reply after a delay in \<open>[1200, 2000)\<close> ms
  (\<open>Math.random\<close> is the event's parameter). The timer callback appends the reply
  (id \<open>Date.now() + 1\<close>) to whatever the transcript is then, and clears the typing
  flag. A FAQ button calls \<open>setInput(q)\<close> and then \<open>handleSend()\<close> of the same
  render, which still reads the old input.

  Timing: a user event happens at a time no earlier than the last one and no later than
  the earliest pending deadline (a due timer runs first); a timer fires at its deadline,
  the earliest first and, among equal deadlines, the one scheduled first. Millisecond
  delays are whole numbers here; the browser's fractional delays and timer clamping are
  not modelled.
\<close>

type_synonym pending_reply = "millis \<times> js_string"

record chat_state =
  isOpen :: bool
  input :: js_string
  messages :: "chat_message list"
  isTyping :: bool
  timers :: "pending_reply list"
  now :: millis

definition chat_init :: chat_state where
  "chat_init = \<lparr>isOpen = False, input = [], messages = [], isTyping = False, timers = [], now = 0\<rparr>"

datatype chat_event =
    ToggleOpen millis
  | TypeInput millis js_string
  | Submit millis millis
  | FaqClick millis nat millis
  | TimerFire

subsection \<open>Messages\<close>

definition greeting_text :: js_string where
  "greeting_text =
     ''Hello. I am Sporcbot, monitoring Chamber '' @ ctx_chamberId SPORCBOT_CONTEXT @ ''. '' @ nl @ nl @
     ''I've detected critical deviations in CO2 and Humidity for the current '' @ ctx_variety SPORCBOT_CONTEXT @
     '' pinning phase. '' @ nl @ nl @ ''How can I help you resolve this?''"

definition greeting_msg :: "millis \<Rightarrow> chat_message" where
  "greeting_msg t = \<lparr>msg_id = ''init-1'', msg_text = greeting_text, sender = Bot, msg_timestamp = t\<rparr>"

definition user_msg :: "millis \<Rightarrow> js_string \<Rightarrow> chat_message" where
  "user_msg t txt = \<lparr>msg_id = nat_str t, msg_text = txt, sender = User, msg_timestamp = t\<rparr>"

definition bot_msg :: "millis \<Rightarrow> js_string \<Rightarrow> chat_message" where
  "bot_msg t userText =
     \<lparr>msg_id = nat_str (t + 1), msg_text = generateSporcbotResponse userText, sender = Bot, msg_timestamp = t\<rparr>"

subsection \<open>Handlers\<close>

definition toggleOpen :: "chat_state \<Rightarrow> millis \<Rightarrow> chat_state" where
  "toggleOpen s t =
     (if isOpen s then s\<lparr>messages := [], isTyping := False, isOpen := False, now := t\<rparr>
      else (let s1 = s\<lparr>isOpen := True, now := t\<rparr> in
            if messages s1 = [] then s1\<lparr>messages := [greeting_msg t]\<rparr> else s1))"

text \<open>\<open>handleSend\<close> run with the input value its render saw.\<close>

definition handleSend :: "chat_state \<Rightarrow> js_string \<Rightarrow> millis \<Rightarrow> millis \<Rightarrow> chat_state" where
  "handleSend s seen t delay =
     (if js_trim seen = [] then s
      else s\<lparr>messages := messages s @ [user_msg t seen], input := [], isTyping := True,
             timers := timers s @ [(t + delay, seen)]\<rparr>)"

definition faqClick :: "chat_state \<Rightarrow> nat \<Rightarrow> millis \<Rightarrow> millis \<Rightarrow> chat_state" where
  "faqClick s i t delay =
     (let s1 = s\<lparr>input := faq_q (SPORCBOT_FAQ ! i)\<rparr> in
      if js_trim (input s) = [] then s1 else handleSend s1 (input s) t delay)"

text \<open>The pending timer that runs next: the first one with the least deadline.\<close>

fun earliest_timer :: "pending_reply list \<Rightarrow> nat option" where
  "earliest_timer [] = None"
| "earliest_timer (p # ps) =
     (case earliest_timer ps of
        None \<Rightarrow> Some 0
      | Some j \<Rightarrow> (if fst (ps ! j) < fst p then Some (Suc j) else Some 0))"

definition fireTimer :: "chat_state \<Rightarrow> chat_state" where
  "fireTimer s =
     (case earliest_timer (timers s) of
        None \<Rightarrow> s
      | Some i \<Rightarrow> (let (dl, seen) = timers s ! i in
          s\<lparr>now := dl, messages := messages s @ [bot_msg dl seen], isTyping := False,
            timers := remove_nth i (timers s)\<rparr>))"

fun chat_handle :: "chat_state \<Rightarrow> chat_event \<Rightarrow> chat_state" where
  "chat_handle s (ToggleOpen t) = toggleOpen s t"
| "chat_handle s (TypeInput t x) = s\<lparr>input := x, now := t\<rparr>"
| "chat_handle s (Submit t delay) = (handleSend s (input s) t delay)\<lparr>now := t\<rparr>"
| "chat_handle s (FaqClick t i delay) = (faqClick s i t delay)\<lparr>now := t\<rparr>"
| "chat_handle s TimerFire = fireTimer s"

subsection \<open>Which events can happen\<close>

definition on_time :: "chat_state \<Rightarrow> millis \<Rightarrow> bool" where
  "on_time s t \<longleftrightarrow> now s \<le> t \<and> (\<forall>p \<in> set (timers s). t \<le> fst p)"

definition faq_visible :: "chat_state \<Rightarrow> bool" where
  "faq_visible s \<longleftrightarrow>
     (length (messages s) = 1 \<and> \<not> isTyping s) \<or>
     (1 < length (messages s) \<and> even (length (messages s)) \<and> \<not> isTyping s)"

definition valid_delay :: "millis \<Rightarrow> bool" where
  "valid_delay d \<longleftrightarrow> 1200 \<le> d \<and> d < 2000"

fun chat_enabled :: "chat_state \<Rightarrow> chat_event \<Rightarrow> bool" where
  "chat_enabled s (ToggleOpen t) = on_time s t"
| "chat_enabled s (TypeInput t x) = (isOpen s \<and> on_time s t)"
| "chat_enabled s (Submit t delay) = (isOpen s \<and> on_time s t \<and> valid_delay delay)"
| "chat_enabled s (FaqClick t i delay) = (isOpen s \<and> on_time s t \<and> faq_visible s \<and> i < 6 \<and> valid_delay delay)"
| "chat_enabled s TimerFire = (timers s \<noteq> [])"

inductive chat_reachable :: "chat_state \<Rightarrow> bool" where
  init: "chat_reachable chat_init"
| step: "chat_reachable s \<Longrightarrow> chat_enabled s e \<Longrightarrow> chat_reachable (chat_handle s e)"

text \<open>A run of events from a state, stopping at the first event that cannot happen.\<close>

fun chat_run :: "chat_state \<Rightarrow> chat_event list \<Rightarrow> chat_state option" where
  "chat_run s [] = Some s"
| "chat_run s (e # es) = (if chat_enabled s e then chat_run (chat_handle s e) es else None)"

subsection \<open>Scenarios\<close>

text \<open>Event sequences from the initial state, used to show that behaviours are reachable.\<close>

definition typing_trace :: "chat_event list" where
  "typing_trace = [ToggleOpen 0, TypeInput 1 ''co2?'', Submit 2 1999, TypeInput 3 ''temp?'', Submit 4 1200]"

definition reorder_trace :: "chat_event list" where
  "reorder_trace = typing_trace @ [TimerFire, TimerFire]"

definition orphan_trace :: "chat_event list" where
  "orphan_trace = [ToggleOpen 0, TypeInput 1 ''hello'', Submit 2 1500, ToggleOpen 3, TimerFire, ToggleOpen 2000]"

text \<open>
  \<open>collide_trace\<close>: a question is answered at 1502 ms, whose reply gets the id
  \<open>1503\<close> (\<open>Date.now() + 1\<close>), and the next question is sent at 1503 ms.
\<close>

definition collide_trace :: "chat_event list" where
  "collide_trace = [ToggleOpen 0, TypeInput 1 ''co2?'', Submit 2 1500, TimerFire, TypeInput 1502 ''temp?'', Submit 1503 1200]"

subsection \<open>The event loop drains the pending replies\<close>


text \<open>
  The invariant of the widget: the typing flag implies a pending reply, and no pending
  deadline lies before the clock.
\<close>

definition chat_inv :: "chat_state \<Rightarrow> bool" where
  "chat_inv s \<longleftrightarrow> (isTyping s \<longrightarrow> timers s \<noteq> []) \<and> (\<forall>p \<in> set (timers s). now s \<le> fst p)"

subsection \<open>The earliest timer, runs, and the invariant\<close>

lemma earliest_timer_None: "earliest_timer ps = None \<longleftrightarrow> ps = []"
  by (cases ps) (auto split: option.splits)

lemma earliest_timer_Some:
  "earliest_timer ps = Some i \<Longrightarrow> i < length ps \<and> (\<forall>j < length ps. fst (ps ! i) \<le> fst (ps ! j))"
proof (induction ps arbitrary: i)
  case Nil
  then show ?case by simp
next
  case (Cons p ps)
  show ?case
  proof (cases "earliest_timer ps")
    case None
    then have "ps = []" by (simp add: earliest_timer_None)
    with Cons.prems show ?thesis by simp
  next
    case (Some j)
    with Cons.IH have j: "j < length ps" "\<forall>k < length ps. fst (ps ! j) \<le> fst (ps ! k)" by auto
    show ?thesis
    proof (cases "fst (ps ! j) < fst p")
      case True
      with Some Cons.prems have "i = Suc j" by simp
      with j True show ?thesis by (auto simp: nth_Cons split: nat.splits)
    next
      case False
      with Some Cons.prems have "i = 0" by simp
      with j False show ?thesis by (auto simp: nth_Cons split: nat.splits)
    qed
  qed
qed

lemma chat_run_reachable:
  "chat_reachable s \<Longrightarrow> chat_run s es = Some s' \<Longrightarrow> chat_reachable s'"
proof (induction es arbitrary: s)
  case Nil
  then show ?case by simp
next
  case (Cons e es)
  then show ?case by (auto split: if_splits intro: chat_reachable.step)
qed

lemma handleSend_inv:
  "chat_inv s \<Longrightarrow> on_time s t \<Longrightarrow> chat_inv ((handleSend s seen t d)\<lparr>now := t\<rparr>)"
  by (auto simp: chat_inv_def handleSend_def on_time_def)

lemma fireTimer_inv: "chat_inv s \<Longrightarrow> chat_inv (fireTimer s)"
proof -
  assume inv: "chat_inv s"
  show ?thesis
  proof (cases "earliest_timer (timers s)")
    case None
    with inv show ?thesis by (simp add: fireTimer_def)
  next
    case (Some i)
    from earliest_timer_Some [OF Some] have i: "i < length (timers s)"
      and least: "\<forall>j < length (timers s). fst (timers s ! i) \<le> fst (timers s ! j)" by auto
    have "\<forall>p \<in> set (timers s). fst (timers s ! i) \<le> fst p"
      using least by (metis in_set_conv_nth)
    then have "\<forall>p \<in> set (remove_nth i (timers s)). fst (timers s ! i) \<le> fst p"
      using set_remove_nth_subset [of i "timers s"] by blast
    with Some show ?thesis
      by (auto simp: fireTimer_def chat_inv_def split: prod.splits)
  qed
qed

lemma chat_step_inv: "chat_inv s \<Longrightarrow> chat_enabled s e \<Longrightarrow> chat_inv (chat_handle s e)"
proof (cases e)
  case (ToggleOpen t)
  moreover assume "chat_inv s" "chat_enabled s e"
  ultimately show ?thesis by (auto simp: toggleOpen_def chat_inv_def on_time_def Let_def)
next
  case (TypeInput t x)
  moreover assume "chat_inv s" "chat_enabled s e"
  ultimately show ?thesis by (auto simp: chat_inv_def on_time_def)
next
  case (Submit t d)
  moreover assume "chat_inv s" "chat_enabled s e"
  ultimately show ?thesis by (simp add: handleSend_inv)
next
  case (FaqClick t i d)
  moreover assume inv: "chat_inv s" and en: "chat_enabled s e"
  ultimately show ?thesis
    using handleSend_inv [of "s\<lparr>input := faq_q (SPORCBOT_FAQ ! i)\<rparr>" t "input s" d]
    by (auto simp: faqClick_def Let_def chat_inv_def on_time_def)
next
  case TimerFire
  moreover assume "chat_inv s"
  ultimately show ?thesis by (simp add: fireTimer_inv)
qed

lemma chat_reachable_inv: "chat_reachable s \<Longrightarrow> chat_inv s"
proof (induction rule: chat_reachable.induct)
  case init
  then show ?case by (simp add: chat_inv_def chat_init_def)
next
  case (step s e)
  from step.IH step.hyps(2) show ?case by (rule chat_step_inv)
qed

text \<open>
  C19. The typing indicator is shown only while a reply is pending: in every reachable
  state with \<open>isTyping\<close> set, some timer of \<open>handleSend\<close> has not fired yet.
\<close>

theorem typing_implies_pending: "chat_reachable s \<Longrightarrow> isTyping s \<Longrightarrow> timers s \<noteq> []"
  using chat_reachable_inv by (simp add: chat_inv_def)


theorem typing_implies_pending_witness:
  "chat_reachable (the (chat_run chat_init typing_trace)) \<and> isTyping (the (chat_run chat_init typing_trace)) \<and>
   timers (the (chat_run chat_init typing_trace)) = [(2001, ''co2?''), (1204, ''temp?'')]"
proof -
  have run: "chat_run chat_init typing_trace =
      Some \<lparr>isOpen = True, input = [], messages = [greeting_msg 0, user_msg 2 ''co2?'', user_msg 4 ''temp?''],
            isTyping = True, timers = [(2001, ''co2?''), (1204, ''temp?'')], now = 4\<rparr>"
    by code_simp
  have r: "chat_reachable (the (chat_run chat_init typing_trace))"
    using chat_run_reachable [OF chat_reachable.init run] run by simp
  have ty: "isTyping (the (chat_run chat_init typing_trace))" using run by simp
  show ?thesis using typing_implies_pending [OF r ty] r ty run by simp
qed


subsection \<open>Behaviours the widget allows\<close>

text \<open>
  C21. A FAQ button does not ask its question: with an empty input box, clicking it only
  puts the question into the box; the transcript and the pending replies are unchanged,
  because \<open>handleSend\<close> reads the input of the render in which the button was clicked.
\<close>

theorem faq_click_sends_nothing:
  assumes "js_trim (input s) = []"
  shows "messages (chat_handle s (FaqClick t i delay)) = messages s \<and>
         timers (chat_handle s (FaqClick t i delay)) = timers s \<and>
         input (chat_handle s (FaqClick t i delay)) = faq_q (SPORCBOT_FAQ ! i)"
  using assms by (simp add: faqClick_def Let_def)

theorem faq_click_sends_nothing_witness:
  "chat_enabled (toggleOpen chat_init 0) (FaqClick 5 0 1500) \<and>
   messages (chat_handle (toggleOpen chat_init 0) (FaqClick 5 0 1500)) = [greeting_msg 0] \<and>
   input (chat_handle (toggleOpen chat_init 0) (FaqClick 5 0 1500)) = ''Optimal CO2 during pinning?''"
proof -
  have h: "js_trim (input (toggleOpen chat_init 0)) = []"
    by (simp add: toggleOpen_def chat_init_def)
  have en: "chat_enabled (toggleOpen chat_init 0) (FaqClick 5 0 1500)"
    by code_simp
  have m: "messages (toggleOpen chat_init 0) = [greeting_msg 0]"
    by (simp add: toggleOpen_def chat_init_def)
  have q: "faq_q (SPORCBOT_FAQ ! 0) = ''Optimal CO2 during pinning?''"
    by (simp add: SPORCBOT_FAQ_def)
  show ?thesis using faq_click_sends_nothing [OF h, of 5 0 1500] en m q by simp
qed

text \<open>
  C22. A reply can arrive into a closed chat: ask, close the chat before the reply comes,
  and reopen it. The transcript then holds the bot's reply alone, with neither the question
  nor the greeting, since the greeting is posted only onto an empty transcript.
\<close>

theorem orphan_reply_after_reopen:
  "\<exists>s. chat_reachable s \<and> isOpen s \<and> messages s = [bot_msg 1502 ''hello'']"
proof -
  have run: "chat_run chat_init orphan_trace =
     Some \<lparr>isOpen = True, input = [], messages = [bot_msg 1502 ''hello''], isTyping = False, timers = [], now = 2000\<rparr>"
    by code_simp
  show ?thesis using chat_run_reachable [OF chat_reachable.init run] by auto
qed

text \<open>
  C23. Replies can come out of order: a question asked later with a shorter random delay is
  answered first, so the transcript lists the two replies in the reverse order of the
  questions.
\<close>

theorem replies_out_of_order:
  "\<exists>s. chat_reachable s \<and> map msg_text (messages s) =
     [greeting_text, ''co2?'', ''temp?'', generateSporcbotResponse ''temp?'', generateSporcbotResponse ''co2?'']"
proof -
  have run: "chat_run chat_init reorder_trace =
     Some \<lparr>isOpen = True, input = [],
           messages = [greeting_msg 0, user_msg 2 ''co2?'', user_msg 4 ''temp?'', bot_msg 1204 ''temp?'', bot_msg 2001 ''co2?''],
           isTyping = False, timers = [], now = 2001\<rparr>"
    by code_simp
  have "chat_reachable (the (chat_run chat_init reorder_trace))"
    using chat_run_reachable [OF chat_reachable.init run] run by simp
  then show ?thesis using run
    by (intro exI [of _ "the (chat_run chat_init reorder_trace)"])
       (simp add: greeting_msg_def user_msg_def bot_msg_def)
qed

text \<open>
  C24. The typing indicator can disappear while a reply is still pending: after the first
  of two replies arrives, the chat is open, \<open>isTyping\<close> is false and a timer remains.
\<close>

theorem typing_cleared_while_pending:
  "\<exists>s. chat_reachable s \<and> isOpen s \<and> \<not> isTyping s \<and> timers s \<noteq> []"
proof -
  have run: "chat_run chat_init (typing_trace @ [TimerFire]) =
     Some \<lparr>isOpen = True, input = [],
           messages = [greeting_msg 0, user_msg 2 ''co2?'', user_msg 4 ''temp?'', bot_msg 1204 ''temp?''],
           isTyping = False, timers = [(2001, ''co2?'')], now = 1204\<rparr>"
    by code_simp
  show ?thesis using chat_run_reachable [OF chat_reachable.init run] by auto
qed


text \<open>
  C39. Message ids are not unique: the transcript is rendered with \<open>key={msg.id}\<close>, but
  a reply's id \<open>Date.now() + 1\<close> equals the id \<open>Date.now()\<close> of a question sent one
  millisecond after the reply arrived, so a reachable transcript holds two messages with
  the same key.
\<close>

theorem message_ids_collide:
  "\<exists>s. chat_reachable s \<and> \<not> distinct (map msg_id (messages s))"
proof -
  have run: "chat_run chat_init collide_trace \<noteq> None" by code_simp
  have dup: "\<not> distinct (map msg_id (messages (the (chat_run chat_init collide_trace))))" by code_simp
  from run obtain s where s: "chat_run chat_init collide_trace = Some s" by blast
  then have "chat_reachable s" by (rule chat_run_reachable [OF chat_reachable.init])
  with s dup show ?thesis by auto
qed

end
