(* ===== verification/Lifecycle.thy ===== *)
theory Lifecycle
  imports JsRuntime
begin

text \<open>
  The cultivation progress screen, \<open>src/screens/Progress.tsx\<close>: the lifecycle tables of
  the seven chambers (\<open>MUSHROOM_DATA\<close>), and what a card derives from one: the days
  remaining (\<open>getDaysRemaining\<close>), the harvest warning (\<open>isCritical\<close>), the position
  of the day marker (\<open>progressPercent\<close>, an IEEE division by \<open>totalDays\<close>), the width of
  each phase segment, the phase named under the bar (\<open>getCurrentPhase\<close>, a loop over the
  phases with an accumulator it never reads), and the legend's flags per phase, gathered
  into the rendered card (\<open>render_card\<close>). The screen's only state is the id of the
  expanded card.

  Proved below: the loop returns the first phase the legend marks as current, and the
  sentinel otherwise (refinement to a \<open>find\<close>); on a contiguous table it names the
  unique phase containing the day; days remaining are never negative; the marker stays in
  \<open>[0, 100]\<close> for a positive total and is \<open>NaN\<close> for an empty lifecycle; every table
  of \<open>MUSHROOM_DATA\<close> is contiguous from day 1 and names a phase on every day before
  its total; the segments of a phase bar add up to the durations' share of the total, so
  the five tables whose durations end one day short draw a bar that is not full.
\<close>

record phase =
  name :: js_string
  startDay :: int
  duration :: int
  color :: js_string

record mushroom_lifecycle =
  varietyName :: js_string
  chamberId :: js_string
  currentDay :: int
  totalDays :: int
  emoji :: js_string
  phases :: "phase list"

definition mushroom_emoji :: js_string where
  "mushroom_emoji = [CHR 0xF0, CHR 0x9F, CHR 0x8D, CHR 0x84]"

definition MUSHROOM_DATA :: "mushroom_lifecycle list" where
  "MUSHROOM_DATA = [
    \<lparr>varietyName = ''Shiitake'', chamberId = ''Chamber 1'', currentDay = 45, totalDays = 100, emoji = mushroom_emoji,
     phases = [\<lparr>name = ''Mycelial Run'', startDay = 1, duration = 60, color = ''bg-green-700''\<rparr>,
               \<lparr>name = ''Pinning Induction'', startDay = 61, duration = 20, color = ''bg-orange-500''\<rparr>,
               \<lparr>name = ''Fruiting & Harvest'', startDay = 81, duration = 20, color = ''bg-amber-700''\<rparr>]\<rparr>,
    \<lparr>varietyName = ''Oyster'', chamberId = ''Chamber 2'', currentDay = 28, totalDays = 35, emoji = mushroom_emoji,
     phases = [\<lparr>name = ''Mycelial Run'', startDay = 1, duration = 15, color = ''bg-blue-600''\<rparr>,
               \<lparr>name = ''Pinning Induction'', startDay = 16, duration = 5, color = ''bg-cyan-500''\<rparr>,
               \<lparr>name = ''Fruiting & Harvest'', startDay = 21, duration = 14, color = ''bg-indigo-600''\<rparr>]\<rparr>,
    \<lparr>varietyName = ''Button'', chamberId = ''Chamber 3'', currentDay = 90, totalDays = 105, emoji = mushroom_emoji,
     phases = [\<lparr>name = ''Phase 1'', startDay = 1, duration = 30, color = ''bg-green-800''\<rparr>,
               \<lparr>name = ''Phase 2'', startDay = 31, duration = 40, color = ''bg-green-600''\<rparr>,
               \<lparr>name = ''Pinning & Casing'', startDay = 71, duration = 15, color = ''bg-yellow-500''\<rparr>,
               \<lparr>name = ''Fruiting & Harvest'', startDay = 86, duration = 19, color = ''bg-amber-900''\<rparr>]\<rparr>,
    \<lparr>varietyName = ''Milky'', chamberId = ''Chamber 4'', currentDay = 30, totalDays = 55, emoji = mushroom_emoji,
     phases = [\<lparr>name = ''Mycelial Run'', startDay = 1, duration = 25, color = ''bg-purple-700''\<rparr>,
               \<lparr>name = ''Casing & Pinning'', startDay = 26, duration = 10, color = ''bg-pink-500''\<rparr>,
               \<lparr>name = ''Fruiting & Harvest'', startDay = 36, duration = 19, color = ''bg-gray-400''\<rparr>]\<rparr>,
    \<lparr>varietyName = ''Lion's Mane'', chamberId = ''Chamber 5'', currentDay = 10, totalDays = 45, emoji = mushroom_emoji,
     phases = [\<lparr>name = ''Mycelial Run'', startDay = 1, duration = 20, color = ''bg-teal-600''\<rparr>,
               \<lparr>name = ''Pinning Induction'', startDay = 21, duration = 5, color = ''bg-yellow-600''\<rparr>,
               \<lparr>name = ''Fruiting & Harvest'', startDay = 26, duration = 19, color = ''bg-pink-700''\<rparr>]\<rparr>,
    \<lparr>varietyName = ''Enoki'', chamberId = ''Chamber 6'', currentDay = 48, totalDays = 50, emoji = mushroom_emoji,
     phases = [\<lparr>name = ''Mycelial Run'', startDay = 1, duration = 30, color = ''bg-indigo-700''\<rparr>,
               \<lparr>name = ''Pinning Induction'', startDay = 31, duration = 10, color = ''bg-cyan-500''\<rparr>,
               \<lparr>name = ''Fruiting'', startDay = 41, duration = 9, color = ''bg-gray-500''\<rparr>,
               \<lparr>name = ''Harvest Window'', startDay = 50, duration = 1, color = ''bg-red-600''\<rparr>]\<rparr>,
    \<lparr>varietyName = ''Portobello'', chamberId = ''Chamber 7'', currentDay = 5, totalDays = 70, emoji = mushroom_emoji,
     phases = [\<lparr>name = ''Incubation/Run'', startDay = 1, duration = 40, color = ''bg-green-900''\<rparr>,
               \<lparr>name = ''Casing & Pinning'', startDay = 41, duration = 10, color = ''bg-lime-700''\<rparr>,
               \<lparr>name = ''Fruiting & Harvest'', startDay = 51, duration = 19, color = ''bg-amber-900''\<rparr>]\<rparr>]"

subsection \<open>What a card derives\<close>

definition getDaysRemaining :: "int \<Rightarrow> int \<Rightarrow> int" where
  "getDaysRemaining total_days current = max 0 (total_days - current)"

text \<open>The \<open>for\<close> loop of \<open>getCurrentPhase\<close>; \<open>dayCount\<close> is summed and never read.\<close>

fun getCurrentPhase_loop :: "int \<Rightarrow> int \<Rightarrow> phase list \<Rightarrow> js_string option" where
  "getCurrentPhase_loop cur dayCount [] = None"
| "getCurrentPhase_loop cur dayCount (p # ps) =
     (if cur \<ge> startDay p \<and> cur < startDay p + duration p then Some (name p)
      else getCurrentPhase_loop cur (dayCount + duration p) ps)"

definition getCurrentPhase :: "mushroom_lifecycle \<Rightarrow> js_string" where
  "getCurrentPhase l =
     (case getCurrentPhase_loop (currentDay l) 0 (phases l) of
        Some n \<Rightarrow> n
      | None \<Rightarrow> (if currentDay l \<ge> totalDays l then ''Ready for Harvest'' else ''Unknown Phase''))"

definition isCritical :: "mushroom_lifecycle \<Rightarrow> bool" where
  "isCritical l \<longleftrightarrow> getDaysRemaining (totalDays l) (currentDay l) \<le> 5"

definition progressPercent :: "mushroom_lifecycle \<Rightarrow> js_real" where
  "progressPercent l = js_min 100 (js_times (js_div_int (currentDay l) (totalDays l)) 100)"

definition phase_width_percent :: "mushroom_lifecycle \<Rightarrow> phase \<Rightarrow> js_real" where
  "phase_width_percent l p = js_times (js_div_int (duration p) (totalDays l)) 100"

definition days_badge_text :: "mushroom_lifecycle \<Rightarrow> js_string" where
  "days_badge_text l =
     (let d = getDaysRemaining (totalDays l) (currentDay l) in
      if d = 0 then ''HARVEST NOW'' else nat_str (nat d) @ '' Days Left'')"

text \<open>The legend of an expanded card: the current phase and the completed ones.\<close>

definition isCurrentPhase :: "mushroom_lifecycle \<Rightarrow> phase \<Rightarrow> bool" where
  "isCurrentPhase l p \<longleftrightarrow> currentDay l \<ge> startDay p \<and> currentDay l < startDay p + duration p"

definition isCompleted :: "mushroom_lifecycle \<Rightarrow> phase \<Rightarrow> bool" where
  "isCompleted l p \<longleftrightarrow> currentDay l \<ge> startDay p + duration p"

text \<open>The loop's test, as a predicate of the day.\<close>

definition in_phase :: "int \<Rightarrow> phase \<Rightarrow> bool" where
  "in_phase cur p \<longleftrightarrow> cur \<ge> startDay p \<and> cur < startDay p + duration p"

subsection \<open>The expanded card\<close>

definition toggleExpand :: "js_string option \<Rightarrow> js_string \<Rightarrow> js_string option" where
  "toggleExpand expandedId cid = (if expandedId = Some cid then None else Some cid)"

subsection \<open>Contiguous phase tables\<close>

text \<open>
  The spec's convention for a table: each phase starts where the one before ends and
  lasts at least a day. \<open>phases_end d ps\<close> is the first day after the table.
\<close>

fun contiguous_from :: "int \<Rightarrow> phase list \<Rightarrow> bool" where
  "contiguous_from d [] = True"
| "contiguous_from d (p # ps) = (startDay p = d \<and> 0 < duration p \<and> contiguous_from (d + duration p) ps)"

definition phases_end :: "int \<Rightarrow> phase list \<Rightarrow> int" where
  "phases_end d ps = d + sum_list (map duration ps)"

subsection \<open>The rendered card\<close>

text \<open>
  What the render of \<open>Progress\<close> shows for one chamber (lines 147--287): the header
  with the variety, chamber, emoji and the harvest ring when critical; the days badge; the
  phase bar, one segment per phase with its colour and width in percent, and the day
  marker; the line \<open>Day c / t\<close> and the phase name; and, while the card is expanded,
  the legend (per phase its name, \<open>N days\<close>, the completed tick and the current dot) with
  the harvest-window notice when critical. \<open>progress_view\<close> is the whole screen.
\<close>

record card_view =
  cv_varietyName :: js_string
  cv_chamberId :: js_string
  cv_emoji :: js_string
  cv_critical :: bool
  cv_badge :: js_string
  cv_segments :: "(js_string \<times> js_real) list"
  cv_marker :: js_real
  cv_dayLine :: js_string
  cv_phaseName :: js_string
  cv_legend :: "(js_string \<times> js_string \<times> bool \<times> bool) list option"
  cv_harvestWindow :: bool

definition render_card :: "js_string option \<Rightarrow> mushroom_lifecycle \<Rightarrow> card_view" where
  "render_card expandedId l =
     (let isExpanded = (expandedId = Some (chamberId l)) in
      \<lparr>cv_varietyName = varietyName l, cv_chamberId = chamberId l, cv_emoji = emoji l,
       cv_critical = isCritical l, cv_badge = days_badge_text l,
       cv_segments = map (\<lambda>p. (color p, phase_width_percent l p)) (phases l),
       cv_marker = progressPercent l,
       cv_dayLine = ''Day '' @ int_str (currentDay l) @ '' / '' @ int_str (totalDays l),
       cv_phaseName = getCurrentPhase l,
       cv_legend = (if isExpanded
                    then Some (map (\<lambda>p. (name p, int_str (duration p) @ '' days'', isCompleted l p, isCurrentPhase l p)) (phases l))
                    else None),
       cv_harvestWindow = (isExpanded \<and> isCritical l)\<rparr>)"

definition progress_view :: "js_string option \<Rightarrow> card_view list" where
  "progress_view expandedId = map (render_card expandedId) MUSHROOM_DATA"


subsection \<open>The loop and the legend\<close>

lemma loop_find: "getCurrentPhase_loop cur dc ps = map_option name (find (in_phase cur) ps)"
  by (induction ps arbitrary: dc) (auto simp: in_phase_def)

lemma isCurrentPhase_in_phase: "isCurrentPhase l = in_phase (currentDay l)"
  by (simp add: fun_eq_iff isCurrentPhase_def in_phase_def)

text \<open>
  C11. The phase named under a card's bar is the first phase its legend marks as current;
  when the legend marks none, the card says \<open>Ready for Harvest\<close> from the total day on
  and \<open>Unknown Phase\<close> before it.
\<close>

theorem getCurrentPhase_refines:
  "getCurrentPhase l = (case find (isCurrentPhase l) (phases l) of
      Some p \<Rightarrow> name p
    | None \<Rightarrow> (if currentDay l \<ge> totalDays l then ''Ready for Harvest'' else ''Unknown Phase''))"
  by (simp add: getCurrentPhase_def loop_find isCurrentPhase_in_phase split: option.split)

subsection \<open>Contiguous tables\<close>

lemma contiguous_sum_nonneg: "contiguous_from d ps \<Longrightarrow> 0 \<le> sum_list (map duration ps)"
proof (induction ps arbitrary: d)
  case (Cons q qs)
  then have "0 \<le> sum_list (map duration qs)" and "0 < duration q" by auto
  then show ?case by simp
qed simp

lemma contiguous_bounds:
  "contiguous_from d ps \<Longrightarrow> p \<in> set ps \<Longrightarrow> d \<le> startDay p \<and> startDay p + duration p \<le> phases_end d ps"
proof (induction ps arbitrary: d)
  case Nil
  then show ?case by simp
next
  case (Cons q qs)
  from Cons.prems(1) have q: "startDay q = d" "0 < duration q" and qs: "contiguous_from (d + duration q) qs"
    by simp_all
  have end_eq: "phases_end d (q # qs) = phases_end (d + duration q) qs"
    by (simp add: phases_end_def)
  show ?case
  proof (cases "p = q")
    case True
    have "0 \<le> sum_list (map duration qs)" using qs by (rule contiguous_sum_nonneg)
    with True q show ?thesis by (simp add: phases_end_def)
  next
    case False
    with Cons.prems(2) have "p \<in> set qs" by simp
    with Cons.IH [OF qs] q end_eq show ?thesis by simp
  qed
qed

lemma contiguous_find_some:
  "contiguous_from d ps \<Longrightarrow> d \<le> cur \<Longrightarrow> cur < phases_end d ps \<Longrightarrow>
   \<exists>p. find (in_phase cur) ps = Some p \<and> p \<in> set ps \<and> in_phase cur p"
proof (induction ps arbitrary: d)
  case Nil
  then show ?case by (simp add: phases_end_def)
next
  case (Cons q qs)
  show ?case
  proof (cases "in_phase cur q")
    case True
    then show ?thesis by simp
  next
    case False
    from Cons.prems(1) have q: "startDay q = d" and qs: "contiguous_from (d + duration q) qs"
      by simp_all
    with False Cons.prems(2) have ge: "d + duration q \<le> cur" by (auto simp: in_phase_def)
    have lt: "cur < phases_end (d + duration q) qs"
      using Cons.prems(3) by (simp add: phases_end_def add.assoc)
    obtain p where "find (in_phase cur) qs = Some p \<and> p \<in> set qs \<and> in_phase cur p"
      using Cons.IH [OF qs ge lt] by blast
    with False show ?thesis by auto
  qed
qed

lemma contiguous_find_none:
  assumes "contiguous_from d ps" and "phases_end d ps \<le> cur"
  shows "find (in_phase cur) ps = None"
proof -
  have "\<not> in_phase cur p" if "p \<in> set ps" for p
    using contiguous_bounds [OF assms(1) that] assms(2) by (simp add: in_phase_def)
  then show ?thesis by (simp add: find_None_iff)
qed

lemma contiguous_unique:
  "contiguous_from d ps \<Longrightarrow> p \<in> set ps \<Longrightarrow> q \<in> set ps \<Longrightarrow> in_phase cur p \<Longrightarrow> in_phase cur q \<Longrightarrow> p = q"
proof (induction ps arbitrary: d)
  case Nil
  then show ?case by simp
next
  case (Cons h hs)
  from Cons.prems(1) have hs: "contiguous_from (d + duration h) hs" and h: "startDay h = d" by simp_all
  have tail: "d + duration h \<le> startDay r" if "r \<in> set hs" for r
    using contiguous_bounds [OF hs that] by simp
  consider "p = h" "q = h" | "p = h" "q \<in> set hs" | "p \<in> set hs" "q = h" | "p \<in> set hs" "q \<in> set hs"
    using Cons.prems(2,3) by auto
  then show ?case
  proof cases
    case 1
    then show ?thesis by simp
  next
    case 2
    with tail [of q] h Cons.prems(4,5) show ?thesis by (simp add: in_phase_def)
  next
    case 3
    with tail [of p] h Cons.prems(4,5) show ?thesis by (simp add: in_phase_def)
  next
    case 4
    with Cons.IH [OF hs] Cons.prems(4,5) show ?thesis by blast
  qed
qed

lemma getCurrentPhase_contiguous:
  assumes "contiguous_from 1 (phases l)" and "1 \<le> currentDay l" and "currentDay l < phases_end 1 (phases l)"
  shows "\<exists>p. p \<in> set (phases l) \<and> in_phase (currentDay l) p \<and> getCurrentPhase l = name p"
proof -
  obtain p where p: "find (in_phase (currentDay l)) (phases l) = Some p" "p \<in> set (phases l)"
      "in_phase (currentDay l) p"
    using contiguous_find_some [OF assms] by blast
  then have "getCurrentPhase l = name p" by (simp add: getCurrentPhase_def loop_find)
  with p(2,3) show ?thesis by blast
qed

text \<open>
  C12. On a table that is contiguous from day 1, a day inside the table lies in exactly one
  phase: the legend marks that phase alone as current, and the card names it.
\<close>

theorem current_phase_unique:
  assumes "contiguous_from 1 (phases l)" and "1 \<le> currentDay l" and "currentDay l < phases_end 1 (phases l)"
  shows "\<exists>p \<in> set (phases l). isCurrentPhase l p \<and> getCurrentPhase l = name p \<and>
           (\<forall>q \<in> set (phases l). isCurrentPhase l q \<longrightarrow> q = p)"
proof -
  obtain p where p: "p \<in> set (phases l)" "in_phase (currentDay l) p" "getCurrentPhase l = name p"
    using getCurrentPhase_contiguous [OF assms] by blast
  have uniq: "q = p" if "q \<in> set (phases l)" "isCurrentPhase l q" for q
  proof -
    from that(2) have "in_phase (currentDay l) q" by (simp add: isCurrentPhase_in_phase)
    then show "q = p" by (rule contiguous_unique [OF assms(1) that(1) p(1) _ p(2)])
  qed
  have cur: "isCurrentPhase l p" using p(2) by (simp add: isCurrentPhase_in_phase)
  show ?thesis
    using p(1,3) cur uniq by blast
qed

theorem current_phase_unique_witness:
  "contiguous_from 1 (phases (MUSHROOM_DATA ! 0)) \<and> 1 \<le> currentDay (MUSHROOM_DATA ! 0) \<and>
   currentDay (MUSHROOM_DATA ! 0) < phases_end 1 (phases (MUSHROOM_DATA ! 0)) \<and>
   getCurrentPhase (MUSHROOM_DATA ! 0) = ''Mycelial Run''"
proof -
  have h: "contiguous_from 1 (phases (MUSHROOM_DATA ! 0))" "1 \<le> currentDay (MUSHROOM_DATA ! 0)"
      "currentDay (MUSHROOM_DATA ! 0) < phases_end 1 (phases (MUSHROOM_DATA ! 0))"
    by (simp_all add: MUSHROOM_DATA_def phases_end_def)
  obtain p where "p \<in> set (phases (MUSHROOM_DATA ! 0))" "isCurrentPhase (MUSHROOM_DATA ! 0) p"
      "getCurrentPhase (MUSHROOM_DATA ! 0) = name p"
    using current_phase_unique [OF h] by blast
  moreover have "getCurrentPhase (MUSHROOM_DATA ! 0) = ''Mycelial Run''"
    by (simp add: MUSHROOM_DATA_def getCurrentPhase_def)
  ultimately show ?thesis using h by simp
qed

text \<open>
  After the last phase of a contiguous table the card names no phase: it says
  \<open>Ready for Harvest\<close> once the day has reached the total, and \<open>Unknown Phase\<close>
  while the table ends before the total.
\<close>

lemma phase_after_table:
  assumes "contiguous_from 1 (phases l)" and "phases_end 1 (phases l) \<le> currentDay l"
  shows "getCurrentPhase l = (if totalDays l \<le> currentDay l then ''Ready for Harvest'' else ''Unknown Phase'')"
  using contiguous_find_none [OF assms] by (simp add: getCurrentPhase_def loop_find)

theorem phase_after_table_witness:
  "contiguous_from 1 (phases ((MUSHROOM_DATA ! 1)\<lparr>currentDay := 35\<rparr>)) \<and>
   phases_end 1 (phases ((MUSHROOM_DATA ! 1)\<lparr>currentDay := 35\<rparr>)) \<le> currentDay ((MUSHROOM_DATA ! 1)\<lparr>currentDay := 35\<rparr>) \<and>
   getCurrentPhase ((MUSHROOM_DATA ! 1)\<lparr>currentDay := 35\<rparr>) = ''Ready for Harvest''"
proof -
  have h: "contiguous_from 1 (phases ((MUSHROOM_DATA ! 1)\<lparr>currentDay := 35\<rparr>))"
      "phases_end 1 (phases ((MUSHROOM_DATA ! 1)\<lparr>currentDay := 35\<rparr>)) \<le> currentDay ((MUSHROOM_DATA ! 1)\<lparr>currentDay := 35\<rparr>)"
    by (simp_all add: MUSHROOM_DATA_def phases_end_def)
  have t: "totalDays ((MUSHROOM_DATA ! 1)\<lparr>currentDay := 35\<rparr>) \<le> currentDay ((MUSHROOM_DATA ! 1)\<lparr>currentDay := 35\<rparr>)"
    by (simp add: MUSHROOM_DATA_def)
  show ?thesis using h t phase_after_table [OF h] by simp
qed

text \<open>
  C14. The days-remaining badge is never negative, and before the total day it is the
  difference of the total and the current day (\<open>35, 28\<close> gives 7, \<open>35, 40\<close> gives 0).
\<close>

theorem days_remaining_bounds:
  "0 \<le> getDaysRemaining total_days current \<and>
   (current \<le> total_days \<longrightarrow> getDaysRemaining total_days current = total_days - current)"
  by (simp add: getDaysRemaining_def)

theorem days_remaining_bounds_witness:
  "getDaysRemaining 35 28 = 7 \<and> getDaysRemaining 35 40 = 0 \<and> (28::int) \<le> 35"
  using days_remaining_bounds [of 35 28] days_remaining_bounds [of 35 40]
  by (simp add: getDaysRemaining_def)

text \<open>
  C15. For a positive total and a non-negative current day the day marker is a finite
  position between 0 and 100 per cent.
\<close>

theorem progress_percent_bounds:
  assumes "0 < totalDays l" and "0 \<le> currentDay l"
  shows "\<exists>x. progressPercent l = JFin x \<and> 0 \<le> x \<and> x \<le> 100"
proof -
  have "0 \<le> (of_int (currentDay l) / of_int (totalDays l) :: rat)"
    using assms by simp
  then show ?thesis
    using assms by (simp add: progressPercent_def js_div_int_def)
qed

theorem progress_percent_bounds_witness:
  "0 < totalDays (MUSHROOM_DATA ! 0) \<and> 0 \<le> currentDay (MUSHROOM_DATA ! 0) \<and> progressPercent (MUSHROOM_DATA ! 0) = JFin 45"
proof -
  have h: "0 < totalDays (MUSHROOM_DATA ! 0)" "0 \<le> currentDay (MUSHROOM_DATA ! 0)"
    by (simp_all add: MUSHROOM_DATA_def)
  have "progressPercent (MUSHROOM_DATA ! 0) = JFin 45"
    by (simp add: MUSHROOM_DATA_def progressPercent_def js_div_int_def)
  then show ?thesis using h progress_percent_bounds [OF h] by simp
qed

text \<open>
  C16. Nothing guards the division by \<open>totalDays\<close>: for a total of 0 the marker
  position is \<open>NaN\<close> at day 0, 100 after it (\<open>Math.min\<close> caps \<open>Infinity\<close>), and
  \<open>-Infinity\<close> before it.
\<close>

theorem progress_percent_zero_total:
  assumes "totalDays l = 0"
  shows "progressPercent l = (if currentDay l = 0 then JNaN else if 0 < currentDay l then JFin 100 else JNegInf)"
  using assms by (simp add: progressPercent_def js_div_int_def)

theorem progress_percent_zero_total_witness:
  "totalDays ((MUSHROOM_DATA ! 0)\<lparr>currentDay := 0, totalDays := 0\<rparr>) = 0 \<and>
   progressPercent ((MUSHROOM_DATA ! 0)\<lparr>currentDay := 0, totalDays := 0\<rparr>) = JNaN"
  using progress_percent_zero_total [of "(MUSHROOM_DATA ! 0)\<lparr>currentDay := 0, totalDays := 0\<rparr>"] by simp

text \<open>
  On its last day (day 100 of 100) the Shiitake card still names the phase
  \<open>Fruiting & Harvest\<close>, not \<open>Ready for Harvest\<close>: its last phase runs to day 100
  inclusive, one day past the table of most other chambers.
\<close>

lemma shiitake_last_day_not_ready:
  "totalDays (MUSHROOM_DATA ! 0) = 100 \<and>
   getCurrentPhase ((MUSHROOM_DATA ! 0)\<lparr>currentDay := 100\<rparr>) = ''Fruiting & Harvest''"
  by (simp add: MUSHROOM_DATA_def getCurrentPhase_def)

text \<open>
  C17. The segments of a card's phase bar are finite widths that together cover
  \<open>100 * \<Sum>duration / totalDays\<close> percent: the bar is full exactly when the phases
  sum to the total. Five of the seven tables stop one day short, so their bars end at
  \<open>100 * (t - 1) / t\<close> percent (Oyster: \<open>680/7\<close>, about 97.1).
\<close>

theorem phase_bar_width:
  assumes "0 < totalDays l"
  shows "\<exists>ws. map snd (cv_segments (render_card e l)) = map JFin ws \<and>
             sum_list ws = 100 * of_int (sum_list (map duration (phases l))) / of_int (totalDays l)"
proof -
  let ?ws = "map (\<lambda>p. of_int (duration p) / of_int (totalDays l) * (100 :: rat)) (phases l)"
  have "map snd (cv_segments (render_card e l)) = map JFin ?ws"
    using assms by (simp add: render_card_def Let_def phase_width_percent_def js_div_int_def)
  moreover have "sum_list ?ws = 100 * of_int (sum_list (map duration (phases l))) / of_int (totalDays l)"
    by (simp only: sum_list_scaled) simp
  ultimately show ?thesis by blast
qed

theorem phase_bar_width_witness:
  "0 < totalDays (MUSHROOM_DATA ! 1) \<and>
   100 * of_int (sum_list (map duration (phases (MUSHROOM_DATA ! 1)))) / of_int (totalDays (MUSHROOM_DATA ! 1)) = (680 / 7 :: rat) \<and>
   (\<exists>ws. map snd (cv_segments (render_card None (MUSHROOM_DATA ! 1))) = map JFin ws \<and> sum_list ws = 680 / 7)"
proof -
  have t: "0 < totalDays (MUSHROOM_DATA ! 1)" by (simp add: MUSHROOM_DATA_def)
  have v: "100 * of_int (sum_list (map duration (phases (MUSHROOM_DATA ! 1)))) / of_int (totalDays (MUSHROOM_DATA ! 1)) = (680 / 7 :: rat)"
    by (simp add: MUSHROOM_DATA_def)
  from phase_bar_width [OF t, of None]
  have "\<exists>ws. map snd (cv_segments (render_card None (MUSHROOM_DATA ! 1))) = map JFin ws \<and> sum_list ws = 680 / 7"
    unfolding v .
  with t v show ?thesis by blast
qed

lemma mushroom_data_wf:
  "\<forall>l \<in> set MUSHROOM_DATA. contiguous_from 1 (phases l) \<and> totalDays l \<le> phases_end 1 (phases l) \<and>
     (\<forall>p \<in> set (phases l). name p \<noteq> ''Unknown Phase'' \<and> name p \<noteq> ''Ready for Harvest'')"
  by (simp add: MUSHROOM_DATA_def phases_end_def)

text \<open>
  C18. The lifecycle tables of the app leave no gap: for every chamber of
  \<open>MUSHROOM_DATA\<close> and every day from 1 to the day before its total, the card names
  one of the chamber's phases, never \<open>Unknown Phase\<close> or \<open>Ready for Harvest\<close>.
\<close>

theorem mushroom_data_no_gap:
  "\<forall>l \<in> set MUSHROOM_DATA. \<forall>d. 1 \<le> d \<and> d < totalDays l \<longrightarrow>
     getCurrentPhase (l\<lparr>currentDay := d\<rparr>) \<noteq> ''Unknown Phase'' \<and>
     getCurrentPhase (l\<lparr>currentDay := d\<rparr>) \<noteq> ''Ready for Harvest''"
proof (intro ballI allI impI)
  fix l d
  assume l: "l \<in> set MUSHROOM_DATA" and d: "1 \<le> d \<and> d < totalDays l"
  let ?l = "l\<lparr>currentDay := d\<rparr>"
  from l mushroom_data_wf have wf: "contiguous_from 1 (phases ?l)" "totalDays l \<le> phases_end 1 (phases ?l)"
      "\<forall>p \<in> set (phases ?l). name p \<noteq> ''Unknown Phase'' \<and> name p \<noteq> ''Ready for Harvest''"
    by auto
  have "1 \<le> currentDay ?l" "currentDay ?l < phases_end 1 (phases ?l)" using d wf(2) by simp_all
  then obtain p where "p \<in> set (phases ?l)" "getCurrentPhase ?l = name p"
    using getCurrentPhase_contiguous [OF wf(1)] by blast
  with wf(3) show "getCurrentPhase ?l \<noteq> ''Unknown Phase'' \<and> getCurrentPhase ?l \<noteq> ''Ready for Harvest''"
    by simp
qed

theorem mushroom_data_no_gap_witness:
  "MUSHROOM_DATA ! 1 \<in> set MUSHROOM_DATA \<and> 1 \<le> (34::int) \<and> 34 < totalDays (MUSHROOM_DATA ! 1) \<and>
   getCurrentPhase ((MUSHROOM_DATA ! 1)\<lparr>currentDay := 34\<rparr>) \<noteq> ''Unknown Phase''"
proof -
  have m: "MUSHROOM_DATA ! 1 \<in> set MUSHROOM_DATA" by (simp add: MUSHROOM_DATA_def)
  have t: "34 < totalDays (MUSHROOM_DATA ! 1)" by (simp add: MUSHROOM_DATA_def)
  show ?thesis using m t mushroom_data_no_gap by auto
qed
end
