(* ===== verification/Trends_View.thy ===== *)
theory Trends_View
  imports Stats_Charts
begin

text \<open>
  What \<open>src/screens/Trends.tsx\<close> renders: the period selector, one chart card per
  entry of \<open>TRENDS_DATA\<close> (title, unit, the optimal band and its label, the 24-point
  series, the X-axis ticks, the tooltip of a hovered point) and the prescriptive action
  card. The tooltip prints the value with \<open>toFixed(1)\<close>, modelled by the steps of
  ECMAScript's \<open>Number.prototype.toFixed\<close> on exact rationals; its exponent branch for
  magnitudes of at least \<open>10\<^sup>21\<close> is \<open>None\<close> (never reached: the series stay below
  1000).

  Proved below: \<open>toFixed(1)\<close> prints the integer part, a point and one digit, rounded
  half up on the magnitude; every point of a chart hovers to its time, the trend's colour
  and its value so rounded (C13); the ticks read 0h, 6h, 12h, 18h whatever the random
  draws; the selected period changes only the highlighted button.
\<close>

subsection \<open>The period selector\<close>

datatype period = P24h | P7d | P30d

definition period_label :: "period \<Rightarrow> js_string" where
  "period_label p = (case p of P24h \<Rightarrow> ''24h'' | P7d \<Rightarrow> ''7d'' | P30d \<Rightarrow> ''30d'')"

definition PERIODS :: "period list" where
  "PERIODS = [P24h, P7d, P30d]"

subsection \<open>\<open>toFixed(1)\<close>\<close>

text \<open>
  For a finite \<open>x\<close>: the sign is printed apart; \<open>n\<close> is the integer for which
  \<open>n / 10 - |x|\<close> is closest to zero, the larger of two; its digits are padded with
  zeros to two and a point is put before the last.
\<close>

definition toFixed1 :: "rat \<Rightarrow> js_string option" where
  "toFixed1 x =
     (let s = (if x < 0 then ''-'' else []); a = \<bar>x\<bar> in
      if 10 ^ 21 \<le> a then None
      else
        let n = nat \<lfloor>10 * a + 1 / 2\<rfloor>; m = nat_str n;
            m' = (if length m \<le> 1 then replicate (2 - length m) CHR ''0'' @ m else m);
            k = length m'
        in Some (s @ take (k - 1) m' @ ''.'' @ drop (k - 1) m'))"

subsection \<open>The tooltip\<close>

text \<open>
  \<open>CustomTooltip\<close> (lines 22--34) receives from the chart whether it is active, the
  payload of the hovered point (its line's stroke and value) and the point's X value.
\<close>

record tooltip_item =
  ti_stroke :: js_string
  ti_value :: rat

definition CustomTooltip ::
  "bool \<Rightarrow> tooltip_item list option \<Rightarrow> js_string \<Rightarrow> (js_string \<times> js_string \<times> js_string option) option" where
  "CustomTooltip active payload lbl =
     (case payload of
        Some (p # _) \<Rightarrow> if active then Some (lbl, ti_stroke p, toFixed1 (ti_value p)) else None
      | _ \<Rightarrow> None)"

subsection \<open>The rendered screen\<close>

text \<open>
  A chart card. \<open>interval={5}\<close> makes the axis label every sixth point; hovering a
  point hands the tooltip that point's time and a payload holding the line's stroke
  (the trend's colour) and the point's value. The random draws of each series are a
  parameter, one list per trend id.
\<close>

record trend_card_view =
  tcv_title :: js_string
  tcv_unit :: js_string
  tcv_color :: js_string
  tcv_optimal :: js_string
  tcv_band :: "js_number \<times> js_number"
  tcv_data :: "(js_string \<times> rat) list"
  tcv_ticks :: "js_string list"
  tcv_tooltips :: "(js_string \<times> js_string \<times> js_string option) option list"

definition axis_ticks :: "(js_string \<times> rat) list \<Rightarrow> js_string list" where
  "axis_ticks ds = map (\<lambda>i. tickFormatter (fst (ds ! i))) (filter (\<lambda>i. i mod 6 = 0) [0..<length ds])"

definition trend_card :: "(js_string \<Rightarrow> rat list) \<Rightarrow> trend_band \<Rightarrow> trend_card_view" where
  "trend_card draws b =
     (let ds = trend_series (trend_id b) (draws (trend_id b)) in
      \<lparr>tcv_title = trend_title b, tcv_unit = trend_unit b, tcv_color = trend_color b,
       tcv_optimal = optimal_label b, tcv_band = (optimalMin b, optimalMax b), tcv_data = ds,
       tcv_ticks = axis_ticks ds,
       tcv_tooltips = map (\<lambda>(t, v). CustomTooltip True (Some [\<lparr>ti_stroke = trend_color b, ti_value = v\<rparr>]) t) ds\<rparr>)"

record trends_view =
  trv_selector :: "(js_string \<times> bool) list"
  trv_cards :: "trend_card_view list"
  trv_action :: "js_string \<times> js_string \<times> js_string"

definition trends_render :: "period \<Rightarrow> (js_string \<Rightarrow> rat list) \<Rightarrow> trends_view" where
  "trends_render period draws =
     \<lparr>trv_selector = map (\<lambda>p. (period_label p, p = period)) PERIODS,
      trv_cards = map (trend_card draws) TRENDS_BANDS,
      trv_action = (''Critical Action Required'',
                    ''Humidity is dropping rapidly. Run the misting system for 12 minutes immediately.'',
                    ''Assign to Staff'')\<rparr>"

subsection \<open>Printing with one decimal\<close>

lemma nat_str_small: "n < 10 \<Longrightarrow> nat_str n = [digit_char n]"
  by (simp add: nat_str.simps)

lemma nat_str_big: "10 \<le> n \<Longrightarrow> nat_str n = nat_str (n div 10) @ [digit_char (n mod 10)]"
  by (subst nat_str.simps) simp

text \<open>The padding and splitting of the digits put the point before the last digit.\<close>

lemma fixed1_digits:
  fixes n :: nat
  defines "m \<equiv> nat_str n"
  defines "m' \<equiv> (if length m \<le> 1 then replicate (2 - length m) CHR ''0'' @ m else m)"
  shows "take (length m' - 1) m' @ ''.'' @ drop (length m' - 1) m' =
         nat_str (n div 10) @ ''.'' @ [digit_char (n mod 10)]"
proof (cases "n < 10")
  case True
  then have "m' = [CHR ''0'', digit_char n]" by (simp add: m_def m'_def nat_str_small)
  moreover have "nat_str 0 = [CHR ''0'']" by code_simp
  ultimately show ?thesis using True by simp
next
  case False
  then have "length m \<ge> 2" by (simp add: m_def nat_str_big Suc_le_eq)
  then show ?thesis using False by (simp add: m'_def m_def nat_str_big)
qed

lemma round_half_up:
  fixes a :: rat
  assumes "0 \<le> a"
  defines "n \<equiv> nat \<lfloor>10 * a + 1 / 2\<rfloor>"
  shows "\<bar>of_nat n - 10 * a\<bar> \<le> 1 / 2 \<and> (\<bar>of_nat n - 10 * a\<bar> = 1 / 2 \<longrightarrow> 10 * a < of_nat n)"
proof -
  have "0 \<le> \<lfloor>10 * a + 1 / 2\<rfloor>" using assms(1) by simp
  then have "(of_nat n :: rat) = of_int \<lfloor>10 * a + 1 / 2\<rfloor>" by (simp add: n_def)
  moreover have "of_int \<lfloor>10 * a + 1 / 2\<rfloor> \<le> 10 * a + 1 / 2" "10 * a + 1 / 2 < of_int \<lfloor>10 * a + 1 / 2\<rfloor> + 1"
    using floor_correct [of "10 * a + 1 / 2"] by simp_all
  ultimately have "- 1 / 2 < of_nat n - 10 * a \<and> of_nat n - 10 * a \<le> 1 / 2" by linarith
  then show ?thesis by (auto simp: abs_if)
qed

lemma toFixed1_rounds:
  assumes "\<bar>x\<bar> < 10 ^ 21"
  shows "\<exists>n. toFixed1 x = Some ((if x < 0 then ''-'' else []) @ nat_str (n div 10) @ ''.'' @ [digit_char (n mod 10)]) \<and>
             \<bar>of_nat n - 10 * \<bar>x\<bar>\<bar> \<le> 1 / 2 \<and> (\<bar>of_nat n - 10 * \<bar>x\<bar>\<bar> = 1 / 2 \<longrightarrow> 10 * \<bar>x\<bar> < of_nat n)"
proof (intro exI conjI)
  let ?n = "nat \<lfloor>10 * \<bar>x\<bar> + 1 / 2\<rfloor>"
  show "toFixed1 x = Some ((if x < 0 then ''-'' else []) @ nat_str (?n div 10) @ ''.'' @ [digit_char (?n mod 10)])"
    using assms fixed1_digits [of ?n] by (simp add: toFixed1_def Let_def not_le)
  show "\<bar>of_nat ?n - 10 * \<bar>x\<bar>\<bar> \<le> 1 / 2" using round_half_up [of "\<bar>x\<bar>"] by simp
  show "\<bar>of_nat ?n - 10 * \<bar>x\<bar>\<bar> = 1 / 2 \<longrightarrow> 10 * \<bar>x\<bar> < of_nat ?n" using round_half_up [of "\<bar>x\<bar>"] by simp
qed

lemma tooltip_inactive: "\<not> active \<or> payload = None \<or> payload = Some [] \<Longrightarrow> CustomTooltip active payload l = None"
  by (auto simp: CustomTooltip_def split: option.splits list.splits)

subsection \<open>The series\<close>

lemma generateTrend_nth:
  "i < 24 \<Longrightarrow> generateTrend base variance rs ! i = (nat_str i @ '':00'', base + rs ! i * variance - variance / 2)"
  by (simp add: generateTrend_def)

lemma trend_series_shape:
  assumes "i < 24"
  shows "length (trend_series tid rs) = 24 \<and> fst (trend_series tid rs ! i) = nat_str i @ '':00''"
  using assms by (simp add: humidity_drop_def generateTrend_def enumerate_eq_zip)

lemma humidity_drop_member:
  assumes "p \<in> set (humidity_drop ds)"
  shows "\<exists>q \<in> set ds. snd p = snd q \<or> snd p = snd q - 15"
proof -
  from assms obtain i d where id: "(i, d) \<in> set (enumerate 0 ds)" "p = (if 18 < i then (fst d, snd d - 15) else d)"
    by (auto simp: humidity_drop_def)
  then have "d \<in> set ds" by (auto simp: in_set_enumerate_eq)
  with id(2) show ?thesis by (auto split: if_splits)
qed

lemma trend_series_range:
  assumes "random_draws rs" and "p \<in> set (trend_series tid rs)"
  shows "0 < snd p \<and> snd p < 1000"
proof -
  have gt: "\<And>b v q. q \<in> set (generateTrend b v rs) \<Longrightarrow> 0 < v \<Longrightarrow> b - v / 2 \<le> snd q \<and> snd q < b + v / 2"
    using generateTrend_bounds [OF assms(1)] by (metis prod.collapse)
  show ?thesis
  proof (cases "tid = ''humidity''")
    case True
    with assms(2) obtain q where q: "q \<in> set (generateTrend 82 10 rs)" "snd p = snd q \<or> snd p = snd q - 15"
      using humidity_drop_member by fastforce
    with gt [OF q(1)] show ?thesis by auto
  next
    case False
    with assms(2) have "p \<in> set (generateTrend (45 / 2) 3 rs) \<or> p \<in> set (generateTrend 850 100 rs) \<or>
                        p \<in> set (generateTrend 12 1 rs)"
      by (auto split: if_splits)
    moreover have h: "\<And>b v. p \<in> set (generateTrend b v rs) \<Longrightarrow> 0 < v \<Longrightarrow> 0 < b - v / 2 \<Longrightarrow> b + v / 2 \<le> 1000 \<Longrightarrow>
                      0 < snd p \<and> snd p < 1000"
      using gt by fastforce
    ultimately show ?thesis by (elim disjE) (erule h; simp)+
  qed
qed

subsection \<open>The rendered charts\<close>

lemma trend_card_ticks: "tcv_ticks (trend_card draws b) = [''0h'', ''6h'', ''12h'', ''18h'']"
proof -
  let ?ds = "trend_series (trend_id b) (draws (trend_id b))"
  have f: "filter (\<lambda>i. i mod 6 = 0) [0..<24] = [0, 6, 12, 18 :: nat]" by code_simp
  have sh: "\<And>i. i < 24 \<Longrightarrow> length ?ds = 24 \<and> fst (?ds ! i) = nat_str i @ '':00''"
    by (rule trend_series_shape)
  have t: "\<And>i. i < 24 \<Longrightarrow> tickFormatter (fst (?ds ! i)) = nat_str i @ ''h''"
    using sh tickFormatter_time by simp
  have n: "nat_str 0 = ''0''" "nat_str 6 = ''6''" "nat_str 12 = ''12''" "nat_str 18 = ''18''" by code_simp+
  show ?thesis
    using sh [of 0] t [of 0] by (simp add: trend_card_def Let_def axis_ticks_def f t n del: trend_series.simps)
qed

text \<open>The selected period only moves the highlight: the charts and the action card stay.\<close>

lemma period_changes_only_selector:
  "trv_cards (trends_render p draws) = trv_cards (trends_render q draws) \<and>
   trv_action (trends_render p draws) = trv_action (trends_render q draws) \<and>
   filter snd (trv_selector (trends_render p draws)) = [(period_label p, True)]"
  by (cases p) (simp_all add: trends_render_def PERIODS_def)

text \<open>
  C13. Hovering the \<open>i\<close>-th point of a chart shows its time, the trend's colour and its
  value printed by \<open>toFixed(1)\<close>: an integer part, a point and one digit, within a
  twentieth of the value and rounded up on a tie. The series' values are positive and
  below 1000 for any draws of \<open>Math.random()\<close>, so no sign and no exponent appear.
\<close>

theorem chart_tooltip_rounded:
  assumes "random_draws (draws (trend_id b))" and "i < 24"
  shows "\<exists>n. tcv_tooltips (trend_card draws b) ! i =
               Some (nat_str i @ '':00'', trend_color b, Some (nat_str (n div 10) @ ''.'' @ [digit_char (n mod 10)])) \<and>
             \<bar>of_nat n - 10 * snd (tcv_data (trend_card draws b) ! i)\<bar> \<le> 1 / 2 \<and>
             (\<bar>of_nat n - 10 * snd (tcv_data (trend_card draws b) ! i)\<bar> = 1 / 2 \<longrightarrow>
              10 * snd (tcv_data (trend_card draws b) ! i) < of_nat n)"
proof -
  let ?ds = "trend_series (trend_id b) (draws (trend_id b))"
  obtain t v where tv: "?ds ! i = (t, v)" by fastforce
  have "length ?ds = 24 \<and> fst (?ds ! i) = nat_str i @ '':00''" by (rule trend_series_shape [OF assms(2)])
  then have sh: "length ?ds = 24" "t = nat_str i @ '':00''" using tv by auto
  then have "(t, v) \<in> set ?ds" using assms(2) tv nth_mem [of i ?ds] by simp
  then have "0 < v \<and> v < 1000" using trend_series_range [OF assms(1)] by fastforce
  then have v: "\<bar>v\<bar> = v" "\<not> v < 0" "\<bar>v\<bar> < 10 ^ 21" by simp_all
  obtain n where n: "toFixed1 v = Some (nat_str (n div 10) @ ''.'' @ [digit_char (n mod 10)])"
    "\<bar>of_nat n - 10 * v\<bar> \<le> 1 / 2" "\<bar>of_nat n - 10 * v\<bar> = 1 / 2 \<longrightarrow> 10 * v < of_nat n"
    using toFixed1_rounds [OF v(3)] v(1,2) by auto
  have "tcv_tooltips (trend_card draws b) ! i = CustomTooltip True (Some [\<lparr>ti_stroke = trend_color b, ti_value = v\<rparr>]) t"
    using assms(2) sh(1) tv by (simp add: trend_card_def Let_def del: trend_series.simps)
  moreover have "snd (tcv_data (trend_card draws b) ! i) = v"
    using tv by (simp add: trend_card_def Let_def del: trend_series.simps)
  ultimately show ?thesis using n sh(2) by (intro exI [of _ n]) (simp add: CustomTooltip_def)
qed

theorem chart_tooltip_rounded_witness:
  "random_draws ((\<lambda>_. replicate 24 (1 / 2)) (trend_id (TRENDS_BANDS ! 1))) \<and> (20 :: nat) < 24 \<and>
   (\<exists>n. tcv_tooltips (trend_card (\<lambda>_. replicate 24 (1 / 2)) (TRENDS_BANDS ! 1)) ! 20 =
          Some (nat_str 20 @ '':00'', trend_color (TRENDS_BANDS ! 1), Some (nat_str (n div 10) @ ''.'' @ [digit_char (n mod 10)])) \<and>
        \<bar>of_nat n - 10 * snd (tcv_data (trend_card (\<lambda>_. replicate 24 (1 / 2)) (TRENDS_BANDS ! 1)) ! 20)\<bar> \<le> 1 / 2 \<and>
        (\<bar>of_nat n - 10 * snd (tcv_data (trend_card (\<lambda>_. replicate 24 (1 / 2)) (TRENDS_BANDS ! 1)) ! 20)\<bar> = 1 / 2 \<longrightarrow>
         10 * snd (tcv_data (trend_card (\<lambda>_. replicate 24 (1 / 2)) (TRENDS_BANDS ! 1)) ! 20) < of_nat n)) \<and>
   tcv_tooltips (trend_card (\<lambda>_. replicate 24 (1 / 2)) (TRENDS_BANDS ! 1)) ! 20 = Some (''20:00'', ''#1E88E5'', Some ''67.0'')"
proof -
  have r: "random_draws ((\<lambda>_. replicate 24 (1 / 2)) (trend_id (TRENDS_BANDS ! 1)))"
    by (simp add: random_draws_def list_all_iff)
  show ?thesis
    apply (intro conjI)
    subgoal by (rule r)
    subgoal by simp
    subgoal by (rule chart_tooltip_rounded [OF r]) simp
    subgoal by code_simp
    done
qed

end
