(* ===== verification/Settings_View.thy ===== *)
theory Settings_View
  imports Constants
begin

text \<open>
  What \<open>src/screens/Settings.tsx\<close> renders from the app's \<open>darkMode\<close> and its own
  \<open>showProfile\<close> flag: the theme button (a sun in dark mode, a moon otherwise), the
  employee card, the company details, the sign-out button and, while \<open>showProfile\<close>
  holds, the employee modal with the career timeline in the order of
  \<open>EMPLOYEE_PROFILE.timeline\<close>. The handlers are in \<open>App_Shell\<close>, which shows this
  view for the mounted Settings screen.
\<close>

record profile_modal_view =
  pm_avatar :: js_string
  pm_name :: js_string
  pm_role :: js_string
  pm_joined :: js_string
  pm_id :: js_string
  pm_gender :: js_string
  pm_timeline :: "(js_string \<times> js_string \<times> js_string) list"

record settings_view =
  sv_themeIcon :: js_string
  sv_card :: "js_string list"
  sv_company :: "(js_string \<times> js_string) list"
  sv_address :: js_string
  sv_signOut :: js_string
  sv_modal :: "profile_modal_view option"

definition profile_modal :: "employee_profile \<Rightarrow> profile_modal_view" where
  "profile_modal ep =
     \<lparr>pm_avatar = ep_avatar ep, pm_name = ep_name ep, pm_role = ep_role ep,
      pm_joined = ''Joined '' @ ep_joinDate ep, pm_id = ep_id ep, pm_gender = ep_gender ep,
      pm_timeline = map (\<lambda>e. (ev_date e, ev_title e, ev_description e)) (ep_timeline ep)\<rparr>"

definition settings_render :: "bool \<Rightarrow> bool \<Rightarrow> settings_view" where
  "settings_render darkMode showProfile =
     \<lparr>sv_themeIcon = (if darkMode then ''Sun'' else ''Moon''),
      sv_card = [ep_avatar EMPLOYEE_PROFILE, ep_name EMPLOYEE_PROFILE, ep_role EMPLOYEE_PROFILE,
                 ep_id EMPLOYEE_PROFILE, ep_gender EMPLOYEE_PROFILE],
      sv_company = [(''Factory Size'', ci_size COMPANY_INFO),
                    (''Employees'', nat_str (ci_employees COMPANY_INFO) @ '' Active Staff''),
                    (''GST Number'', ci_gst COMPANY_INFO)],
      sv_address = ci_address COMPANY_INFO,
      sv_signOut = ''Sign Out'',
      sv_modal = (if showProfile then Some (profile_modal EMPLOYEE_PROFILE) else None)\<rparr>"

text \<open>
  The modal appears exactly while \<open>showProfile\<close> holds, names the employee of the card,
  and lists the five career events from joining to the present.
\<close>

lemma settings_modal_profile:
  "sv_modal (settings_render d b) \<noteq> None \<longleftrightarrow> b"
  "sv_modal (settings_render d True) = Some pm \<Longrightarrow>
     [pm_avatar pm, pm_name pm, pm_role pm, pm_id pm, pm_gender pm] = sv_card (settings_render d True) \<and>
     map (fst \<circ> snd) (pm_timeline pm) = [''Joined Sporacle'', ''Certification'', ''Promoted'', ''Senior Role'', ''Current'']"
  by (auto simp: settings_render_def profile_modal_def EMPLOYEE_PROFILE_def)

lemma settings_staff_line: "sv_company (settings_render d b) ! 1 = (''Employees'', ''42 Active Staff'')"
  by (simp add: settings_render_def COMPANY_INFO_def) code_simp

end
