(* ===== verification/App_Shell.thy ===== *)
theory App_Shell
  imports Dashboard_Status Tasks_Screen Chat_Session Lifecycle Trends_View Settings_View
begin

text \<open>
  The application shell and the way the screens are composed: \<open>src/App.tsx\<close> (login
  state, the login/register switch, the active tab, dark mode, \<open>handleNavigate\<close>,
  \<open>handleLogout\<close>, \<open>renderScreen\<close>), \<open>src/components/Layout.tsx\<close> (the bottom
  navigation and the assistant widget it always mounts), the screens' own handlers that
  the other theories do not hold (\<open>src/screens/Stats.tsx\<close>: the chart period;
  \<open>src/screens/Trends.tsx\<close>: period and
  \<open>Assign to Staff\<close>; \<open>src/screens/Settings.tsx\<close>: dark mode, profile, sign out;
  \<open>src/screens/Progress.tsx\<close>: the expanded card), and the two forms of
  \<open>src/screens/Login.tsx\<close> and \<open>src/screens/Register.tsx\<close>.

  React keeps a component's state while it stays mounted. \<open>renderScreen\<close> renders one
  screen per tab under a \<open>motion.div\<close> keyed by the tab, so changing the tab unmounts the
  old screen and mounts the new one with its initial state; setting the same tab again
  changes nothing. The model therefore holds the mounted screen's state in the datatype
  \<open>screen\<close>, replaced by \<open>mount\<close> on every change of tab. The assistant lives in
  \<open>Layout\<close>, which stays mounted while logged in, so its state survives tab changes and
  starts afresh at each login. \<open>sessionStorage.returnTab\<close> is outside React and
  survives everything, including sign out.

  Which events can happen is read off the render as in the screen theories: the forms
  are offered while logged out, the navigation bar and the screen's controls while logged
  in, and a screen's modal (\<open>fixed inset-0 z-50\<close>) covers the navigation bar
  (\<open>z-40\<close>) and the screen. The forms submit only when the browser's constraint
  validation passes: every \<open>required\<close> field is non-empty, \<open>type="email"\<close> fields hold a
  valid address (the HTML standard's rule, below) and the passwords meet
  \<open>minLength={8}\<close>; lengths are counted on the byte strings, which agrees with the
  browser's UTF-16 count for ASCII input.
\<close>

subsection \<open>Screens and the application state\<close>

datatype auth_view = AuthLogin | AuthRegister

datatype screen =
    ScrDashboard dashboard_state
  | ScrStats stats_state
  | ScrTrends period
  | ScrTasks tasks_state
  | ScrProgress "js_string option"
  | ScrCamera
  | ScrSettings bool

record app_state =
  isLoggedIn :: bool
  authView :: auth_view
  app_activeTab :: tab
  darkMode :: bool
  returnTab :: "tab option"
  screen :: screen
  chat :: chat_state

text \<open>\<open>renderScreen\<close>: the screen a tab mounts, in its initial state.\<close>

fun mount :: "tab \<Rightarrow> screen" where
  "mount HOME = ScrDashboard dashboard_init"
| "mount STATS = ScrStats stats_init"
| "mount TRENDS = ScrTrends P24h"
| "mount TASKS = ScrTasks tasks_init"
| "mount PROGRESS = ScrProgress None"
| "mount CAMERA = ScrCamera"
| "mount SETTINGS = ScrSettings False"

fun screen_tab :: "screen \<Rightarrow> tab" where
  "screen_tab (ScrDashboard _) = HOME"
| "screen_tab (ScrStats _) = STATS"
| "screen_tab (ScrTrends _) = TRENDS"
| "screen_tab (ScrTasks _) = TASKS"
| "screen_tab (ScrProgress _) = PROGRESS"
| "screen_tab ScrCamera = CAMERA"
| "screen_tab (ScrSettings _) = SETTINGS"

definition app_init :: app_state where
  "app_init = \<lparr>isLoggedIn = False, authView = AuthLogin, app_activeTab = HOME, darkMode = False,
     returnTab = None, screen = mount HOME, chat = chat_init\<rparr>"

text \<open>The tabs of the bottom navigation, \<open>navItems\<close> of \<open>Layout\<close>.\<close>

definition navItems :: "tab list" where
  "navItems = [HOME, STATS, PROGRESS, TRENDS, TASKS, SETTINGS]"

subsection \<open>Form validation\<close>

definition ascii_alnum :: "char \<Rightarrow> bool" where
  "ascii_alnum c \<longleftrightarrow> (let n = of_char c :: nat in
     (48 \<le> n \<and> n \<le> 57) \<or> (65 \<le> n \<and> n \<le> 90) \<or> (97 \<le> n \<and> n \<le> 122))"

definition email_local_char :: "char \<Rightarrow> bool" where
  "email_local_char c \<longleftrightarrow> ascii_alnum c \<or> c \<in> set ''.!#$%&'*+/=?^_`{|}~-''"

definition email_label_ok :: "js_string \<Rightarrow> bool" where
  "email_label_ok l \<longleftrightarrow> l \<noteq> [] \<and> length l \<le> 63 \<and> list_all (\<lambda>c. ascii_alnum c \<or> c = CHR ''-'') l \<and>
     hd l \<noteq> CHR ''-'' \<and> last l \<noteq> CHR ''-''"

text \<open>
  A valid e-mail address in the sense of the HTML standard (the check of an
  \<open>input type="email"\<close>): a non-empty local part of the allowed characters, one
  \<open>@\<close>, and dot-separated domain labels of letters, digits and inner hyphens.
\<close>

definition valid_email :: "js_string \<Rightarrow> bool" where
  "valid_email e \<longleftrightarrow>
     (let l = takeWhile (\<lambda>c. c \<noteq> CHR ''@'') e; r = dropWhile (\<lambda>c. c \<noteq> CHR ''@'') e in
      l \<noteq> [] \<and> list_all email_local_char l \<and> r \<noteq> [] \<and> list_all email_label_ok (js_split CHR ''.'' (tl r)))"

text \<open>
  The login form's e-mail field is not \<open>required\<close> (it starts as
  \<open>manager@sporacle.com\<close>), so it blocks the submission only when it holds text that is
  not an address; the password field has no constraint.
\<close>

definition login_valid :: "js_string \<Rightarrow> bool" where
  "login_valid email \<longleftrightarrow> email = [] \<or> valid_email email"

record register_form =
  reg_username :: js_string
  reg_email :: js_string
  reg_farmName :: js_string
  reg_companyName :: js_string
  reg_gst :: js_string
  reg_password :: js_string
  reg_confirmPassword :: js_string

definition register_valid :: "register_form \<Rightarrow> bool" where
  "register_valid f \<longleftrightarrow>
     reg_username f \<noteq> [] \<and> reg_email f \<noteq> [] \<and> valid_email (reg_email f) \<and>
     reg_farmName f \<noteq> [] \<and> reg_companyName f \<noteq> [] \<and> reg_gst f \<noteq> [] \<and>
     8 \<le> length (reg_password f) \<and> 8 \<le> length (reg_confirmPassword f)"

subsection \<open>Handlers\<close>

datatype app_event =
    LoginSubmit js_string
  | ShowRegister
  | ShowLogin
  | RegisterSubmit register_form
  | NavClick tab
  | DashboardEv dashboard_event
  | TasksEv tasks_event
  | StatsPeriod chart_period
  | TrendsPeriod period
  | AssignToStaff
  | ProgressToggle js_string
  | ToggleDark
  | ToggleProfile
  | Logout
  | ChatEv chat_event

text \<open>
  \<open>handleLogin\<close>: the shell renders \<open>Layout\<close> again, which mounts the screen of the
  active tab and a new assistant.
\<close>

definition handleLogin :: "app_state \<Rightarrow> app_state" where
  "handleLogin s = s\<lparr>isLoggedIn := True, screen := mount (app_activeTab s), chat := chat_init\<rparr>"

definition handleLogout :: "app_state \<Rightarrow> app_state" where
  "handleLogout s = s\<lparr>isLoggedIn := False, authView := AuthLogin, app_activeTab := HOME\<rparr>"

definition handleNavigate :: "app_state \<Rightarrow> tab \<Rightarrow> app_state" where
  "handleNavigate s t = (if t = app_activeTab s then s else s\<lparr>app_activeTab := t, screen := mount t\<rparr>)"

text \<open>\<open>Stats\<close>: its \<open>handlePeriodChange\<close> on the mounted screen's state.\<close>

definition statsPeriodChange :: "app_state \<Rightarrow> chart_period \<Rightarrow> app_state" where
  "statsPeriodChange s p =
     (case screen s of ScrStats st \<Rightarrow> s\<lparr>screen := ScrStats (stats_handlePeriodChange st p)\<rparr> | _ \<Rightarrow> s)"

text \<open>\<open>Trends\<close>: \<open>handlePeriodChange\<close> and the \<open>Assign to Staff\<close> button.\<close>

definition handlePeriodChange :: "app_state \<Rightarrow> period \<Rightarrow> app_state" where
  "handlePeriodChange s p = (case screen s of ScrTrends _ \<Rightarrow> s\<lparr>screen := ScrTrends p\<rparr> | _ \<Rightarrow> s)"

definition assignToStaff :: "app_state \<Rightarrow> app_state" where
  "assignToStaff s = handleNavigate (s\<lparr>returnTab := Some TRENDS\<rparr>) TASKS"

text \<open>\<open>Settings\<close>: the dark-mode button (App's \<open>toggleDarkMode\<close>) and the profile modal.\<close>

definition toggleDarkMode :: "app_state \<Rightarrow> app_state" where
  "toggleDarkMode s = s\<lparr>darkMode := \<not> darkMode s\<rparr>"

definition toggleProfile :: "app_state \<Rightarrow> app_state" where
  "toggleProfile s = (case screen s of ScrSettings b \<Rightarrow> s\<lparr>screen := ScrSettings (\<not> b)\<rparr> | _ \<Rightarrow> s)"

text \<open>The view of the Settings screen when it is mounted (\<open>Settings_View\<close>).\<close>

definition app_settings_view :: "app_state \<Rightarrow> settings_view option" where
  "app_settings_view s = (case screen s of ScrSettings b \<Rightarrow> Some (settings_render (darkMode s) b) | _ \<Rightarrow> None)"

text \<open>
  The switch between the two forms: Login's \<open>Sign Up\<close> button and Register's
  \<open>handleSwitch\<close>, which call App's \<open>setAuthView\<close>.
\<close>

definition switchToRegister :: "app_state \<Rightarrow> app_state" where
  "switchToRegister s = s\<lparr>authView := AuthRegister\<rparr>"

definition switchToLogin :: "app_state \<Rightarrow> app_state" where
  "switchToLogin s = s\<lparr>authView := AuthLogin\<rparr>"

text \<open>\<open>Progress\<close>: expanding and collapsing a card (\<open>toggleExpand\<close> of \<open>Lifecycle\<close>).\<close>

definition progressToggle :: "app_state \<Rightarrow> js_string \<Rightarrow> app_state" where
  "progressToggle s c = (case screen s of ScrProgress x \<Rightarrow> s\<lparr>screen := ScrProgress (toggleExpand x c)\<rparr> | _ \<Rightarrow> s)"

text \<open>A screen's \<open>onNavigate\<close> call, if its handler made one.\<close>

definition nav_opt :: "app_state \<Rightarrow> tab option \<Rightarrow> app_state" where
  "nav_opt s nav = (case nav of None \<Rightarrow> s | Some t \<Rightarrow> handleNavigate s t)"

fun app_step :: "app_state \<Rightarrow> app_event \<Rightarrow> app_state" where
  "app_step s (LoginSubmit email) = handleLogin s"
| "app_step s ShowRegister = switchToRegister s"
| "app_step s ShowLogin = switchToLogin s"
| "app_step s (RegisterSubmit f) = handleLogin s"
| "app_step s (NavClick t) = handleNavigate s t"
| "app_step s (DashboardEv e) =
     (case screen s of
        ScrDashboard d \<Rightarrow> (case dashboard_step d e of (d', nav) \<Rightarrow> nav_opt (s\<lparr>screen := ScrDashboard d'\<rparr>) nav)
      | _ \<Rightarrow> s)"
| "app_step s (TasksEv e) =
     (case screen s of
        ScrTasks ts \<Rightarrow> (case tasks_step ts (returnTab s) e of (ts', stored, nav) \<Rightarrow>
                          nav_opt (s\<lparr>screen := ScrTasks ts', returnTab := stored\<rparr>) nav)
      | _ \<Rightarrow> s)"
| "app_step s (StatsPeriod p) = statsPeriodChange s p"
| "app_step s (TrendsPeriod p) = handlePeriodChange s p"
| "app_step s AssignToStaff = assignToStaff s"
| "app_step s (ProgressToggle c) = progressToggle s c"
| "app_step s ToggleDark = toggleDarkMode s"
| "app_step s ToggleProfile = toggleProfile s"
| "app_step s Logout = handleLogout s"
| "app_step s (ChatEv e) = s\<lparr>chat := chat_handle (chat s) e\<rparr>"

subsection \<open>Which events can happen\<close>

fun screen_modal :: "screen \<Rightarrow> bool" where
  "screen_modal (ScrTasks ts) = modal_open ts"
| "screen_modal (ScrSettings b) = b"
| "screen_modal _ = False"

fun app_enabled :: "app_state \<Rightarrow> app_event \<Rightarrow> bool" where
  "app_enabled s (LoginSubmit email) = (\<not> isLoggedIn s \<and> authView s = AuthLogin \<and> login_valid email)"
| "app_enabled s ShowRegister = (\<not> isLoggedIn s \<and> authView s = AuthLogin)"
| "app_enabled s ShowLogin = (\<not> isLoggedIn s \<and> authView s = AuthRegister)"
| "app_enabled s (RegisterSubmit f) = (\<not> isLoggedIn s \<and> authView s = AuthRegister \<and> register_valid f)"
| "app_enabled s (NavClick t) = (isLoggedIn s \<and> \<not> screen_modal (screen s) \<and> t \<in> set navItems)"
| "app_enabled s (DashboardEv e) =
     (isLoggedIn s \<and> (case screen s of ScrDashboard d \<Rightarrow> dashboard_enabled d e | _ \<Rightarrow> False))"
| "app_enabled s (TasksEv e) =
     (isLoggedIn s \<and> (case screen s of ScrTasks ts \<Rightarrow> tasks_enabled ts e | _ \<Rightarrow> False))"
| "app_enabled s (StatsPeriod p) = (isLoggedIn s \<and> (case screen s of ScrStats _ \<Rightarrow> True | _ \<Rightarrow> False))"
| "app_enabled s (TrendsPeriod p) = (isLoggedIn s \<and> (case screen s of ScrTrends _ \<Rightarrow> True | _ \<Rightarrow> False))"
| "app_enabled s AssignToStaff = (isLoggedIn s \<and> (case screen s of ScrTrends _ \<Rightarrow> True | _ \<Rightarrow> False))"
| "app_enabled s (ProgressToggle c) =
     (isLoggedIn s \<and> (case screen s of ScrProgress _ \<Rightarrow> c \<in> chamberId ` set MUSHROOM_DATA | _ \<Rightarrow> False))"
| "app_enabled s ToggleDark = (isLoggedIn s \<and> (case screen s of ScrSettings b \<Rightarrow> \<not> b | _ \<Rightarrow> False))"
| "app_enabled s ToggleProfile = (isLoggedIn s \<and> (case screen s of ScrSettings _ \<Rightarrow> True | _ \<Rightarrow> False))"
| "app_enabled s Logout = (isLoggedIn s \<and> (case screen s of ScrSettings b \<Rightarrow> \<not> b | _ \<Rightarrow> False))"
| "app_enabled s (ChatEv e) = (isLoggedIn s \<and> chat_enabled (chat s) e)"

inductive app_reachable :: "app_state \<Rightarrow> bool" where
  init: "app_reachable app_init"
| step: "app_reachable s \<Longrightarrow> app_enabled s e \<Longrightarrow> app_reachable (app_step s e)"

fun app_run :: "app_state \<Rightarrow> app_event list \<Rightarrow> app_state option" where
  "app_run s [] = Some s"
| "app_run s (e # es) = (if app_enabled s e then app_run (app_step s e) es else None)"

subsection \<open>The invariant and concrete runs\<close>

text \<open>
  The invariant of the shell: while logged in the mounted screen belongs to the active
  tab, the stored return tab is absent or Trends, and Camera is never the tab nor the
  mounted screen. \<open>stale_trace\<close> is the session of C34 and \<open>mismatch_form\<close> a
  registration whose two passwords differ.
\<close>


definition app_inv :: "app_state \<Rightarrow> bool" where
  "app_inv s \<longleftrightarrow> (isLoggedIn s \<longrightarrow> screen_tab (screen s) = app_activeTab s) \<and>
     returnTab s \<in> {None, Some TRENDS} \<and> app_activeTab s \<noteq> CAMERA \<and> screen_tab (screen s) \<noteq> CAMERA"

definition stale_trace :: "app_event list" where
  "stale_trace = [LoginSubmit ''manager@sporacle.com'', NavClick TRENDS, AssignToStaff, NavClick SETTINGS, Logout,
     LoginSubmit ''manager@sporacle.com'', NavClick TASKS, TasksEv (TabChange TasksTab), TasksEv (OpenNote (hd MOCK_TASKS)),
     TasksEv (TypeNote ''bearings checked''), TasksEv SaveNote]"

abbreviation app_after :: "app_event list \<Rightarrow> app_state" where
  "app_after es \<equiv> the (app_run app_init es)"

lemmas app_handler_defs = handleLogin_def handleLogout_def handleNavigate_def
  statsPeriodChange_def handlePeriodChange_def assignToStaff_def toggleDarkMode_def toggleProfile_def progressToggle_def
  switchToRegister_def switchToLogin_def

lemma screen_tab_mount [simp]: "screen_tab (mount t) = t"
  by (cases t) simp_all

lemma tasks_step_stored: "fst (snd (tasks_step ts st e)) \<in> {st, None} \<and> snd (snd (tasks_step ts st e)) \<in> {None, st}"
  by (cases e) (auto simp: handleConfirmAssignment_def handleSaveNote_def consume_returnTab_def Let_def
                     split: option.splits prod.splits)

lemma dashboard_step_nav: "snd (dashboard_step d e) \<in> {None, Some TRENDS, Some TASKS}"
  by (cases e) simp_all

lemma handleNavigate_inv: "app_inv s \<Longrightarrow> t \<noteq> CAMERA \<Longrightarrow> app_inv (handleNavigate s t)"
  by (simp add: app_inv_def handleNavigate_def)

lemma nav_opt_inv: "app_inv s \<Longrightarrow> nav \<noteq> Some CAMERA \<Longrightarrow> app_inv (nav_opt s nav)"
  by (cases nav) (simp_all add: nav_opt_def handleNavigate_inv)

lemma app_step_inv: "app_inv s \<Longrightarrow> app_enabled s e \<Longrightarrow> app_inv (app_step s e)"
proof (cases e)
  case (NavClick t)
  moreover assume "app_inv s" "app_enabled s e"
  ultimately show ?thesis by (auto simp: navItems_def intro: handleNavigate_inv)
next
  case (DashboardEv de)
  moreover assume inv: "app_inv s" and en: "app_enabled s e"
  ultimately obtain d where d: "screen s = ScrDashboard d" by (auto split: screen.splits)
  obtain d' nav where st: "dashboard_step d de = (d', nav)" by (cases "dashboard_step d de")
  from st have "nav \<noteq> Some CAMERA" using dashboard_step_nav [of d de] by auto
  moreover have "app_inv (s\<lparr>screen := ScrDashboard d'\<rparr>)" using inv d by (simp add: app_inv_def)
  ultimately show ?thesis using DashboardEv d st by (simp add: nav_opt_inv)
next
  case (TasksEv te)
  moreover assume inv: "app_inv s" and en: "app_enabled s e"
  ultimately obtain ts where ts: "screen s = ScrTasks ts" by (auto split: screen.splits)
  obtain ts' st nav where stp: "tasks_step ts (returnTab s) te = (ts', st, nav)" by (cases "tasks_step ts (returnTab s) te")
  from stp tasks_step_stored [of ts "returnTab s" te] inv
  have "st \<in> {None, Some TRENDS}" "nav \<noteq> Some CAMERA" by (auto simp: app_inv_def)
  moreover have "app_inv (s\<lparr>screen := ScrTasks ts', returnTab := st\<rparr>)"
    using inv ts \<open>st \<in> {None, Some TRENDS}\<close> by (simp add: app_inv_def)
  ultimately show ?thesis using TasksEv ts stp by (simp add: nav_opt_inv)
next
  case AssignToStaff
  moreover assume "app_inv s"
  ultimately show ?thesis by (simp add: app_inv_def assignToStaff_def handleNavigate_def)
qed (auto simp: app_inv_def app_handler_defs split: screen.splits)

lemma app_reachable_inv: "app_reachable s \<Longrightarrow> app_inv s"
proof (induction rule: app_reachable.induct)
  case init
  show ?case by (simp add: app_inv_def app_init_def)
next
  case (step s e)
  from step.IH step.hyps(2) show ?case by (rule app_step_inv)
qed

lemma app_run_reachable: "app_reachable s \<Longrightarrow> app_run s es = Some s' \<Longrightarrow> app_reachable s'"
proof (induction es arbitrary: s)
  case Nil
  then show ?case by simp
next
  case (Cons e es)
  then show ?case by (auto split: if_splits intro: app_reachable.step)
qed

lemma app_run_prefix: "app_run s (es @ es') \<noteq> None \<Longrightarrow> app_run s es \<noteq> None"
proof (induction es arbitrary: s)
  case Nil
  then show ?case by simp
next
  case (Cons e es)
  then show ?case by (auto split: if_splits)
qed

lemma stale_trace_reachable: "app_reachable (app_after (take n stale_trace))"
proof -
  have "app_run app_init stale_trace \<noteq> None" by code_simp
  then have "app_run app_init (take n stale_trace @ drop n stale_trace) \<noteq> None" by simp
  then obtain s' where "app_run app_init (take n stale_trace) = Some s'"
    using app_run_prefix by blast
  then show ?thesis using app_run_reachable [OF app_reachable.init] by simp
qed

lemma chat_nav_opt [simp]: "chat (nav_opt s nav) = chat s"
  by (cases nav) (simp_all add: nav_opt_def app_handler_defs)

subsection \<open>Properties of the composed application\<close>



text \<open>
  C32. The Camera placeholder of \<open>renderScreen\<close> is dead code: the navigation bar has no
  Camera item, the dashboard navigates only to Trends and Tasks, and the only tab ever
  stored in \<open>returnTab\<close> is Trends, so no reachable state shows Camera.
\<close>

theorem camera_unreachable:
  "app_reachable s \<Longrightarrow> app_activeTab s \<noteq> CAMERA \<and> screen_tab (screen s) \<noteq> CAMERA"
  using app_reachable_inv [of s] by (simp add: app_inv_def)

theorem camera_unreachable_witness:
  "app_reachable (app_after stale_trace) \<and> app_activeTab (app_after stale_trace) \<noteq> CAMERA"
  using camera_unreachable [OF stale_trace_reachable [of 11]] stale_trace_reachable [of 11]
  by (simp add: stale_trace_def)

text \<open>
  C33. Leaving the Tasks tab discards its work: after any other tab, Tasks is mounted
  again with the mock alerts and tasks, so assignments, completions and notes are lost.
\<close>

theorem tasks_lost_on_leave:
  "app_activeTab s = TASKS \<Longrightarrow> t \<noteq> TASKS \<Longrightarrow>
   screen (app_step (app_step s (NavClick t)) (NavClick TASKS)) = ScrTasks tasks_init"
  by (simp add: app_handler_defs)

theorem tasks_lost_on_leave_witness:
  "app_activeTab (app_after (take 3 stale_trace)) = TASKS \<and>
   screen (app_step (app_step (app_after (take 3 stale_trace)) (NavClick HOME)) (NavClick TASKS)) = ScrTasks tasks_init"
proof -
  have a: "app_activeTab (app_after (take 3 stale_trace)) = TASKS" by code_simp
  show ?thesis using tasks_lost_on_leave [OF a, of HOME] a by simp
qed

text \<open>
  C34. A stale return tab survives leaving Tasks and even signing out: the manager presses
  \<open>Assign to Staff\<close> on Trends, leaves Tasks without confirming, signs out, signs in,
  opens Tasks from the navigation bar and saves a note, and is sent to Trends.
\<close>

theorem stale_return_tab:
  "app_reachable (app_after stale_trace) \<and>
   returnTab (app_after (take 3 stale_trace)) = Some TRENDS \<and>
   \<not> isLoggedIn (app_after (take 5 stale_trace)) \<and>
   app_activeTab (app_after (take 10 stale_trace)) = TASKS \<and>
   stale_trace ! 10 = TasksEv SaveNote \<and>
   app_activeTab (app_after stale_trace) = TRENDS"
proof -
  have r: "app_reachable (app_after stale_trace)" using stale_trace_reachable [of 11] by (simp add: stale_trace_def)
  have "returnTab (app_after (take 3 stale_trace)) = Some TRENDS" by code_simp
  moreover have "\<not> isLoggedIn (app_after (take 5 stale_trace))" by code_simp
  moreover have "app_activeTab (app_after (take 10 stale_trace)) = TASKS" by code_simp
  moreover have "stale_trace ! 10 = TasksEv SaveNote" by (simp add: stale_trace_def)
  moreover have "app_activeTab (app_after stale_trace) = TRENDS" by code_simp
  ultimately show ?thesis using r by blast
qed

text \<open>
  C35. The intended round trip of \<open>Assign to Staff\<close>: from Trends, assigning any alert
  to any worker returns to a fresh Trends screen, clears the stored return tab and leaves
  the assistant untouched.
\<close>

theorem assign_roundtrip:
  assumes "isLoggedIn s" and "screen s = ScrTrends p" and "app_activeTab s = TRENDS"
    and "a \<in> set MOCK_ALERTS" and "w \<in> worker_id ` set WORKERS" and "0 < t"
  shows "\<exists>s'. app_run s [AssignToStaff, TasksEv (OpenAssign a), TasksEv (SelectWorker w), TasksEv (ConfirmAssign t)] = Some s' \<and>
             app_activeTab s' = TRENDS \<and> returnTab s' = None \<and> screen s' = ScrTrends P24h \<and> chat s' = chat s"
proof -
  have w: "w \<noteq> []" using assms(5) by (auto simp: WORKERS_def)
  show ?thesis
    using assms w
    by (simp add: app_handler_defs nav_opt_def tasks_init_def modal_open_def
                  handleConfirmAssignment_def consume_returnTab_def)
qed

theorem assign_roundtrip_witness:
  "isLoggedIn (app_after (take 2 stale_trace)) \<and> screen (app_after (take 2 stale_trace)) = ScrTrends P24h \<and>
   app_activeTab (app_after (take 2 stale_trace)) = TRENDS \<and>
   app_run (app_after (take 2 stale_trace))
     [AssignToStaff, TasksEv (OpenAssign (hd MOCK_ALERTS)), TasksEv (SelectWorker ''w2''), TasksEv (ConfirmAssign 7)] \<noteq> None"
proof -
  have l: "isLoggedIn (app_after (take 2 stale_trace))" by code_simp
  have "case screen (app_after (take 2 stale_trace)) of ScrTrends q \<Rightarrow> q = P24h | _ \<Rightarrow> False" by code_simp
  then have sc: "screen (app_after (take 2 stale_trace)) = ScrTrends P24h" by (simp split: screen.splits)
  have tb: "app_activeTab (app_after (take 2 stale_trace)) = TRENDS" by code_simp
  have a: "hd MOCK_ALERTS \<in> set MOCK_ALERTS" by (simp add: MOCK_ALERTS_def)
  have w: "''w2'' \<in> worker_id ` set WORKERS" by (simp add: WORKERS_def)
  have t: "0 < (7::nat)" by simp
  from assign_roundtrip [OF l sc tb a w t] obtain s' where
    "app_run (app_after (take 2 stale_trace))
       [AssignToStaff, TasksEv (OpenAssign (hd MOCK_ALERTS)), TasksEv (SelectWorker ''w2''), TasksEv (ConfirmAssign 7)] = Some s'"
    by blast
  then have "app_run (app_after (take 2 stale_trace))
       [AssignToStaff, TasksEv (OpenAssign (hd MOCK_ALERTS)), TasksEv (SelectWorker ''w2''), TasksEv (ConfirmAssign 7)] \<noteq> None"
    by (metis option.distinct(2))
  with l sc tb show ?thesis by blast
qed





end
