(* ===== verification/Spec2Isabelle.thy ===== *)
theory Spec2Isabelle
  imports App_Shell Severity_Spec
begin

text \<open>
  \<^bold>\<open>Sporacle: a verification development.\<close>

  Sporacle (\<open>src/\<close>) is a React single-page mockup of a mushroom-farm monitoring app. It
  has no backend: every screen computes from the in-memory data of \<open>src/constants.ts\<close>
  and keeps its own React state. This development models the program's logic as
  executable HOL definitions, one theory per part, and proves what makes each part
  correct, together with the defects the models expose.

  \<^bold>\<open>Parts and how they interact.\<close> \<open>App.tsx\<close> holds the login state and the active tab,
  and renders one screen per tab inside \<open>Layout.tsx\<close>, which adds the bottom navigation
  and the assistant widget \<open>Sporcbot.tsx\<close>. Screens talk to the shell through an
  \<open>onNavigate\<close> callback and, for the Trends-to-Tasks round trip, through
  \<open>sessionStorage.returnTab\<close>. The assistant answers with the rule engine
  \<open>generateSporcbotResponse\<close> of \<open>constants.ts\<close> after a random delay.

  \<^bold>\<open>Theories.\<close>
  \<^item> \<open>Prelude\<close>: the collections \<open>js_simps\<close> and \<open>handler_defs\<close>, type names
    (\<open>js_string\<close>, \<open>millis\<close>), and generic lemmas on lists, maps and maxima.
  \<^item> \<open>JsRuntime\<close>: the JavaScript built-ins the code calls, on strings of UTF-8 bytes:
    \<open>toLowerCase\<close> (ASCII letters, as the keywords are ASCII), \<open>includes\<close> (proved equal
    to \<open>Sublist.sublist\<close>), \<open>startsWith\<close>, \<open>trim\<close>, \<open>join\<close>, \<open>split\<close> (with the
    split/join round trip), \<open>toString\<close> of naturals (with its inverse) and of the decimal
    literals the data uses (\<open>js_number\<close>: value \<open>m / 10\<^sup>e\<close>, printed as JavaScript
    prints it), and division with IEEE infinities and NaN (\<open>js_real\<close>).
  \<^item> \<open>Types\<close>: \<open>src/types.ts\<close>, enums as datatypes and interfaces as records; severity is
    ordered \<open>OFFLINE < NORMAL < WARNING < CRITICAL\<close> by a \<open>linorder\<close> instance.
  \<^item> \<open>Constants\<close>: the data of \<open>src/constants.ts\<close> (metrics, alerts, tasks, workers,
    company and employee profile, chambers, trend bands, FAQ, the assistant's sensor
    context).
  \<^item> \<open>Sporcbot_Engine\<close>: \<open>generateSporcbotResponse\<close>, the if-chain over lower-cased
    keywords, as \<open>sporcbot_response\<close> over a context parameter, and the spec's abstract
    dispatcher (an ordered keyword table) it refines. Claims C1--C3, C5, C6.
  \<^item> \<open>Dashboard_Status\<close>: \<open>src/screens/Dashboard.tsx\<close> (worst-status reduce, headline,
    chamber menu, navigation handlers as a step function) and
    \<open>src/components/MetricTile.tsx\<close> (colours, value text, and the whole rendered tile as a
    \<open>tile_view\<close> record, one per metric of the data grid). Claims C7--C10.
  \<^item> \<open>Severity_Spec\<close>: the spec's severity classifier (section 4.1), which the code does
    not implement (each mock metric stores its status), as an abstract specification; the
    stored statuses checked against it, and the assistant's snapshot against the
    dashboard's. Claim C4.
  \<^item> \<open>Lifecycle\<close>: \<open>src/screens/Progress.tsx\<close>, the seven lifecycle tables and every value
    a card derives (phase, days left, critical flag, marker and segment widths with IEEE
    division), and the rendered card as a \<open>card_view\<close> record (header, badge, phase bar,
    day line, legend and harvest window when expanded). Claims C11, C12, C14--C18.
  \<^item> \<open>Chat_Session\<close>: \<open>src/components/Sporcbot.tsx\<close> over the browser's event loop: the
    widget's state plus the pending \<open>setTimeout\<close> callbacks and a clock; every handler,
    the timer callback, enabledness read off the render, reachability, concrete runs, and
    the event loop draining the timers as a \<open>while_option\<close> loop. Claims C19--C24, C38, C39.
  \<^item> \<open>Tasks_Screen\<close>: \<open>src/screens/Tasks.tsx\<close>, all state and handlers, including the
    \<open>returnTab\<close> it reads and clears, and the two modals as rendered (their disabled
    buttons proved to be the events' enabledness conditions). Claims C25--C30.
  \<^item> \<open>Stats_Charts\<close>: \<open>src/screens/Stats.tsx\<close> (chart period, table with
    \<open>toLocaleString\<close>, the whole render as \<open>stats_render\<close>) and the trend series of \<open>constants.ts\<close> and \<open>Trends.tsx\<close>. Claim C40.
  \<^item> \<open>Trends_View\<close>: the render of \<open>src/screens/Trends.tsx\<close>: period selector, chart
    cards (band, label, series, axis ticks), the tooltip \<open>CustomTooltip\<close> with
    \<open>toFixed(1)\<close> (ECMAScript's steps on exact rationals), the action card. Claim C13.
  \<^item> \<open>Settings_View\<close>: the render of \<open>src/screens/Settings.tsx\<close> (theme icon, employee
    card, company details, sign out, the employee modal and its timeline).
  \<^item> \<open>App_Shell\<close>: \<open>src/App.tsx\<close>, \<open>src/components/Layout.tsx\<close>, the handlers of
    \<open>Trends.tsx\<close>, \<open>Settings.tsx\<close>, \<open>Stats.tsx\<close> and the Progress card toggle, and the
    forms of \<open>Login.tsx\<close> and \<open>Register.tsx\<close> with the switch between them: the whole application as one step
    function over \<open>app_state\<close>, which holds the mounted screen's state (reset on every
    change of tab, as React unmounts it), the assistant's state (kept across tabs, new at
    each login) and \<open>sessionStorage\<close>. Claims C31--C37.

  \<^bold>\<open>How state and operations correspond to the code.\<close> Each component's React state is a
  record; each handler is a definition named after it that returns the new state, and
  where the handler calls \<open>onNavigate\<close> or touches \<open>sessionStorage\<close>, also the tab it
  requests and the stored value. A screen's events are a datatype and its step function
  dispatches them; which events can happen is a predicate read off the render (which
  buttons exist, which modal covers the screen, which button is disabled). Reachable
  states are an inductive predicate closed under enabled steps, and a run function
  executes a list of events, so that concrete scenarios evaluate by \<open>code_simp\<close>.

  \<^bold>\<open>What the lemmas show.\<close> Refinement of the spec's abstract dispatcher and
  worst-status function (C1, C7, C11); agreement of the stored statuses with the spec's
  classifier, and the drift between the dashboard's and the assistant's data (C4); the
  functional behaviour of the engine and the screens on every branch (C2, C3, C5, C6, C9,
  C12, C16, C27, C30, C33, C35); bounds of days left, of the progress marker and of
  the phase bar's total width (C14, C15, C17); invariants of every reachable state proved
  by rule induction (C10, C19, C25, C26, C29, C31, C32); safety properties and the
  reachable traces that break them (C18, C21--C24, C34, C36, C37, C39); order
  independence (C8); liveness and termination of the reply timers (C20, C38); the
  well-formedness and round trip of the printed numbers (C40) and the rounding of the
  charts' tooltips (C13).

  \<^bold>\<open>Bounds and time.\<close> Times are natural milliseconds. A reply waits
  \<open>1200 + Math.random() * 800\<close> ms, an integer delay \<open>d\<close> with \<open>1200 \<le> d < 2000\<close>;
  user events happen at a time not before the clock nor after a due timer. Task ids use
  \<open>Date.now()\<close>, modelled as strictly increasing between two confirmations. There is no
  fuel: every loop of the code is structural recursion, the digit grouping of
  \<open>toLocaleString\<close> terminates by the measure \<open>length\<close>, and the timer loop is a
  \<open>while_option\<close> proved to return (C38). Numbers of the data are exact decimals; the
  random draws of the trend series are a parameter of 24 rationals in \<open>[0, 1)\<close>, one
  list per trend; their values are taken as exact rationals, not as doubles, so
  \<open>toFixed(1)\<close> rounds exact ties up where a double's binary value may fall on either
  side.

  \<^bold>\<open>Not modelled.\<close> Styling, layout and animation (Tailwind classes, framer-motion);
  the drawing of charts (recharts) beyond the data and labels they are given; sounds
  (\<open>playClickSound\<close>, \<open>playReceiveSound\<close>: Web Audio calls whose result nothing reads);
  scrolling and the voice button of the assistant; \<open>src/components/Aurora.tsx\<close> (a
  background animation); \<open>src/components/three/TrendsScene.tsx\<close>, which no file imports;
  \<open>src/components/Button.tsx\<close>, a wrapper that forwards \<open>onClick\<close> and \<open>disabled\<close>
  (its callers' handlers are modelled); the dark-mode class effect on the document; locales other than
  \<open>en-US\<close> for \<open>toLocaleString\<close>; the exponent form \<open>toFixed\<close> uses at
  \<open>10\<^sup>21\<close> and above (\<open>None\<close> in the model; the chart values stay below 1000); the
  3D tilt of the trend cards (framer-motion values driven by the pointer), which is
  animation.
\<close>

end
